theory Spec2Isabelle
  imports Main "HOL-Library.Sublist"
begin

section \<open>Scope and conventions\<close>

text \<open>
  The repository holds two variants of one background page:
  \<^item> \<^verbatim>\<open>src-refactor/background-page/background-page.ts\<close>, the object-style original.  Its
    functions live in the objects \<^verbatim>\<open>backgroundLogic\<close>, \<^verbatim>\<open>assignManager\<close>, \<^verbatim>\<open>identityState\<close> and
    \<^verbatim>\<open>messageHandler\<close>; their models carry the object's name as a prefix
    (\<^verbatim>\<open>backgroundLogic_checkArgs\<close>, \<^verbatim>\<open>assignManager_onBeforeRequest\<close>, ...).
  \<^item> \<^verbatim>\<open>src-refactor/background-page-1.ts\<close>, the typed refactoring with top-level functions;
    their models keep the plain names (\<^verbatim>\<open>checkArgs\<close>, \<^verbatim>\<open>onBeforeRequest\<close>, ...).

  Every \<^verbatim>\<open>async\<close> function is modelled as one uninterrupted run: the browser state goes in,
  the state after the last effect comes out.  A thrown exception or a rejected promise is the
  \<open>Inl\<close> branch of a sum.  JavaScript's \<^verbatim>\<open>undefined\<close>, \<^verbatim>\<open>null\<close> and \<^verbatim>\<open>false\<close>, where the code only
  tests them for truthiness, are \<open>None\<close>.
\<close>

subsection \<open>JavaScript values\<close>

datatype error =
    TypeError
  | Error string
  | Rejected string
  | BrowserError

text \<open>A property of an options object: missing, present but \<^verbatim>\<open>undefined\<close>, or present with a value.\<close>

datatype 'a optional = Absent | Undefined | Defined 'a

text \<open>\<^verbatim>\<open>key in options\<close>\<close>

fun has_key :: "'a optional \<Rightarrow> bool" where
  "has_key Absent = False"
| "has_key Undefined = True"
| "has_key (Defined v) = True"

text \<open>\<^verbatim>\<open>options[key]\<close>; \<open>None\<close> is \<^verbatim>\<open>undefined\<close>.\<close>

fun read_key :: "'a optional \<Rightarrow> 'a option" where
  "read_key Absent = None"
| "read_key Undefined = None"
| "read_key (Defined v) = Some v"

text \<open>
  \<^verbatim>\<open>String.prototype.replace(pattern, replacement)\<close> with a string pattern: the first occurrence
  of the pattern, if any, is replaced.
\<close>

fun String_replace :: "string \<Rightarrow> string \<Rightarrow> string \<Rightarrow> string" where
  "String_replace pat rep [] = (if pat = [] then rep else [])"
| "String_replace pat rep (c # cs) =
     (if prefix pat (c # cs) then rep @ drop (length pat) (c # cs)
      else c # String_replace pat rep cs)"

subsection \<open>The platform's URL class\<close>

text \<open>
  \<^verbatim>\<open>new URL(s)\<close> is the browser's parser, not code of the repository.  The functions below take it
  as a parameter \<open>newURL\<close>: \<open>None\<close> is the \<^verbatim>\<open>TypeError\<close> that the constructor throws on a string
  that is no URL, and the record holds the three getters the code reads.
\<close>

record URL =
  protocol :: string
  hostname :: string
  port :: string

type_synonym URL_parser = "string \<Rightarrow> URL option"

text \<open>
  A small executable parser for concrete inputs, covering \<^verbatim>\<open>scheme://host[:port][/...]\<close> and
  \<^verbatim>\<open>scheme:rest\<close>.  As the URL standard prescribes, the port getter is the empty string when
  the URL names no port or names the default port of its scheme.
\<close>

definition default_port :: "string \<Rightarrow> string" where
  "default_port scheme =
     (if scheme = ''http:'' \<or> scheme = ''ws:'' then ''80''
      else if scheme = ''https:'' \<or> scheme = ''wss:'' then ''443''
      else if scheme = ''ftp:'' then ''21''
      else [])"

definition platformURL :: URL_parser where
  "platformURL s =
     (let scheme = takeWhile (\<lambda>c. c \<noteq> CHR '':'') s;
          rest = dropWhile (\<lambda>c. c \<noteq> CHR '':'') s
      in if scheme = [] \<or> rest = [] then None
         else
           let proto = scheme @ '':''; r = tl rest
           in if take 2 r = ''//'' then
                let authority = takeWhile (\<lambda>c. c \<noteq> CHR ''/'' \<and> c \<noteq> CHR ''?'' \<and> c \<noteq> CHR ''#'') (drop 2 r);
                    host = takeWhile (\<lambda>c. c \<noteq> CHR '':'') authority;
                    p = drop 1 (dropWhile (\<lambda>c. c \<noteq> CHR '':'') authority)
                in Some \<lparr>protocol = proto, hostname = host,
                         port = (if p = default_port proto then [] else p)\<rparr>
              else Some \<lparr>protocol = proto, hostname = [], port = []\<rparr>)"

section \<open>Container ids and cookie-store ids\<close>

text \<open>\<^verbatim>\<open>background-page-1.ts\<close>, lines 24-33 and 363-365.\<close>

definition getUserContextIdFromCookieStoreId :: "string \<Rightarrow> string option" where
  "getUserContextIdFromCookieStoreId cookieStoreId =
     (if cookieStoreId = [] then None
      else
        let container = String_replace ''firefox-container-'' [] cookieStoreId
        in if container \<noteq> cookieStoreId then Some container else None)"

definition getCookieStoreId :: "string \<Rightarrow> string" where
  "getCookieStoreId userContextId = ''firefox-container-'' @ userContextId"

text \<open>
  \<^verbatim>\<open>background-page.ts\<close>, lines 13-22 and 321-323.  There the argument may be \<^verbatim>\<open>undefined\<close>
  (a tab without \<^verbatim>\<open>cookieStoreId\<close>), the failure value is \<^verbatim>\<open>false\<close>, and \<^verbatim>\<open>cookieStoreId\<close> is
  called with \<^verbatim>\<open>false\<close> too, which the template literal prints as \<^verbatim>\<open>false\<close>.
\<close>

definition backgroundLogic_getUserContextIdFromCookieStoreId :: "string option \<Rightarrow> string option" where
  "backgroundLogic_getUserContextIdFromCookieStoreId cookieStoreId =
     (case cookieStoreId of
        None \<Rightarrow> None
      | Some c \<Rightarrow>
          if c = [] then None
          else
            let container = String_replace ''firefox-container-'' [] c
            in if container \<noteq> c then Some container else None)"

definition backgroundLogic_cookieStoreId :: "string option \<Rightarrow> string" where
  "backgroundLogic_cookieStoreId userContextId =
     ''firefox-container-'' @ (case userContextId of None \<Rightarrow> ''false'' | Some u \<Rightarrow> u)"

section \<open>Site keys\<close>

text \<open>\<^verbatim>\<open>background-page-1.ts\<close>, lines 369-380.\<close>

definition getSiteStoreKey :: "URL_parser \<Rightarrow> string option \<Rightarrow> error + string" where
  "getSiteStoreKey newURL pageUrl =
     (case pageUrl of
        None \<Rightarrow> Inr []
      | Some p \<Rightarrow>
          if p = [] then Inr []
          else
            (case newURL p of
               None \<Rightarrow> Inl TypeError
             | Some url \<Rightarrow>
                 if port url = ''80'' \<or> port url = ''443''
                 then Inr (''siteContainerMap@@_'' @ hostname url)
                 else Inr (''siteContainerMap@@_'' @ hostname url @ port url)))"

text \<open>
  \<^verbatim>\<open>background-page.ts\<close>, lines 339-347: no guard for a missing url, so \<^verbatim>\<open>undefined\<close> reaches the
  URL constructor, which parses its string form.
\<close>

definition assignManager_getSiteStoreKey :: "URL_parser \<Rightarrow> string option \<Rightarrow> error + string" where
  "assignManager_getSiteStoreKey newURL pageUrl =
     (case newURL (case pageUrl of None \<Rightarrow> ''undefined'' | Some p \<Rightarrow> p) of
        None \<Rightarrow> Inl TypeError
      | Some url \<Rightarrow>
          if port url = ''80'' \<or> port url = ''443''
          then Inr (''siteContainerMap@@_'' @ hostname url)
          else Inr (''siteContainerMap@@_'' @ hostname url @ port url))"

section \<open>Browser state\<close>

text \<open>
  A tab as the code reads it (\<^verbatim>\<open>browser.tabs.Tab\<close>).  Open tabs always carry an id, so the
  \<^verbatim>\<open>tab.id == null\<close> guards of \<^verbatim>\<open>background-page-1.ts\<close> have no counterpart here.
\<close>

record Tab =
  tab_id :: int
  tab_url :: "string option"
  tab_cookieStoreId :: "string option"
  tab_windowId :: int
  tab_index :: nat
  tab_pinned :: bool
  tab_active :: bool
  tab_incognito :: bool
  tab_openerTabId :: "int option"

text \<open>A snapshot kept in \<^verbatim>\<open>hiddenTabs\<close>: a copy of the tab plus the \<^verbatim>\<open>hiddenState\<close> marker.\<close>

record TabObject = Tab +
  hiddenState :: bool

text \<open>\<^verbatim>\<open>_createTabObject\<close>: \<^verbatim>\<open>Object.assign({}, tab)\<close>; the copy has no \<^verbatim>\<open>hiddenState\<close> yet.\<close>

definition createTabObject :: "Tab \<Rightarrow> TabObject" where
  "createTabObject tab =
     \<lparr>tab_id = tab_id tab, tab_url = tab_url tab, tab_cookieStoreId = tab_cookieStoreId tab,
      tab_windowId = tab_windowId tab, tab_index = tab_index tab, tab_pinned = tab_pinned tab,
      tab_active = tab_active tab, tab_incognito = tab_incognito tab,
      tab_openerTabId = tab_openerTabId tab, hiddenState = False\<rparr>"

text \<open>
  \<^verbatim>\<open>browser.storage.local\<close> is one flat key-value namespace.  The repository writes three
  shapes of value: a site assignment (\<^verbatim>\<open>{userContextId, neverAsk}\<close>, with \<^verbatim>\<open>userContextId\<close>
  coerced to a string by \<^verbatim>\<open>_setOrRemoveAssignment\<close>), a container state
  (\<^verbatim>\<open>{hiddenTabs}\<close>), and counters and lists that have neither property.
\<close>

record SiteSettings =
  ss_userContextId :: string
  ss_neverAsk :: bool
  ss_hostname :: "string option"

datatype StoredValue =
    Assignment SiteSettings
  | ContainerState "TabObject list"
  | OtherValue

record Browser =
  open_tabs :: "Tab list"
  storage_local :: "string \<rightharpoonup> StoredValue"
  identities :: "string list"

text \<open>
  \<^verbatim>\<open>browser.tabs.query({cookieStoreId, windowId})\<close>: a filter that is \<^verbatim>\<open>undefined\<close> or missing
  does not restrict the result.  \<^verbatim>\<open>browser.tabs.remove(ids)\<close> closes the tabs with these ids.
\<close>

definition tabs_query :: "string option \<Rightarrow> int option \<Rightarrow> 'a Browser_scheme \<Rightarrow> Tab list" where
  "tabs_query cookieStoreId windowId b =
     filter
       (\<lambda>tab. (case cookieStoreId of None \<Rightarrow> True | Some c \<Rightarrow> tab_cookieStoreId tab = Some c)
            \<and> (case windowId of None \<Rightarrow> True | Some w \<Rightarrow> tab_windowId tab = w))
       (open_tabs b)"

definition tabs_remove :: "int list \<Rightarrow> 'a Browser_scheme \<Rightarrow> 'a Browser_scheme" where
  "tabs_remove tabIds b = b\<lparr>open_tabs := filter (\<lambda>tab. tab_id tab \<notin> set tabIds) (open_tabs b)\<rparr>"

section \<open>Container tab-state store\<close>

text \<open>\<^verbatim>\<open>background-page-1.ts\<close>, lines 909-965.\<close>

definition getContainerStoreKey :: "string \<Rightarrow> string" where
  "getContainerStoreKey cookieStoreId = ''identitiesState@@_'' @ cookieStoreId"

definition createIdentityState :: StoredValue where
  "createIdentityState = ContainerState []"

definition identityStateSet :: "string \<Rightarrow> StoredValue \<Rightarrow> 'a Browser_scheme \<Rightarrow> 'a Browser_scheme" where
  "identityStateSet cookieStoreId data b =
     (let storeKey = getContainerStoreKey cookieStoreId
      in b\<lparr>storage_local := (storage_local b)(storeKey \<mapsto> data)\<rparr>)"

definition identityStateGet :: "string \<Rightarrow> 'a Browser_scheme \<Rightarrow> StoredValue \<times> 'a Browser_scheme" where
  "identityStateGet cookieStoreId b =
     (let storeKey = getContainerStoreKey cookieStoreId
      in case storage_local b storeKey of
           Some v \<Rightarrow> (v, b)
         | None \<Rightarrow>
             let defaultContainerState = createIdentityState
             in (defaultContainerState, identityStateSet cookieStoreId defaultContainerState b))"

definition identityStateRemove :: "string \<Rightarrow> 'a Browser_scheme \<Rightarrow> 'a Browser_scheme" where
  "identityStateRemove cookieStoreId b =
     (let storeKey = getContainerStoreKey cookieStoreId
      in b\<lparr>storage_local := (storage_local b)(storeKey := None)\<rparr>)"

text \<open>\<^verbatim>\<open>background-page-1.ts\<close>, lines 1-11.\<close>

definition isPermissibleURL :: "URL_parser \<Rightarrow> string option \<Rightarrow> error + bool" where
  "isPermissibleURL newURL url =
     (case url of
        None \<Rightarrow> Inr False
      | Some u \<Rightarrow>
          if u = [] then Inr False
          else
            (case newURL u of
               None \<Rightarrow> Inl TypeError
             | Some parsed \<Rightarrow>
                 if protocol parsed = ''about:'' \<or> protocol parsed = ''chrome:''
                    \<or> protocol parsed = ''moz-extension:''
                 then Inr False
                 else Inr True))"

text \<open>
  \<^verbatim>\<open>containerState.hiddenTabs.push(tabObject)\<close>: a stored value without \<^verbatim>\<open>hiddenTabs\<close> makes the
  call a \<^verbatim>\<open>TypeError\<close>.
\<close>

definition hiddenTabs_push :: "StoredValue \<Rightarrow> TabObject \<Rightarrow> error + StoredValue" where
  "hiddenTabs_push containerState tabObject =
     (case containerState of
        ContainerState hidden \<Rightarrow> Inr (ContainerState (hidden @ [tabObject]))
      | Assignment a \<Rightarrow> Inl TypeError
      | OtherValue \<Rightarrow> Inl TypeError)"

text \<open>
  \<^verbatim>\<open>storeHidden\<close>, lines 942-959.  The \<^verbatim>\<open>forEach\<close> becomes a recursion over the queried tabs; an
  exception in the callback leaves the loop at once, before the state is persisted.
\<close>

fun storeHidden_forEach :: "URL_parser \<Rightarrow> Tab list \<Rightarrow> StoredValue \<Rightarrow> error + StoredValue" where
  "storeHidden_forEach newURL [] containerState = Inr containerState"
| "storeHidden_forEach newURL (tab # rest) containerState =
     (let tabObject = createTabObject tab
      in case isPermissibleURL newURL (tab_url tab) of
           Inl e \<Rightarrow> Inl e
         | Inr permissible \<Rightarrow>
             if \<not> permissible then storeHidden_forEach newURL rest containerState
             else
               (case hiddenTabs_push containerState
                       (tabObject\<lparr>tab_active := False, hiddenState := True\<rparr>) of
                  Inl e \<Rightarrow> Inl e
                | Inr pushed \<Rightarrow> storeHidden_forEach newURL rest pushed))"

definition storeHidden ::
  "URL_parser \<Rightarrow> string \<Rightarrow> int \<Rightarrow> 'a Browser_scheme \<Rightarrow> (error + unit) \<times> 'a Browser_scheme" where
  "storeHidden newURL cookieStoreId windowId b =
     (case identityStateGet cookieStoreId b of
        (containerState, b1) \<Rightarrow>
          let tabsByContainer = tabs_query (Some cookieStoreId) (Some windowId) b1
          in case storeHidden_forEach newURL tabsByContainer containerState of
               Inl e \<Rightarrow> (Inl e, b1)
             | Inr updated \<Rightarrow> (Inr (), identityStateSet cookieStoreId updated b1))"

text \<open>
  \<^verbatim>\<open>background-page.ts\<close>, lines 71-78 and 828-889.  The same store, except that a missing
  \<^verbatim>\<open>cookieStoreId\<close> or \<^verbatim>\<open>windowId\<close> reaches it as \<^verbatim>\<open>undefined\<close> (\<open>None\<close>): the template literal of the
  key prints it as \<^verbatim>\<open>undefined\<close>, and \<^verbatim>\<open>isPermissibleURL\<close> passes it to the URL constructor.
\<close>

definition identityState_getContainerStoreKey :: "string option \<Rightarrow> string" where
  "identityState_getContainerStoreKey cookieStoreId =
     ''identitiesState@@_'' @ (case cookieStoreId of None \<Rightarrow> ''undefined'' | Some c \<Rightarrow> c)"

definition identityState_createIdentityState :: StoredValue where
  "identityState_createIdentityState = ContainerState []"

definition identityState_set ::
  "string option \<Rightarrow> StoredValue \<Rightarrow> 'a Browser_scheme \<Rightarrow> 'a Browser_scheme" where
  "identityState_set cookieStoreId data b =
     (let storeKey = identityState_getContainerStoreKey cookieStoreId
      in b\<lparr>storage_local := (storage_local b)(storeKey \<mapsto> data)\<rparr>)"

definition identityState_get ::
  "string option \<Rightarrow> 'a Browser_scheme \<Rightarrow> StoredValue \<times> 'a Browser_scheme" where
  "identityState_get cookieStoreId b =
     (let storeKey = identityState_getContainerStoreKey cookieStoreId
      in case storage_local b storeKey of
           Some v \<Rightarrow> (v, b)
         | None \<Rightarrow>
             let defaultContainerState = identityState_createIdentityState
             in (defaultContainerState, identityState_set cookieStoreId defaultContainerState b))"

definition backgroundLogic_isPermissibleURL :: "URL_parser \<Rightarrow> string option \<Rightarrow> error + bool" where
  "backgroundLogic_isPermissibleURL newURL url =
     (case newURL (case url of None \<Rightarrow> ''undefined'' | Some u \<Rightarrow> u) of
        None \<Rightarrow> Inl TypeError
      | Some parsed \<Rightarrow>
          if protocol parsed = ''about:'' \<or> protocol parsed = ''chrome:''
             \<or> protocol parsed = ''moz-extension:''
          then Inr False
          else Inr True)"

fun identityState_storeHidden_forEach ::
  "URL_parser \<Rightarrow> Tab list \<Rightarrow> StoredValue \<Rightarrow> error + StoredValue" where
  "identityState_storeHidden_forEach newURL [] containerState = Inr containerState"
| "identityState_storeHidden_forEach newURL (tab # rest) containerState =
     (let tabObject = createTabObject tab
      in case backgroundLogic_isPermissibleURL newURL (tab_url tab) of
           Inl e \<Rightarrow> Inl e
         | Inr permissible \<Rightarrow>
             if \<not> permissible then identityState_storeHidden_forEach newURL rest containerState
             else
               (case hiddenTabs_push containerState
                       (tabObject\<lparr>tab_active := False, hiddenState := True\<rparr>) of
                  Inl e \<Rightarrow> Inl e
                | Inr pushed \<Rightarrow> identityState_storeHidden_forEach newURL rest pushed))"

definition identityState_storeHidden ::
  "URL_parser \<Rightarrow> string option \<Rightarrow> int option \<Rightarrow> 'a Browser_scheme
     \<Rightarrow> (error + unit) \<times> 'a Browser_scheme" where
  "identityState_storeHidden newURL cookieStoreId windowId b =
     (case identityState_get cookieStoreId b of
        (containerState, b1) \<Rightarrow>
          let tabsByContainer = tabs_query cookieStoreId windowId b1
          in case identityState_storeHidden_forEach newURL tabsByContainer containerState of
               Inl e \<Rightarrow> (Inl e, b1)
             | Inr updated \<Rightarrow> (Inr (), identityState_set cookieStoreId updated b1))"


section \<open>Tab orchestration: argument check, closing and hiding tabs\<close>

text \<open>
  The options object of \<^verbatim>\<open>hideTabs\<close>, \<^verbatim>\<open>moveTabsToWindow\<close> and \<^verbatim>\<open>getTabs\<close>.  \<open>arg_in\<close> is
  \<^verbatim>\<open>arg in options\<close> and \<open>arg_truthy\<close> is the truthiness of \<^verbatim>\<open>options[arg]\<close>: the empty string
  and the number 0 are falsy, as \<^verbatim>\<open>undefined\<close> is.
\<close>

record TabsRequest =
  opt_cookieStoreId :: "string optional"
  opt_windowId :: "int optional"

definition arg_in :: "string \<Rightarrow> TabsRequest \<Rightarrow> bool" where
  "arg_in arg options =
     (if arg = ''cookieStoreId'' then has_key (opt_cookieStoreId options)
      else if arg = ''windowId'' then has_key (opt_windowId options)
      else False)"

definition arg_truthy :: "string \<Rightarrow> TabsRequest \<Rightarrow> bool" where
  "arg_truthy arg options =
     (if arg = ''cookieStoreId'' then
        (case read_key (opt_cookieStoreId options) of None \<Rightarrow> False | Some c \<Rightarrow> c \<noteq> [])
      else if arg = ''windowId'' then
        (case read_key (opt_windowId options) of None \<Rightarrow> False | Some w \<Rightarrow> w \<noteq> 0)
      else False)"

text \<open>\<^verbatim>\<open>background-page-1.ts\<close>, lines 94-105: the loop throws at the first missing argument.\<close>

fun checkArgs :: "string list \<Rightarrow> TabsRequest \<Rightarrow> string \<Rightarrow> error + TabsRequest" where
  "checkArgs [] options methodName = Inr options"
| "checkArgs (arg # rest) options methodName =
     (if \<not> arg_in arg options \<or> \<not> arg_truthy arg options
      then Inl (Error (methodName @ '' must be called with '' @ arg @ '' argument.''))
      else checkArgs rest options methodName)"

text \<open>
  \<^verbatim>\<open>background-page.ts\<close>, lines 80-86: the callback of \<^verbatim>\<open>forEach\<close> \<^emph>\<open>returns\<close> the \<^verbatim>\<open>Error\<close> object;
  \<^verbatim>\<open>forEach\<close> discards what its callback returns, and the function ends without a value.
\<close>

definition backgroundLogic_checkArgs_callback :: "TabsRequest \<Rightarrow> string \<Rightarrow> string \<Rightarrow> error option" where
  "backgroundLogic_checkArgs_callback options methodName argument =
     (if \<not> arg_in argument options
      then Some (Error (methodName @ '' must be called with '' @ argument @ '' argument.''))
      else None)"

fun backgroundLogic_checkArgs :: "string list \<Rightarrow> TabsRequest \<Rightarrow> string \<Rightarrow> error + unit" where
  "backgroundLogic_checkArgs [] options methodName = Inr ()"
| "backgroundLogic_checkArgs (argument # rest) options methodName =
     (case backgroundLogic_checkArgs_callback options methodName argument of
        returned \<Rightarrow> backgroundLogic_checkArgs rest options methodName)"

text \<open>
  \<^verbatim>\<open>_closeTabs\<close> (\<^verbatim>\<open>background-page-1.ts\<close>, lines 213-229; \<^verbatim>\<open>background-page.ts\<close>, lines 191-207).
  The window argument is \<^verbatim>\<open>false\<close> by default; \<open>None\<close> stands for \<^verbatim>\<open>false\<close> and for \<^verbatim>\<open>undefined\<close>, which
  both leave the query unrestricted by window.
\<close>

definition closeTabs :: "string \<Rightarrow> int option \<Rightarrow> 'a Browser_scheme \<Rightarrow> 'a Browser_scheme" where
  "closeTabs userContextId windowId b =
     (let cookieStoreId = getCookieStoreId userContextId;
          found = tabs_query (Some cookieStoreId) windowId b;
          tabIds = map tab_id found
      in tabs_remove tabIds b)"

definition backgroundLogic_closeTabs ::
  "string option \<Rightarrow> int option \<Rightarrow> 'a Browser_scheme \<Rightarrow> 'a Browser_scheme" where
  "backgroundLogic_closeTabs userContextId windowId b =
     (let cookieStoreId = backgroundLogic_cookieStoreId userContextId;
          found = tabs_query (Some cookieStoreId) windowId b;
          tabIds = map tab_id found
      in tabs_remove tabIds b)"

text \<open>
  \<^verbatim>\<open>hideTabs\<close>, \<^verbatim>\<open>background-page-1.ts\<close>, lines 319-332.  After \<^verbatim>\<open>checkArgs\<close> has returned, both
  arguments are present, so the last branch of the destructuring is never taken.
\<close>

definition hideTabs ::
  "URL_parser \<Rightarrow> TabsRequest \<Rightarrow> 'a Browser_scheme \<Rightarrow> (error + unit) \<times> 'a Browser_scheme" where
  "hideTabs newURL options b =
     (case checkArgs [''cookieStoreId'', ''windowId''] options ''hideTabs'' of
        Inl e \<Rightarrow> (Inl e, b)
      | Inr checked \<Rightarrow>
          (case (read_key (opt_cookieStoreId checked), read_key (opt_windowId checked)) of
             (Some cookieStoreId, Some windowId) \<Rightarrow>
               (case getUserContextIdFromCookieStoreId cookieStoreId of
                  None \<Rightarrow> (Inl (Error ''no userContextId!''), b)
                | Some userContextId \<Rightarrow>
                    if userContextId = [] then (Inl (Error ''no userContextId!''), b)
                    else
                      (case storeHidden newURL cookieStoreId windowId b of
                         (Inl e, b1) \<Rightarrow> (Inl e, b1)
                       | (Inr stored, b1) \<Rightarrow>
                           (Inr (), closeTabs userContextId (Some windowId) b1)))
           | _ \<Rightarrow> (Inl TypeError, b)))"

text \<open>\<^verbatim>\<open>hideTabs\<close>, \<^verbatim>\<open>background-page.ts\<close>, lines 281-291.\<close>

definition backgroundLogic_hideTabs ::
  "URL_parser \<Rightarrow> TabsRequest \<Rightarrow> 'a Browser_scheme \<Rightarrow> (error + unit) \<times> 'a Browser_scheme" where
  "backgroundLogic_hideTabs newURL options b =
     (case backgroundLogic_checkArgs [''cookieStoreId'', ''windowId''] options ''hideTabs'' of
        Inl e \<Rightarrow> (Inl e, b)
      | Inr checked \<Rightarrow>
          let cookieStoreId = read_key (opt_cookieStoreId options);
              windowId = read_key (opt_windowId options);
              userContextId = backgroundLogic_getUserContextIdFromCookieStoreId cookieStoreId
          in case identityState_storeHidden newURL cookieStoreId windowId b of
               (Inl e, b1) \<Rightarrow> (Inl e, b1)
             | (Inr stored, b1) \<Rightarrow>
                 (Inr (), backgroundLogic_closeTabs userContextId windowId b1))"

section \<open>Site assignment store: scanning by container, deleting a container\<close>

text \<open>
  \<^verbatim>\<open>String(siteConfigs[key].userContextId)\<close>: a stored value without that property gives
  \<^verbatim>\<open>undefined\<close>, printed as such.
\<close>

definition String_userContextId :: "StoredValue \<Rightarrow> string" where
  "String_userContextId v =
     (case v of
        Assignment a \<Rightarrow> ss_userContextId a
      | ContainerState hidden \<Rightarrow> ''undefined''
      | OtherValue \<Rightarrow> ''undefined'')"

text \<open>\<^verbatim>\<open>site.hostname = key.replace(/^siteContainerMap@@_/, '')\<close>, on the copy that is returned.\<close>

definition with_hostname :: "string \<Rightarrow> StoredValue \<Rightarrow> StoredValue" where
  "with_hostname key v =
     (let host = (if prefix ''siteContainerMap@@_'' key
                  then drop (length ''siteContainerMap@@_'') key else key)
      in case v of
           Assignment a \<Rightarrow> Assignment (a\<lparr>ss_hostname := Some host\<rparr>)
         | ContainerState hidden \<Rightarrow> ContainerState hidden
         | OtherValue \<Rightarrow> OtherValue)"

text \<open>\<^verbatim>\<open>getByContainer\<close> and \<^verbatim>\<open>storageAreaDeleteContainer\<close>, \<^verbatim>\<open>background-page-1.ts\<close>, lines 455-479.\<close>

definition getByContainer :: "string \<Rightarrow> 'a Browser_scheme \<Rightarrow> (string \<rightharpoonup> StoredValue)" where
  "getByContainer userContextId b =
     (\<lambda>key. case storage_local b key of
              None \<Rightarrow> None
            | Some v \<Rightarrow>
                if String_userContextId v = userContextId then Some (with_hostname key v)
                else None)"

definition storageAreaDeleteContainer :: "string \<Rightarrow> 'a Browser_scheme \<Rightarrow> 'a Browser_scheme" where
  "storageAreaDeleteContainer userContextId b =
     (let sitesByContainer = getByContainer userContextId b
      in b\<lparr>storage_local :=
             (\<lambda>key. if sitesByContainer key \<noteq> None then None else storage_local b key)\<rparr>)"

text \<open>
  \<^verbatim>\<open>deleteContainer\<close>, \<^verbatim>\<open>background-page-1.ts\<close>, lines 35-42.
  \<^verbatim>\<open>browser.contextualIdentities.remove\<close> rejects when the identity does not exist; the function
  then ends before the assignments are touched.  The result \<^verbatim>\<open>{done: true, userContextId}\<close> is
  the id.
\<close>

definition deleteContainer ::
  "string \<Rightarrow> bool \<Rightarrow> 'a Browser_scheme \<Rightarrow> (error + string) \<times> 'a Browser_scheme" where
  "deleteContainer userContextId removed b =
     (let b1 = closeTabs userContextId None b
      in if \<not> removed \<and> getCookieStoreId userContextId \<notin> set (identities b1)
         then (Inl BrowserError, b1)
         else
           let b2 = (if \<not> removed
                     then b1\<lparr>identities := removeAll (getCookieStoreId userContextId) (identities b1)\<rparr>
                     else b1);
               b3 = storageAreaDeleteContainer userContextId b2
           in (Inr userContextId, b3))"

text \<open>
  The same in \<^verbatim>\<open>background-page.ts\<close> (lines 24-31, 406-425, 621-623); the id may be \<^verbatim>\<open>false\<close> there
  (\<open>None\<close>), which \<^verbatim>\<open>String\<close> prints as \<^verbatim>\<open>false\<close>.
\<close>

definition assignManager_getByContainer ::
  "string option \<Rightarrow> 'a Browser_scheme \<Rightarrow> (string \<rightharpoonup> StoredValue)" where
  "assignManager_getByContainer userContextId b =
     (\<lambda>key. case storage_local b key of
              None \<Rightarrow> None
            | Some v \<Rightarrow>
                if String_userContextId v = (case userContextId of None \<Rightarrow> ''false'' | Some u \<Rightarrow> u)
                then Some (with_hostname key v)
                else None)"

definition assignManager_storageArea_deleteContainer ::
  "string option \<Rightarrow> 'a Browser_scheme \<Rightarrow> 'a Browser_scheme" where
  "assignManager_storageArea_deleteContainer userContextId b =
     (let sitesByContainer = assignManager_getByContainer userContextId b
      in b\<lparr>storage_local :=
             (\<lambda>key. if sitesByContainer key \<noteq> None then None else storage_local b key)\<rparr>)"

definition assignManager_deleteContainer ::
  "string option \<Rightarrow> 'a Browser_scheme \<Rightarrow> 'a Browser_scheme" where
  "assignManager_deleteContainer userContextId b =
     assignManager_storageArea_deleteContainer userContextId b"

definition backgroundLogic_deleteContainer ::
  "string option \<Rightarrow> bool \<Rightarrow> 'a Browser_scheme \<Rightarrow> (error + string option) \<times> 'a Browser_scheme" where
  "backgroundLogic_deleteContainer userContextId removed b =
     (let b1 = backgroundLogic_closeTabs userContextId None b
      in if \<not> removed \<and> backgroundLogic_cookieStoreId userContextId \<notin> set (identities b1)
         then (Inl BrowserError, b1)
         else
           let b2 = (if \<not> removed
                     then b1\<lparr>identities :=
                              removeAll (backgroundLogic_cookieStoreId userContextId) (identities b1)\<rparr>
                     else b1);
               b3 = assignManager_deleteContainer userContextId b2
           in (Inr userContextId, b3))"

section \<open>Extension memory\<close>

text \<open>
  The process-memory state of the background page next to the browser's: the exemption lists
  per site key, the in-flight cancellation ledger per tab id, and the last created tab.
\<close>

record CanceledRequest =
  requestIds :: "string set"
  urls :: "string set"

record Extension = Browser +
  exemptedTabs :: "string \<rightharpoonup> int list"
  canceledRequests :: "int \<rightharpoonup> CanceledRequest"
  lastCreatedTab :: "Tab option"

text \<open>\<^verbatim>\<open>browser.tabs.get(tabId)\<close>; \<open>None\<close> is the rejection for an id that no open tab has.\<close>

definition tabs_get :: "int \<Rightarrow> 'a Browser_scheme \<Rightarrow> Tab option" where
  "tabs_get tabId b = find (\<lambda>tab. tab_id tab = tabId) (open_tabs b)"

definition NEW_TAB_PAGES :: "string list" where
  "NEW_TAB_PAGES = [''about:startpage'', ''about:newtab'', ''about:home'', ''about:blank'']"

section \<open>Site assignment store\<close>

text \<open>\<^verbatim>\<open>background-page-1.ts\<close>, lines 388-453 and 697-702.\<close>

definition setExempted ::
  "URL_parser \<Rightarrow> string \<Rightarrow> int \<Rightarrow> 'a Extension_scheme \<Rightarrow> error + 'a Extension_scheme" where
  "setExempted newURL pageUrl tabId s =
     (case getSiteStoreKey newURL (Some pageUrl) of
        Inl e \<Rightarrow> Inl e
      | Inr siteStoreKey \<Rightarrow>
          let present = (case exemptedTabs s siteStoreKey of None \<Rightarrow> [] | Some ids \<Rightarrow> ids)
          in Inr (s\<lparr>exemptedTabs := (exemptedTabs s)(siteStoreKey \<mapsto> present @ [tabId])\<rparr>))"

definition removeExempted ::
  "URL_parser \<Rightarrow> string \<Rightarrow> 'a Extension_scheme \<Rightarrow> error + 'a Extension_scheme" where
  "removeExempted newURL pageUrl s =
     (case getSiteStoreKey newURL (Some pageUrl) of
        Inl e \<Rightarrow> Inl e
      | Inr siteStoreKey \<Rightarrow> Inr (s\<lparr>exemptedTabs := (exemptedTabs s)(siteStoreKey \<mapsto> [])\<rparr>))"

definition isExempted ::
  "URL_parser \<Rightarrow> string \<Rightarrow> int \<Rightarrow> 'a Extension_scheme \<Rightarrow> error + bool" where
  "isExempted newURL pageUrl tabId s =
     (case getSiteStoreKey newURL (Some pageUrl) of
        Inl e \<Rightarrow> Inl e
      | Inr siteStoreKey \<Rightarrow>
          (case exemptedTabs s siteStoreKey of
             None \<Rightarrow> Inr False
           | Some ids \<Rightarrow> Inr (tabId \<in> set ids)))"

definition storageAreaGet ::
  "URL_parser \<Rightarrow> string option \<Rightarrow> 'a Browser_scheme \<Rightarrow> error + StoredValue option" where
  "storageAreaGet newURL pageUrl b =
     (if pageUrl = None \<or> pageUrl = Some [] then Inl (Rejected ''No page url'')
      else
        (case getSiteStoreKey newURL pageUrl of
           Inl e \<Rightarrow> Inl e
         | Inr siteStoreKey \<Rightarrow> Inr (storage_local b siteStoreKey)))"

fun storageAreaSet_forEach ::
  "URL_parser \<Rightarrow> string \<Rightarrow> int list \<Rightarrow> 'a Extension_scheme \<Rightarrow> error + 'a Extension_scheme" where
  "storageAreaSet_forEach newURL pageUrl [] s = Inr s"
| "storageAreaSet_forEach newURL pageUrl (tabId # rest) s =
     (case setExempted newURL pageUrl tabId s of
        Inl e \<Rightarrow> Inl e
      | Inr s1 \<Rightarrow> storageAreaSet_forEach newURL pageUrl rest s1)"

definition storageAreaSet ::
  "URL_parser \<Rightarrow> string \<Rightarrow> StoredValue \<Rightarrow> int list option \<Rightarrow> 'a Extension_scheme
     \<Rightarrow> error + 'a Extension_scheme" where
  "storageAreaSet newURL pageUrl data exemptedTabIds s =
     (case getSiteStoreKey newURL (Some pageUrl) of
        Inl e \<Rightarrow> Inl e
      | Inr siteStoreKey \<Rightarrow>
          (case (case exemptedTabIds of
                   None \<Rightarrow> Inr s
                 | Some ids \<Rightarrow> storageAreaSet_forEach newURL pageUrl ids s) of
             Inl e \<Rightarrow> Inl e
           | Inr s1 \<Rightarrow> Inr (s1\<lparr>storage_local := (storage_local s1)(siteStoreKey \<mapsto> data)\<rparr>)))"

definition storageAreaRemove ::
  "URL_parser \<Rightarrow> string \<Rightarrow> 'a Extension_scheme \<Rightarrow> error + 'a Extension_scheme" where
  "storageAreaRemove newURL pageUrl s =
     (case getSiteStoreKey newURL (Some pageUrl) of
        Inl e \<Rightarrow> Inl e
      | Inr siteStoreKey \<Rightarrow>
          (case removeExempted newURL pageUrl s of
             Inl e \<Rightarrow> Inl e
           | Inr s1 \<Rightarrow> Inr (s1\<lparr>storage_local := (storage_local s1)(siteStoreKey := None)\<rparr>)))"

text \<open>The tab's container id; \<open>None\<close> stands for \<^verbatim>\<open>false\<close> and \<^verbatim>\<open>undefined\<close>.\<close>

definition getUserContextIdFromCookieStore :: "Tab \<Rightarrow> string option" where
  "getUserContextIdFromCookieStore tab =
     (case tab_cookieStoreId tab of
        None \<Rightarrow> None
      | Some c \<Rightarrow> if c = [] then None else getUserContextIdFromCookieStoreId c)"

text \<open>
  \<^verbatim>\<open>_setOrRemoveAssignment\<close>, \<^verbatim>\<open>background-page-1.ts\<close>, lines 717-757.  The \<^verbatim>\<open>filter\<close> over all
  open tabs computes the site key of every tab's url and can throw there.  The in-page message
  and the context menu are presentation; what is left of the tail is \<^verbatim>\<open>tabs.get\<close>, which rejects
  for a tab that is gone.
\<close>

fun setOrRemoveAssignment_filter ::
  "URL_parser \<Rightarrow> string \<Rightarrow> string \<Rightarrow> Tab list \<Rightarrow> error + Tab list" where
  "setOrRemoveAssignment_filter newURL assignmentStoreKey userContextId [] = Inr []"
| "setOrRemoveAssignment_filter newURL assignmentStoreKey userContextId (tab # rest) =
     (case getSiteStoreKey newURL (tab_url tab) of
        Inl e \<Rightarrow> Inl e
      | Inr tabStoreKey \<Rightarrow>
          (case setOrRemoveAssignment_filter newURL assignmentStoreKey userContextId rest of
             Inl e \<Rightarrow> Inl e
           | Inr kept \<Rightarrow>
               if tabStoreKey = assignmentStoreKey
                  \<and> getUserContextIdFromCookieStore tab \<noteq> Some userContextId
               then Inr (tab # kept)
               else Inr kept))"

definition setOrRemoveAssignment ::
  "URL_parser \<Rightarrow> int \<Rightarrow> string \<Rightarrow> string \<Rightarrow> bool \<Rightarrow> 'a Extension_scheme
     \<Rightarrow> (error + unit) \<times> 'a Extension_scheme" where
  "setOrRemoveAssignment newURL tabId pageUrl userContextId remove s =
     (case (if \<not> remove then
              (case getSiteStoreKey newURL (Some pageUrl) of
                 Inl e \<Rightarrow> Inl e
               | Inr assignmentStoreKey \<Rightarrow>
                   (case setOrRemoveAssignment_filter newURL assignmentStoreKey userContextId
                           (tabs_query None None s) of
                      Inl e \<Rightarrow> Inl e
                    | Inr exempted \<Rightarrow>
                        storageAreaSet newURL pageUrl
                          (Assignment \<lparr>ss_userContextId = userContextId, ss_neverAsk = False,
                                       ss_hostname = None\<rparr>)
                          (Some (map tab_id exempted)) s))
            else storageAreaRemove newURL pageUrl s) of
        Inl e \<Rightarrow> (Inl e, s)
      | Inr s1 \<Rightarrow>
          (case tabs_get tabId s1 of
             None \<Rightarrow> (Inl BrowserError, s1)
           | Some tab \<Rightarrow> (Inr (), s1)))"

text \<open>
  The same store in \<^verbatim>\<open>background-page.ts\<close> (lines 349-385 and 625-630): no guard for a missing
  url or tab id.
\<close>

definition assignManager_isExempted ::
  "URL_parser \<Rightarrow> string \<Rightarrow> int \<Rightarrow> 'a Extension_scheme \<Rightarrow> error + bool" where
  "assignManager_isExempted newURL pageUrl tabId s =
     (case assignManager_getSiteStoreKey newURL (Some pageUrl) of
        Inl e \<Rightarrow> Inl e
      | Inr siteStoreKey \<Rightarrow>
          (case exemptedTabs s siteStoreKey of
             None \<Rightarrow> Inr False
           | Some ids \<Rightarrow> Inr (tabId \<in> set ids)))"

definition assignManager_storageArea_get ::
  "URL_parser \<Rightarrow> string option \<Rightarrow> 'a Browser_scheme \<Rightarrow> error + StoredValue option" where
  "assignManager_storageArea_get newURL pageUrl b =
     (case assignManager_getSiteStoreKey newURL pageUrl of
        Inl e \<Rightarrow> Inl e
      | Inr siteStoreKey \<Rightarrow> Inr (storage_local b siteStoreKey))"

definition assignManager_getUserContextIdFromCookieStore :: "Tab \<Rightarrow> string option" where
  "assignManager_getUserContextIdFromCookieStore tab =
     (case tab_cookieStoreId tab of
        None \<Rightarrow> None
      | Some c \<Rightarrow> backgroundLogic_getUserContextIdFromCookieStoreId (Some c))"

section \<open>Navigation interceptor\<close>

record OnBeforeRequestOptions =
  req_requestId :: string
  req_url :: string
  req_frameId :: int
  req_tabId :: int

text \<open>The listener's answer: \<^verbatim>\<open>{}\<close> lets the request go on, \<^verbatim>\<open>{cancel: true}\<close> cancels it.\<close>

datatype BlockingResponse = Allow | Cancel

text \<open>
  The calls that \<^verbatim>\<open>onBeforeRequest\<close> starts without awaiting them.  They are recorded, in order,
  with their arguments; \<^verbatim>\<open>reloadPageInContainer\<close> is the reroute action.
\<close>

record Reload =
  rl_url :: string
  rl_currentUserContextId :: "string option"
  rl_userContextId :: "string option"
  rl_index :: nat
  rl_active :: bool
  rl_neverAsk :: bool
  rl_openerTabId :: "int option"

datatype call =
    RemoveContextMenu
  | DeleteContainer "string option"
  | AssignManagerDeleteContainer "string option"
  | ReloadPageInContainer Reload
  | CalculateContextMenu int
  | TabsRemove int

record Handled =
  response :: "error + BlockingResponse"
  calls :: "call list"
  ledger :: "int \<rightharpoonup> CanceledRequest"

text \<open>\<^verbatim>\<open>siteSettings.userContextId\<close> and \<^verbatim>\<open>siteSettings.neverAsk\<close> of whatever is stored.\<close>

definition stored_userContextId :: "StoredValue \<Rightarrow> string option" where
  "stored_userContextId v =
     (case v of
        Assignment a \<Rightarrow> Some (ss_userContextId a)
      | ContainerState hidden \<Rightarrow> None
      | OtherValue \<Rightarrow> None)"

definition stored_neverAsk :: "StoredValue \<Rightarrow> bool" where
  "stored_neverAsk v =
     (case v of
        Assignment a \<Rightarrow> ss_neverAsk a
      | ContainerState hidden \<Rightarrow> False
      | OtherValue \<Rightarrow> False)"

text \<open>\<^verbatim>\<open>a === b\<close> for a container id that is a string on both sides.\<close>

definition same_string :: "string option \<Rightarrow> string option \<Rightarrow> bool" where
  "same_string a b = (case (a, b) of (Some x, Some y) \<Rightarrow> x = y | _ \<Rightarrow> False)"

text \<open>Truthiness of a value that is a string or \<^verbatim>\<open>undefined\<close>/\<^verbatim>\<open>false\<close>.\<close>

definition truthy :: "string option \<Rightarrow> bool" where
  "truthy a = (case a of None \<Rightarrow> False | Some x \<Rightarrow> x \<noteq> [])"

text \<open>
  Lines 564-598 of \<^verbatim>\<open>background-page-1.ts\<close> (487-524 of \<^verbatim>\<open>background-page.ts\<close>): the ledger step.
  The result says whether the request is a redirect echo (\<^verbatim>\<open>cancelEarly\<close>) and gives the ledger
  with the request registered.
\<close>

definition registerCanceled ::
  "OnBeforeRequestOptions \<Rightarrow> int \<Rightarrow> (int \<rightharpoonup> CanceledRequest) \<Rightarrow> bool \<times> (int \<rightharpoonup> CanceledRequest)" where
  "registerCanceled options tabId canceled =
     (case canceled tabId of
        None \<Rightarrow>
          (False,
           canceled(tabId \<mapsto> \<lparr>requestIds = {req_requestId options}, urls = {req_url options}\<rparr>))
      | Some entry \<Rightarrow>
          let cancelEarly = (req_requestId options \<in> requestIds entry \<or> req_url options \<in> urls entry)
          in (cancelEarly,
              canceled(tabId \<mapsto> \<lparr>requestIds = insert (req_requestId options) (requestIds entry),
                                   urls = insert (req_url options) (urls entry)\<rparr>)))"

text \<open>
  \<^verbatim>\<open>onBeforeRequest\<close>, \<^verbatim>\<open>background-page-1.ts\<close>, lines 526-629, in two parts.

  The first part, lines 527-556, either returns (with the calls made so far) or finds the
  request a reroute candidate, with the tab, its container id and the stored assignment.  Both
  reads of \<^verbatim>\<open>Promise.all\<close> are started before either is awaited; an invalid url makes the second
  one throw while the array is built, so it wins over a rejected \<^verbatim>\<open>tabs.get\<close>.  Whatever is
  stored under the site key counts as truthy (the repository stores objects there).
\<close>

datatype candidacy =
    Returned "error + BlockingResponse" "call list"
  | Candidate Tab "string option" StoredValue

definition onBeforeRequest_candidacy ::
  "URL_parser \<Rightarrow> OnBeforeRequestOptions \<Rightarrow> 'a Extension_scheme \<Rightarrow> candidacy" where
  "onBeforeRequest_candidacy newURL options s =
     (if req_frameId options \<noteq> 0 \<or> req_tabId options = - 1
      then Returned (Inr Allow) []
      else
        (case storageAreaGet newURL (Some (req_url options)) s of
           Inl e \<Rightarrow> Returned (Inl e) [RemoveContextMenu]
         | Inr siteSettings \<Rightarrow>
             (case tabs_get (req_tabId options) s of
                None \<Rightarrow> Returned (Inl BrowserError) [RemoveContextMenu]
              | Some tab \<Rightarrow>
                  (case siteSettings of
                     None \<Rightarrow> Returned (Inr Allow) [RemoveContextMenu]
                   | Some settings \<Rightarrow>
                       let container =
                             (getCookieStoreId
                                (case stored_userContextId settings of
                                   None \<Rightarrow> ''undefined'' | Some u \<Rightarrow> u)
                              \<in> set (identities s))
                       in if \<not> container
                          then Returned (Inr Allow)
                                 [RemoveContextMenu, DeleteContainer (stored_userContextId settings)]
                          else
                            let userContextId = getUserContextIdFromCookieStore tab
                            in (case (if \<not> truthy userContextId
                                         \<or> same_string userContextId (stored_userContextId settings)
                                         \<or> tab_incognito tab
                                      then Inr True
                                      else isExempted newURL (req_url options) (tab_id tab) s) of
                                  Inl e \<Rightarrow> Returned (Inl e) [RemoveContextMenu]
                                | Inr unmodified \<Rightarrow>
                                    if unmodified then Returned (Inr Allow) [RemoveContextMenu]
                                    else Candidate tab userContextId settings)))))"

text \<open>
  The second part, lines 557-628, for a candidate: the tab to close and the opener, the
  ledger step, and the reroute.  \<^verbatim>\<open>reloadPageInContainer\<close> throws, before it opens anything,
  when the assignment carries no container id.
\<close>

definition onBeforeRequest_cancel ::
  "OnBeforeRequestOptions \<Rightarrow> Tab \<Rightarrow> string option \<Rightarrow> StoredValue \<Rightarrow> 'a Extension_scheme \<Rightarrow> Handled" where
  "onBeforeRequest_cancel options tab userContextId settings s =
     (let removeTab =
            ((case tab_url tab of
                None \<Rightarrow> False
              | Some u \<Rightarrow> u \<noteq> [] \<and> u \<in> set NEW_TAB_PAGES)
             \<or> (case lastCreatedTab s of
                   None \<Rightarrow> False
                 | Some created \<Rightarrow> tab_id created = tab_id tab));
          openTabId = (if removeTab then tab_openerTabId tab else Some (tab_id tab))
      in (case registerCanceled options (tab_id tab) (canceledRequests s) of
            (cancelEarly, registered) \<Rightarrow>
              if cancelEarly
              then \<lparr>response = Inr Cancel, calls = [RemoveContextMenu], ledger = registered\<rparr>
              else if \<not> truthy (stored_userContextId settings)
              then \<lparr>response = Inl (Error ''userContextId is false or undefined''),
                    calls = [RemoveContextMenu], ledger = registered\<rparr>
              else
                \<lparr>response = Inr Cancel,
                 calls =
                   [RemoveContextMenu,
                    ReloadPageInContainer
                      \<lparr>rl_url = req_url options,
                       rl_currentUserContextId = userContextId,
                       rl_userContextId = stored_userContextId settings,
                       rl_index = tab_index tab + 1,
                       rl_active = tab_active tab,
                       rl_neverAsk = stored_neverAsk settings,
                       rl_openerTabId = openTabId\<rparr>,
                    CalculateContextMenu (tab_id tab)]
                   @ (if removeTab then [TabsRemove (tab_id tab)] else []),
                 ledger = registered\<rparr>))"

definition onBeforeRequest ::
  "URL_parser \<Rightarrow> OnBeforeRequestOptions \<Rightarrow> 'a Extension_scheme \<Rightarrow> Handled" where
  "onBeforeRequest newURL options s =
     (case onBeforeRequest_candidacy newURL options s of
        Returned answer made \<Rightarrow>
          \<lparr>response = answer, calls = made, ledger = canceledRequests s\<rparr>
      | Candidate tab userContextId settings \<Rightarrow>
          onBeforeRequest_cancel options tab userContextId settings s)"

text \<open>
  \<^verbatim>\<open>onBeforeRequest\<close>, \<^verbatim>\<open>background-page.ts\<close>, lines 454-554, in the same two parts (455-481 and
  482-553).  Reading \<^verbatim>\<open>siteSettings.userContextId\<close> of \<^verbatim>\<open>null\<close> throws inside the \<^verbatim>\<open>try\<close>, which
  leaves \<^verbatim>\<open>container\<close> false; the stale-assignment branch calls
  \<^verbatim>\<open>assignManager.deleteContainer\<close>; the tab's own container id is not tested before the
  comparison, and \<^verbatim>\<open>reloadPageInContainer\<close> never throws.
\<close>

definition assignManager_onBeforeRequest_candidacy ::
  "URL_parser \<Rightarrow> OnBeforeRequestOptions \<Rightarrow> 'a Extension_scheme \<Rightarrow> candidacy" where
  "assignManager_onBeforeRequest_candidacy newURL options s =
     (if req_frameId options \<noteq> 0 \<or> req_tabId options = - 1
      then Returned (Inr Allow) []
      else
        (case assignManager_storageArea_get newURL (Some (req_url options)) s of
           Inl e \<Rightarrow> Returned (Inl e) [RemoveContextMenu]
         | Inr siteSettings \<Rightarrow>
             (case tabs_get (req_tabId options) s of
                None \<Rightarrow> Returned (Inl BrowserError) [RemoveContextMenu]
              | Some tab \<Rightarrow>
                  (case siteSettings of
                     None \<Rightarrow> Returned (Inr Allow) [RemoveContextMenu]
                   | Some settings \<Rightarrow>
                       let container =
                             (backgroundLogic_cookieStoreId
                                (Some (case stored_userContextId settings of
                                         None \<Rightarrow> ''undefined'' | Some u \<Rightarrow> u))
                              \<in> set (identities s))
                       in if \<not> container
                          then Returned (Inr Allow)
                                 [RemoveContextMenu,
                                  AssignManagerDeleteContainer (stored_userContextId settings)]
                          else
                            let userContextId = assignManager_getUserContextIdFromCookieStore tab
                            in (case (if same_string userContextId (stored_userContextId settings)
                                         \<or> tab_incognito tab
                                      then Inr True
                                      else assignManager_isExempted newURL (req_url options)
                                             (tab_id tab) s) of
                                  Inl e \<Rightarrow> Returned (Inl e) [RemoveContextMenu]
                                | Inr unmodified \<Rightarrow>
                                    if unmodified then Returned (Inr Allow) [RemoveContextMenu]
                                    else Candidate tab userContextId settings)))))"

definition assignManager_onBeforeRequest_cancel ::
  "OnBeforeRequestOptions \<Rightarrow> Tab \<Rightarrow> string option \<Rightarrow> StoredValue \<Rightarrow> 'a Extension_scheme \<Rightarrow> Handled" where
  "assignManager_onBeforeRequest_cancel options tab userContextId settings s =
     (let removeTab =
            ((case tab_url tab of
                None \<Rightarrow> False
              | Some u \<Rightarrow> u \<in> set NEW_TAB_PAGES)
             \<or> (case lastCreatedTab s of
                   None \<Rightarrow> False
                 | Some created \<Rightarrow> tab_id created = tab_id tab));
          openTabId = (if removeTab then tab_openerTabId tab else Some (tab_id tab))
      in (case registerCanceled options (tab_id tab) (canceledRequests s) of
            (cancelEarly, registered) \<Rightarrow>
              if cancelEarly
              then \<lparr>response = Inr Cancel, calls = [RemoveContextMenu], ledger = registered\<rparr>
              else
                \<lparr>response = Inr Cancel,
                 calls =
                   [RemoveContextMenu,
                    ReloadPageInContainer
                      \<lparr>rl_url = req_url options,
                       rl_currentUserContextId = userContextId,
                       rl_userContextId = stored_userContextId settings,
                       rl_index = tab_index tab + 1,
                       rl_active = tab_active tab,
                       rl_neverAsk = stored_neverAsk settings,
                       rl_openerTabId = openTabId\<rparr>,
                    CalculateContextMenu (tab_id tab)]
                   @ (if removeTab then [TabsRemove (tab_id tab)] else []),
                 ledger = registered\<rparr>))"

definition assignManager_onBeforeRequest ::
  "URL_parser \<Rightarrow> OnBeforeRequestOptions \<Rightarrow> 'a Extension_scheme \<Rightarrow> Handled" where
  "assignManager_onBeforeRequest newURL options s =
     (case assignManager_onBeforeRequest_candidacy newURL options s of
        Returned answer made \<Rightarrow>
          \<lparr>response = answer, calls = made, ledger = canceledRequests s\<rparr>
      | Candidate tab userContextId settings \<Rightarrow>
          assignManager_onBeforeRequest_cancel options tab userContextId settings s)"

text \<open>
  The ledger entry of a tab is deleted by the 2-second timer that the first cancellation
  starts and by the \<^verbatim>\<open>onCompleted\<close> and \<^verbatim>\<open>onErrorOccurred\<close> listeners (lines 578-582 and 640-657).
\<close>

definition cleanupCanceled :: "int \<Rightarrow> 'a Extension_scheme \<Rightarrow> 'a Extension_scheme" where
  "cleanupCanceled tabId s = s\<lparr>canceledRequests := (canceledRequests s)(tabId := None)\<rparr>"

section \<open>Opening tabs\<close>

text \<open>
  The argument of \<^verbatim>\<open>browser.tabs.create\<close>.  \<open>None\<close> is a property that is missing or \<^verbatim>\<open>undefined\<close>,
  for which the browser takes its default.
\<close>

record CreateProperties =
  cp_url :: "string option"
  cp_cookieStoreId :: "string option"
  cp_active :: "bool option"
  cp_pinned :: "bool option"
  cp_index :: "nat option"
  cp_openerTabId :: "int option"

text \<open>
  \<^verbatim>\<open>encodeURLProperty\<close> (lines 828-833): \<^verbatim>\<open>encodeURIComponent\<close> is the platform's and a parameter
  here; the five characters it leaves alone are then escaped with their lower-case hex codes.
\<close>

definition encodeURLProperty :: "(string \<Rightarrow> string) \<Rightarrow> string \<Rightarrow> string" where
  "encodeURLProperty encodeURIComponent u =
     concat
       (map (\<lambda>c. if c = CHR ''!'' then ''%21''
                 else if c = CHR 0x27 then ''%27''
                 else if c = CHR ''('' then ''%28''
                 else if c = CHR '')'' then ''%29''
                 else if c = CHR ''*'' then ''%2a''
                 else [c])
          (encodeURIComponent u))"

text \<open>
  \<^verbatim>\<open>reloadPageInContainer\<close>, \<^verbatim>\<open>background-page-1.ts\<close>, lines 835-876.  \<open>loadPage\<close> is
  \<^verbatim>\<open>browser.extension.getURL('confirm-page.html')\<close>.  The result is the tab that is created: the
  destination itself in the assigned container when \<^verbatim>\<open>neverAsk\<close> is set, the confirmation page
  otherwise.
\<close>

definition reloadPageInContainer ::
  "string \<Rightarrow> (string \<Rightarrow> string) \<Rightarrow> Reload \<Rightarrow> error + CreateProperties" where
  "reloadPageInContainer loadPage encodeURIComponent args =
     (if \<not> truthy (rl_userContextId args)
      then Inl (Error ''userContextId is false or undefined'')
      else
        let cookieStoreId =
              getCookieStoreId (case rl_userContextId args of None \<Rightarrow> [] | Some u \<Rightarrow> u)
        in if rl_neverAsk args
           then Inr \<lparr>cp_url = Some (rl_url args), cp_cookieStoreId = Some cookieStoreId,
                     cp_active = Some (rl_active args), cp_pinned = None,
                     cp_index = Some (rl_index args), cp_openerTabId = rl_openerTabId args\<rparr>
           else
             let confirmUrl =
                   loadPage @ ''?url='' @ encodeURLProperty encodeURIComponent (rl_url args)
                   @ ''&cookieStoreId='' @ cookieStoreId;
                 currentCookieStoreId =
                   (if truthy (rl_currentUserContextId args)
                    then Some (getCookieStoreId
                                 (case rl_currentUserContextId args of None \<Rightarrow> [] | Some u \<Rightarrow> u))
                    else None)
             in Inr \<lparr>cp_url =
                        Some (confirmUrl
                              @ (case currentCookieStoreId of
                                   None \<Rightarrow> []
                                 | Some c \<Rightarrow> ''&currentCookieStoreId='' @ c)),
                      cp_cookieStoreId = currentCookieStoreId,
                      cp_active = Some (rl_active args), cp_pinned = None,
                      cp_index = Some (rl_index args), cp_openerTabId = rl_openerTabId args\<rparr>)"

text \<open>\<^verbatim>\<open>reloadPageInContainer\<close>, \<^verbatim>\<open>background-page.ts\<close>, lines 761-791: no guard.\<close>

definition assignManager_reloadPageInContainer ::
  "string \<Rightarrow> (string \<Rightarrow> string) \<Rightarrow> Reload \<Rightarrow> CreateProperties" where
  "assignManager_reloadPageInContainer loadPage encodeURIComponent args =
     (let cookieStoreId =
            backgroundLogic_cookieStoreId
              (Some (case rl_userContextId args of None \<Rightarrow> ''undefined'' | Some u \<Rightarrow> u))
      in if rl_neverAsk args
         then \<lparr>cp_url = Some (rl_url args), cp_cookieStoreId = Some cookieStoreId,
               cp_active = Some (rl_active args), cp_pinned = None,
               cp_index = Some (rl_index args), cp_openerTabId = rl_openerTabId args\<rparr>
         else
           let confirmUrl =
                 loadPage @ ''?url='' @ encodeURLProperty encodeURIComponent (rl_url args)
                 @ ''&cookieStoreId='' @ cookieStoreId;
               currentCookieStoreId =
                 (if truthy (rl_currentUserContextId args)
                  then Some (backgroundLogic_cookieStoreId (rl_currentUserContextId args))
                  else None)
           in \<lparr>cp_url =
                  Some (confirmUrl
                        @ (case currentCookieStoreId of
                             None \<Rightarrow> []
                           | Some c \<Rightarrow> ''&currentCookieStoreId='' @ c)),
                cp_cookieStoreId = currentCookieStoreId,
                cp_active = Some (rl_active args), cp_pinned = None,
                cp_index = Some (rl_index args), cp_openerTabId = rl_openerTabId args\<rparr>)"

text \<open>
  \<^verbatim>\<open>openNewTab\<close>, \<^verbatim>\<open>background-page-1.ts\<close>, lines 62-92.  The result is \<open>None\<close> when the function
  returns without creating a tab, and the argument of \<^verbatim>\<open>tabs.create\<close> otherwise.
\<close>

record OpenNewTabOptions =
  ont_userContextId :: "string option"
  ont_url :: "string option"
  ont_nofocus :: "bool optional"
  ont_pinned :: "bool option"

definition openNewTab :: "URL_parser \<Rightarrow> OpenNewTabOptions \<Rightarrow> error + CreateProperties option" where
  "openNewTab newURL options =
     (let url0 = (if truthy (ont_url options) then ont_url options else None);
          userContextId = (if truthy (ont_userContextId options)
                           then (case ont_userContextId options of None \<Rightarrow> [] | Some u \<Rightarrow> u)
                           else ''0'');
          active = (if has_key (ont_nofocus options) then read_key (ont_nofocus options)
                    else Some True);
          cookieStoreId = getCookieStoreId userContextId;
          url1 = (case url0 of
                    None \<Rightarrow> None
                  | Some u \<Rightarrow> if u \<in> set NEW_TAB_PAGES then None else Some u)
      in case isPermissibleURL newURL url1 of
           Inl e \<Rightarrow> Inl e
         | Inr permissible \<Rightarrow>
             if \<not> permissible then Inr None
             else Inr (Some \<lparr>cp_url = url1, cp_cookieStoreId = Some cookieStoreId,
                              cp_active = active,
                              cp_pinned = Some (case ont_pinned options of None \<Rightarrow> False | Some p \<Rightarrow> p),
                              cp_index = None, cp_openerTabId = None\<rparr>))"

text \<open>
  \<^verbatim>\<open>openNewTab\<close>, \<^verbatim>\<open>background-page.ts\<close>, lines 46-69.  \<^verbatim>\<open>userContextId\<close> is read when the key is
  present, whatever its value (\<^verbatim>\<open>showTabs\<close> passes \<^verbatim>\<open>false\<close> for a cookie-store id without the
  prefix), and is the number 0 otherwise.
\<close>

record backgroundLogic_OpenNewTabOptions =
  bont_userContextId :: "string option optional"
  bont_url :: "string option"
  bont_nofocus :: "bool optional"
  bont_pinned :: "bool option"

definition backgroundLogic_openNewTab ::
  "URL_parser \<Rightarrow> backgroundLogic_OpenNewTabOptions \<Rightarrow> error + CreateProperties option" where
  "backgroundLogic_openNewTab newURL options =
     (let url0 = (if truthy (bont_url options) then bont_url options else None);
          cookieStoreId =
            (case bont_userContextId options of
               Absent \<Rightarrow> ''firefox-container-0''
             | Undefined \<Rightarrow> ''firefox-container-undefined''
             | Defined userContextId \<Rightarrow> backgroundLogic_cookieStoreId userContextId);
          active = (if has_key (bont_nofocus options) then read_key (bont_nofocus options)
                    else Some True);
          url1 = (case url0 of
                    None \<Rightarrow> None
                  | Some u \<Rightarrow> if u \<in> set NEW_TAB_PAGES then None else Some u)
      in case backgroundLogic_isPermissibleURL newURL url1 of
           Inl e \<Rightarrow> Inl e
         | Inr permissible \<Rightarrow>
             if \<not> permissible then Inr None
             else Inr (Some \<lparr>cp_url = url1, cp_cookieStoreId = Some cookieStoreId,
                              cp_active = active,
                              cp_pinned = Some (case bont_pinned options of None \<Rightarrow> False | Some p \<Rightarrow> p),
                              cp_index = None, cp_openerTabId = None\<rparr>))"

text \<open>
  The options that \<^verbatim>\<open>showTabs\<close> builds for one hidden snapshot (lines 345-355 of
  \<^verbatim>\<open>background-page-1.ts\<close>): \<^verbatim>\<open>nofocus\<close> is always a key of them, \<^verbatim>\<open>options.nofocus || false\<close>.
\<close>

definition showTabs_options :: "string \<Rightarrow> bool optional \<Rightarrow> TabObject \<Rightarrow> OpenNewTabOptions" where
  "showTabs_options cookieStoreId nofocus object =
     \<lparr>ont_userContextId = getUserContextIdFromCookieStoreId cookieStoreId,
      ont_url = tab_url object,
      ont_nofocus = Defined (case read_key nofocus of None \<Rightarrow> False | Some f \<Rightarrow> f),
      ont_pinned = Some (tab_pinned object)\<rparr>"

section \<open>Sorting tabs\<close>

text \<open>
  The platform's part.  A window's tab strip is the list of its tabs in display order, pinned
  tabs first.  \<^verbatim>\<open>browser.tabs.move(id, {windowId, index})\<close> within one window takes the tab out
  and puts it back so that it ends at position \<^verbatim>\<open>index\<close> (at the end when the index is past
  it).  A pinned tab may only go to a position within or just after the pinned tabs and an
  unpinned tab only to a position after them; any other request is ignored, as is any request
  in a window with a single tab.  The stored \<^verbatim>\<open>index\<close> of every tab follows its position.
  The code does not await its moves; the browser serves the requests in the order in which they
  are issued, so a run of moves is their composition.
\<close>

fun reindex :: "nat \<Rightarrow> Tab list \<Rightarrow> Tab list" where
  "reindex i [] = []"
| "reindex i (tab # rest) = tab\<lparr>tab_index := i\<rparr> # reindex (i + 1) rest"

definition tabs_move :: "int \<Rightarrow> nat \<Rightarrow> Tab list \<Rightarrow> Tab list" where
  "tabs_move tabId index strip =
     (case find (\<lambda>tab. tab_id tab = tabId) strip of
        None \<Rightarrow> strip
      | Some tab \<Rightarrow>
          if length strip = 1 then strip
          else
            let numPinned = length (filter tab_pinned strip);
                allowed = (if tab_pinned tab then index \<le> numPinned else numPinned \<le> index)
            in if \<not> allowed then strip
               else
                 let target = (if tab_pinned tab then min index (numPinned - 1)
                               else max index numPinned);
                     others = filter (\<lambda>other. tab_id other \<noteq> tabId) strip
                 in reindex 0 (take target others @ [tab] @ drop target others))"

text \<open>
  \<^verbatim>\<open>Array.prototype.sort(comparefn)\<close>: a stable sort; \<open>after a b\<close> says that the comparator puts
  \<open>a\<close> after \<open>b\<close> (its result for \<open>(a, b)\<close> is positive).
\<close>

fun sort_insert :: "('a \<Rightarrow> 'a \<Rightarrow> bool) \<Rightarrow> 'a \<Rightarrow> 'a list \<Rightarrow> 'a list" where
  "sort_insert after x [] = [x]"
| "sort_insert after x (y # ys) =
     (if after y x then x # y # ys else y # sort_insert after x ys)"

definition Array_sort :: "('a \<Rightarrow> 'a \<Rightarrow> bool) \<Rightarrow> 'a list \<Rightarrow> 'a list" where
  "Array_sort after xs = foldl (\<lambda>sorted x. sort_insert after x sorted) [] xs"

text \<open>
  A \<^verbatim>\<open>Map\<close> from container ids to tab lists, in insertion order: \<^verbatim>\<open>map.get(key).push(tab)\<close>, after
  \<^verbatim>\<open>map.set(key, [])\<close> for a new key.
\<close>

fun group_push :: "'k \<Rightarrow> Tab \<Rightarrow> ('k \<times> Tab list) list \<Rightarrow> ('k \<times> Tab list) list" where
  "group_push key tab [] = [(key, [tab])]"
| "group_push key tab ((k, members) # rest) =
     (if k = key then (k, members @ [tab]) # rest else (k, members) # group_push key tab rest)"

text \<open>
  \<^verbatim>\<open>_sortTabsInternal\<close>, \<^verbatim>\<open>background-page-1.ts\<close>, lines 270-317.  The first loop (276-299) collects
  the groups and counts the pinned tabs that the unpinned pass skips; a tab without a container
  id is skipped without being counted.  The second loop (305-316) moves the tabs of the sorted
  groups one by one, incrementing \<^verbatim>\<open>pos\<close> before each move.  \<open>localeCompare\<close> is the platform's
  collation and a parameter.
\<close>

fun sortTabs_collect ::
  "bool \<Rightarrow> Tab list \<Rightarrow> nat \<Rightarrow> (string \<times> Tab list) list \<Rightarrow> nat \<times> (string \<times> Tab list) list" where
  "sortTabs_collect pinnedTabs [] pos groups = (pos, groups)"
| "sortTabs_collect pinnedTabs (tab # rest) pos groups =
     (if pinnedTabs \<and> \<not> tab_pinned tab then (pos, groups)
      else if \<not> pinnedTabs \<and> tab_pinned tab then sortTabs_collect pinnedTabs rest (pos + 1) groups
      else if \<not> truthy (tab_cookieStoreId tab) then sortTabs_collect pinnedTabs rest pos groups
      else
        (case getUserContextIdFromCookieStoreId
                (case tab_cookieStoreId tab of None \<Rightarrow> [] | Some c \<Rightarrow> c) of
           None \<Rightarrow> sortTabs_collect pinnedTabs rest pos groups
         | Some userContextId \<Rightarrow>
             if userContextId = [] then sortTabs_collect pinnedTabs rest pos groups
             else sortTabs_collect pinnedTabs rest pos (group_push userContextId tab groups)))"

fun sortTabs_move :: "Tab list \<Rightarrow> nat \<Rightarrow> Tab list \<Rightarrow> Tab list" where
  "sortTabs_move [] pos strip = strip"
| "sortTabs_move (tab # rest) pos strip =
     sortTabs_move rest (pos + 1) (tabs_move (tab_id tab) (pos + 1) strip)"

definition sortTabsInternal :: "(string \<Rightarrow> string \<Rightarrow> int) \<Rightarrow> bool \<Rightarrow> Tab list \<Rightarrow> Tab list" where
  "sortTabsInternal localeCompare pinnedTabs strip =
     (case sortTabs_collect pinnedTabs strip 0 [] of
        (pos, groups) \<Rightarrow>
          let sortMap = Array_sort (\<lambda>a b. localeCompare (fst a) (fst b) > 0) groups
          in sortTabs_move (concat (map snd sortMap)) pos strip)"

text \<open>
  \<^verbatim>\<open>sortTabs\<close>, lines 260-268: every window in turn, the pinned pass and then the unpinned pass,
  each on a fresh query of the window's tabs.  A window is given by the tabs that carry its id.
\<close>

definition windows_getAll :: "'a Browser_scheme \<Rightarrow> int list" where
  "windows_getAll b = remdups (map tab_windowId (open_tabs b))"

definition sortTabs :: "(string \<Rightarrow> string \<Rightarrow> int) \<Rightarrow> 'a Browser_scheme \<Rightarrow> 'a Browser_scheme" where
  "sortTabs localeCompare b =
     b\<lparr>open_tabs :=
         concat
           (map (\<lambda>windowId.
                   sortTabsInternal localeCompare False
                     (sortTabsInternal localeCompare True (tabs_query None (Some windowId) b)))
              (windows_getAll b))\<rparr>"

text \<open>
  \<^verbatim>\<open>_sortTabsInternal\<close> and \<^verbatim>\<open>sortTabs\<close>, \<^verbatim>\<open>background-page.ts\<close>, lines 231-279.  Every tab is put in
  a group; the key of a tab without a container id is \<^verbatim>\<open>false\<close> (\<open>None\<close>).  The comparator is
  \<^verbatim>\<open>a[0] > b[0]\<close>, JavaScript's comparison of keys that are strings or \<^verbatim>\<open>false\<close>; it is the
  parameter \<open>gt\<close>.  Its answer \<^verbatim>\<open>true\<close> counts as the positive number 1 and \<^verbatim>\<open>false\<close> as 0.  There
  is no \<^verbatim>\<open>tab.id == null\<close> guard in either variant's model, since every open tab has an id.
\<close>

fun backgroundLogic_sortTabs_collect ::
  "bool \<Rightarrow> Tab list \<Rightarrow> nat \<Rightarrow> (string option \<times> Tab list) list
     \<Rightarrow> nat \<times> (string option \<times> Tab list) list" where
  "backgroundLogic_sortTabs_collect pinnedTabs [] pos groups = (pos, groups)"
| "backgroundLogic_sortTabs_collect pinnedTabs (tab # rest) pos groups =
     (if pinnedTabs \<and> \<not> tab_pinned tab then (pos, groups)
      else if \<not> pinnedTabs \<and> tab_pinned tab
      then backgroundLogic_sortTabs_collect pinnedTabs rest (pos + 1) groups
      else
        let userContextId = backgroundLogic_getUserContextIdFromCookieStoreId (tab_cookieStoreId tab)
        in backgroundLogic_sortTabs_collect pinnedTabs rest pos (group_push userContextId tab groups))"

definition backgroundLogic_sortTabsInternal ::
  "(string option \<Rightarrow> string option \<Rightarrow> bool) \<Rightarrow> bool \<Rightarrow> Tab list \<Rightarrow> Tab list" where
  "backgroundLogic_sortTabsInternal gt pinnedTabs strip =
     (case backgroundLogic_sortTabs_collect pinnedTabs strip 0 [] of
        (pos, groups) \<Rightarrow>
          let sortMap = Array_sort (\<lambda>a b. gt (fst a) (fst b)) groups
          in sortTabs_move (concat (map snd sortMap)) pos strip)"

definition backgroundLogic_sortTabs ::
  "(string option \<Rightarrow> string option \<Rightarrow> bool) \<Rightarrow> 'a Browser_scheme \<Rightarrow> 'a Browser_scheme" where
  "backgroundLogic_sortTabs gt b =
     b\<lparr>open_tabs :=
         concat
           (map (\<lambda>windowId.
                   backgroundLogic_sortTabsInternal gt False
                     (backgroundLogic_sortTabsInternal gt True (tabs_query None (Some windowId) b)))
              (windows_getAll b))\<rparr>"

text \<open>
  Comparators for concrete inputs.  Strings are compared by their character codes, which is the
  collation order on strings of decimal digits; \<^verbatim>\<open>false\<close> is compared with a string of decimal
  digits as the number 0 with the number that the string denotes.
\<close>

fun code_compare :: "nat list \<Rightarrow> nat list \<Rightarrow> int" where
  "code_compare [] [] = 0"
| "code_compare [] (y # ys) = - 1"
| "code_compare (x # xs) [] = 1"
| "code_compare (x # xs) (y # ys) =
     (if x < y then - 1 else if y < x then 1 else code_compare xs ys)"

definition digits_localeCompare :: "string \<Rightarrow> string \<Rightarrow> int" where
  "digits_localeCompare a b = code_compare (map of_char a) (map of_char b)"

definition digits_value :: "string \<Rightarrow> nat" where
  "digits_value a = foldl (\<lambda>n c. 10 * n + (of_char c - 48)) 0 a"

definition digits_greater :: "string option \<Rightarrow> string option \<Rightarrow> bool" where
  "digits_greater a b =
     (case (a, b) of
        (Some x, Some y) \<Rightarrow> digits_localeCompare x y > 0
      | (Some x, None) \<Rightarrow> digits_value x > 0
      | (None, Some y) \<Rightarrow> False
      | (None, None) \<Rightarrow> False)"

subsection \<open>Vocabulary for the hidden-tab properties\<close>

text \<open>A url "has scheme about:, chrome: or moz-extension:" when the platform parses it so.\<close>

definition has_internal_scheme :: "URL_parser \<Rightarrow> string option \<Rightarrow> bool" where
  "has_internal_scheme newURL url =
     (case url of
        None \<Rightarrow> False
      | Some u \<Rightarrow>
          (case newURL u of
             None \<Rightarrow> False
           | Some parsed \<Rightarrow>
               protocol parsed = ''about:'' \<or> protocol parsed = ''chrome:''
               \<or> protocol parsed = ''moz-extension:''))"

text \<open>The \<^verbatim>\<open>hiddenTabs\<close> list persisted for a container (empty when nothing is stored).\<close>

definition persisted_hiddenTabs :: "string \<Rightarrow> 'a Browser_scheme \<Rightarrow> TabObject list" where
  "persisted_hiddenTabs cookieStoreId b =
     (case storage_local b (getContainerStoreKey cookieStoreId) of
        Some (ContainerState hidden) \<Rightarrow> hidden
      | _ \<Rightarrow> [])"

text \<open>The snapshot that \<^verbatim>\<open>storeHidden\<close> pushes for a tab.\<close>

definition hidden_snapshot :: "Tab \<Rightarrow> TabObject" where
  "hidden_snapshot tab = (createTabObject tab)\<lparr>tab_active := False, hiddenState := True\<rparr>"

subsection \<open>Vocabulary for the interception properties\<close>

text \<open>The reroute actions of one handled request: the arguments of its \<^verbatim>\<open>reloadPageInContainer\<close> calls.\<close>

fun reload_of :: "call \<Rightarrow> Reload list" where
  "reload_of (ReloadPageInContainer r) = [r]"
| "reload_of RemoveContextMenu = []"
| "reload_of (DeleteContainer u) = []"
| "reload_of (AssignManagerDeleteContainer u) = []"
| "reload_of (CalculateContextMenu t) = []"
| "reload_of (TabsRemove t) = []"

definition reroutes :: "Handled \<Rightarrow> Reload list" where
  "reroutes h = concat (map reload_of (calls h))"

text \<open>
  "A requestId or url already recorded" for the tab of a request: the tab has a ledger entry
  and the entry holds the request's id or its url.
\<close>

definition recorded :: "OnBeforeRequestOptions \<Rightarrow> (int \<rightharpoonup> CanceledRequest) \<Rightarrow> bool" where
  "recorded options canceled =
     (case canceled (req_tabId options) of
        None \<Rightarrow> False
      | Some entry \<Rightarrow> req_requestId options \<in> requestIds entry \<or> req_url options \<in> urls entry)"

text \<open>
  What happens to the ledger over time: a navigation event, met in its own browser state, or
  the deletion of a tab's entry by the \<^verbatim>\<open>onCompleted\<close> and \<^verbatim>\<open>onErrorOccurred\<close> listeners and by
  the 2-second timer (\<^verbatim>\<open>background-page-1.ts\<close>, lines 578-582 and 640-657).  Only the ledger is
  carried from one event to the next.
\<close>

datatype 'a event =
    Navigation OnBeforeRequestOptions "'a Extension_scheme"
  | Cleanup int

fun handle_chain ::
  "(OnBeforeRequestOptions \<Rightarrow> 'a Extension_scheme \<Rightarrow> Handled)
     \<Rightarrow> 'a event list \<Rightarrow> (int \<rightharpoonup> CanceledRequest) \<Rightarrow> Handled list" where
  "handle_chain handler [] canceled = []"
| "handle_chain handler (Navigation options s # later) canceled =
     (let h = handler options (s\<lparr>canceledRequests := canceled\<rparr>)
      in h # handle_chain handler later (ledger h))"
| "handle_chain handler (Cleanup tabId # later) canceled =
     handle_chain handler later (canceled(tabId := None))"

text \<open>
  A chain of events for tab \<open>t\<close> in which every navigation event carries a request id or a url
  that is recorded for \<open>t\<close> when the event arrives.
\<close>

fun recorded_on_arrival ::
  "(OnBeforeRequestOptions \<Rightarrow> 'a Extension_scheme \<Rightarrow> Handled)
     \<Rightarrow> int \<Rightarrow> 'a event list \<Rightarrow> (int \<rightharpoonup> CanceledRequest) \<Rightarrow> bool" where
  "recorded_on_arrival handler t [] canceled = True"
| "recorded_on_arrival handler t (Navigation options s # later) canceled =
     (req_tabId options = t \<and> recorded options canceled
      \<and> recorded_on_arrival handler t later
            (ledger (handler options (s\<lparr>canceledRequests := canceled\<rparr>))))"
| "recorded_on_arrival handler t (Cleanup tabId # later) canceled =
     recorded_on_arrival handler t later (canceled(tabId := None))"

section \<open>Concrete states used as instances\<close>

definition tabA :: Tab where
  "tabA = \<lparr>tab_id = 1, tab_url = Some ''https://a.com/inbox'',
            tab_cookieStoreId = Some ''firefox-container-5'', tab_windowId = 1, tab_index = 0,
            tab_pinned = False, tab_active = True, tab_incognito = False,
            tab_openerTabId = None\<rparr>"

definition tabB :: Tab where
  "tabB = \<lparr>tab_id = 2, tab_url = Some ''about:preferences'',
            tab_cookieStoreId = Some ''firefox-container-5'', tab_windowId = 1, tab_index = 1,
            tab_pinned = False, tab_active = False, tab_incognito = False,
            tab_openerTabId = None\<rparr>"

definition tabC :: Tab where
  "tabC = \<lparr>tab_id = 3, tab_url = Some ''moz-extension://abc/confirm-page.html'',
            tab_cookieStoreId = Some ''firefox-container-5'', tab_windowId = 1, tab_index = 2,
            tab_pinned = False, tab_active = False, tab_incognito = False,
            tab_openerTabId = None\<rparr>"

definition tabD :: Tab where
  "tabD = \<lparr>tab_id = 4, tab_url = Some ''https://b.com/'',
            tab_cookieStoreId = Some ''firefox-container-5'', tab_windowId = 2, tab_index = 0,
            tab_pinned = False, tab_active = True, tab_incognito = False,
            tab_openerTabId = None\<rparr>"

text \<open>Container 5 with three tabs in window 1 and one in window 2; nothing stored yet.\<close>

definition hide_example :: Browser where
  "hide_example =
     \<lparr>open_tabs = [tabA, tabB, tabC, tabD], storage_local = Map.empty,
      identities = [''firefox-container-5'']\<rparr>"

text \<open>Container 5 with two site assignments and a persisted (empty) container state.\<close>

definition delete_example :: Browser where
  "delete_example =
     \<lparr>open_tabs = [tabA],
      storage_local =
        [''siteContainerMap@@_a.com'' \<mapsto>
           Assignment \<lparr>ss_userContextId = ''5'', ss_neverAsk = False, ss_hostname = None\<rparr>,
         ''siteContainerMap@@_b.com'' \<mapsto>
           Assignment \<lparr>ss_userContextId = ''5'', ss_neverAsk = True, ss_hostname = None\<rparr>,
         ''identitiesState@@_firefox-container-5'' \<mapsto> ContainerState []],
      identities = [''firefox-container-5'']\<rparr>"

text \<open>
  A tab of container 1 and a tab outside every container; \<^verbatim>\<open>a.com\<close> is assigned to container 3,
  which exists; nothing is exempted and the ledger is empty.
\<close>

definition tabN :: Tab where
  "tabN = \<lparr>tab_id = 7, tab_url = Some ''https://start.example/'',
            tab_cookieStoreId = Some ''firefox-container-1'', tab_windowId = 1, tab_index = 2,
            tab_pinned = False, tab_active = True, tab_incognito = False,
            tab_openerTabId = None\<rparr>"

definition tabP :: Tab where
  "tabP = \<lparr>tab_id = 8, tab_url = Some ''https://start.example/'',
            tab_cookieStoreId = Some ''firefox-default'', tab_windowId = 1, tab_index = 3,
            tab_pinned = False, tab_active = False, tab_incognito = False,
            tab_openerTabId = None\<rparr>"

definition redirect_example :: Extension where
  "redirect_example =
     \<lparr>open_tabs = [tabN, tabP],
      storage_local =
        [''siteContainerMap@@_a.com'' \<mapsto>
           Assignment \<lparr>ss_userContextId = ''3'', ss_neverAsk = False, ss_hostname = None\<rparr>],
      identities = [''firefox-container-3''],
      exemptedTabs = Map.empty, canceledRequests = Map.empty, lastCreatedTab = None\<rparr>"

text \<open>
  A navigation of tab 7 to the assigned site; the same url again under another request id;
  and the same request id again with a url that has no assignment.
\<close>

definition first_request :: OnBeforeRequestOptions where
  "first_request = \<lparr>req_requestId = ''100'', req_url = ''http://a.com/'', req_frameId = 0, req_tabId = 7\<rparr>"

definition same_url_request :: OnBeforeRequestOptions where
  "same_url_request = \<lparr>req_requestId = ''101'', req_url = ''http://a.com/'', req_frameId = 0, req_tabId = 7\<rparr>"

definition same_id_request :: OnBeforeRequestOptions where
  "same_id_request = \<lparr>req_requestId = ''100'', req_url = ''http://b.com/'', req_frameId = 0, req_tabId = 7\<rparr>"

text \<open>
  A redirect of the first request (same request id, another url of the assigned site), and a
  later request for the url of the redirect under a new id: it repeats neither the id nor the
  url of the first request.
\<close>

definition redirected_request :: OnBeforeRequestOptions where
  "redirected_request =
     \<lparr>req_requestId = ''100'', req_url = ''http://a.com/login'', req_frameId = 0, req_tabId = 7\<rparr>"

definition repeated_request :: OnBeforeRequestOptions where
  "repeated_request =
     \<lparr>req_requestId = ''102'', req_url = ''http://a.com/login'', req_frameId = 0, req_tabId = 7\<rparr>"

text \<open>The ledger after the first request has been canceled.\<close>

definition first_recorded :: "int \<rightharpoonup> CanceledRequest" where
  "first_recorded = [7 \<mapsto> \<lparr>requestIds = {''100''}, urls = {''http://a.com/''}\<rparr>]"

text \<open>The navigation to the assigned site in tab 8, which is in no container.\<close>

definition default_tab_request :: OnBeforeRequestOptions where
  "default_tab_request = \<lparr>req_requestId = ''200'', req_url = ''http://a.com/'', req_frameId = 0, req_tabId = 8\<rparr>"

text \<open>The same browser before any site is assigned, and the navigation of the default-port scenario.\<close>

definition unassigned_example :: Extension where
  "unassigned_example =
     \<lparr>open_tabs = [tabN, tabP], storage_local = Map.empty,
      identities = [''firefox-container-3''],
      exemptedTabs = Map.empty, canceledRequests = Map.empty, lastCreatedTab = None\<rparr>"

definition port80_request :: OnBeforeRequestOptions where
  "port80_request =
     \<lparr>req_requestId = ''300'', req_url = ''http://example.com:80/page'', req_frameId = 0, req_tabId = 7\<rparr>"

text \<open>The same navigation in tab 8, the tab outside every container.\<close>

definition default_port80_request :: OnBeforeRequestOptions where
  "default_port80_request =
     \<lparr>req_requestId = ''301'', req_url = ''http://example.com:80/page'', req_frameId = 0, req_tabId = 8\<rparr>"

text \<open>The state after \<^verbatim>\<open>example.com\<close> has been assigned to container 3.\<close>

definition assigned_example :: Extension where
  "assigned_example =
     unassigned_example
       \<lparr>storage_local :=
          [''siteContainerMap@@_example.com'' \<mapsto>
             Assignment \<lparr>ss_userContextId = ''3'', ss_neverAsk = False, ss_hostname = None\<rparr>]\<rparr>"

text \<open>
  One window with three unpinned tabs: one of container 1, one of container 2, and one outside
  every container.
\<close>

definition tabS1 :: Tab where
  "tabS1 = \<lparr>tab_id = 11, tab_url = Some ''https://a.com/inbox'',
             tab_cookieStoreId = Some ''firefox-container-1'', tab_windowId = 1, tab_index = 0,
             tab_pinned = False, tab_active = True, tab_incognito = False,
             tab_openerTabId = None\<rparr>"

definition tabS2 :: Tab where
  "tabS2 = \<lparr>tab_id = 12, tab_url = Some ''https://b.com/'',
             tab_cookieStoreId = Some ''firefox-container-2'', tab_windowId = 1, tab_index = 1,
             tab_pinned = False, tab_active = False, tab_incognito = False,
             tab_openerTabId = None\<rparr>"

definition tabS3 :: Tab where
  "tabS3 = \<lparr>tab_id = 13, tab_url = Some ''https://start.example/'',
             tab_cookieStoreId = Some ''firefox-default'', tab_windowId = 1, tab_index = 2,
             tab_pinned = False, tab_active = False, tab_incognito = False,
             tab_openerTabId = None\<rparr>"

definition sort_example :: Browser where
  "sort_example =
     \<lparr>open_tabs = [tabS1, tabS2, tabS3], storage_local = Map.empty,
      identities = [''firefox-container-1'', ''firefox-container-2'']\<rparr>"

section \<open>Properties\<close>

lemma String_replace_prefix:
  assumes "pat \<noteq> []"
  shows "String_replace pat rep (pat @ s) = rep @ s"
proof -
  from assms obtain c cs where split: "pat @ s = c # cs"
    by (cases "pat @ s") auto
  have "String_replace pat rep (c # cs) = rep @ drop (length pat) (c # cs)"
    unfolding split [symmetric] String_replace.simps(2) [of pat rep c cs, unfolded split [symmetric]]
    by simp
  then show ?thesis
    unfolding split [symmetric] by simp
qed

text \<open>
  C7.  Prepending the fixed prefix to a container id and stripping it again returns the id:
  \<^verbatim>\<open>getUserContextIdFromCookieStoreId(getCookieStoreId(id)) == id\<close>, for every string \<open>id\<close>.
\<close>

theorem cookieStoreId_roundtrip:
  "getUserContextIdFromCookieStoreId (getCookieStoreId ident) = Some ident"
proof -
  have "String_replace ''firefox-container-'' [] (''firefox-container-'' @ ident) = ident"
    using String_replace_prefix [of "''firefox-container-''" "[]" ident] by simp
  moreover have "ident \<noteq> ''firefox-container-'' @ ident"
  proof
    assume "ident = ''firefox-container-'' @ ident"
    then have "length ident = length (''firefox-container-'' @ ident)" by simp
    then show False by simp
  qed
  ultimately show ?thesis
    by (simp add: getUserContextIdFromCookieStoreId_def getCookieStoreId_def Let_def)
qed

subsection \<open>Hidden tabs\<close>

lemma isPermissibleURL_True:
  "isPermissibleURL newURL url = Inr True \<Longrightarrow> \<not> has_internal_scheme newURL url"
  by (auto simp: isPermissibleURL_def has_internal_scheme_def split: option.splits if_splits)

lemma backgroundLogic_isPermissibleURL_True:
  "backgroundLogic_isPermissibleURL newURL url = Inr True \<Longrightarrow> \<not> has_internal_scheme newURL url"
  by (auto simp: backgroundLogic_isPermissibleURL_def has_internal_scheme_def split: option.splits if_splits)

lemma tab_url_hidden_snapshot: "tab_url (hidden_snapshot tab) = tab_url tab"
  by (simp add: hidden_snapshot_def createTabObject_def)

lemma storeHidden_forEach_ContainerState:
  "storeHidden_forEach newURL ts (ContainerState h) = Inr v \<Longrightarrow>
     v = ContainerState (h @ map hidden_snapshot (filter (\<lambda>t. isPermissibleURL newURL (tab_url t) = Inr True) ts))"
proof (induction ts arbitrary: h)
  case Nil
  then show ?case by simp
next
  case (Cons t ts)
  show ?case
  proof (cases "isPermissibleURL newURL (tab_url t)")
    case (Inl e)
    with Cons.prems show ?thesis by simp
  next
    case (Inr ok)
    show ?thesis
    proof (cases ok)
      case True
      with Inr Cons.prems
      have "storeHidden_forEach newURL ts (ContainerState (h @ [hidden_snapshot t])) = Inr v"
        by (simp add: hiddenTabs_push_def hidden_snapshot_def)
      from Cons.IH [OF this] Inr True show ?thesis by simp
    next
      case False
      with Inr Cons.prems have "storeHidden_forEach newURL ts (ContainerState h) = Inr v"
        by simp
      from Cons.IH [OF this] Inr False show ?thesis by simp
    qed
  qed
qed

lemma storeHidden_forEach_other:
  "storeHidden_forEach newURL ts v = Inr v' \<Longrightarrow> (\<And>h. v \<noteq> ContainerState h) \<Longrightarrow> v' = v"
  by (induction ts arbitrary: v)
     (auto simp: hiddenTabs_push_def split: sum.splits if_splits StoredValue.splits)


lemma storeHidden_forEach_other_none:
  "storeHidden_forEach newURL ts v = Inr v' \<Longrightarrow> (\<And>h. v \<noteq> ContainerState h) \<Longrightarrow>
     filter (\<lambda>t. isPermissibleURL newURL (tab_url t) = Inr True) ts = []"
  by (induction ts arbitrary: v)
     (auto simp: hiddenTabs_push_def split: sum.splits if_splits StoredValue.splits)

lemma identityState_storeHidden_forEach_ContainerState:
  "identityState_storeHidden_forEach newURL ts (ContainerState h) = Inr v \<Longrightarrow>
     v = ContainerState
           (h @ map hidden_snapshot (filter (\<lambda>t. backgroundLogic_isPermissibleURL newURL (tab_url t) = Inr True) ts))"
proof (induction ts arbitrary: h)
  case Nil
  then show ?case by simp
next
  case (Cons t ts)
  show ?case
  proof (cases "backgroundLogic_isPermissibleURL newURL (tab_url t)")
    case (Inl e)
    with Cons.prems show ?thesis by simp
  next
    case (Inr ok)
    show ?thesis
    proof (cases ok)
      case True
      with Inr Cons.prems
      have "identityState_storeHidden_forEach newURL ts (ContainerState (h @ [hidden_snapshot t])) = Inr v"
        by (simp add: hiddenTabs_push_def hidden_snapshot_def)
      from Cons.IH [OF this] Inr True show ?thesis by simp
    next
      case False
      with Inr Cons.prems have "identityState_storeHidden_forEach newURL ts (ContainerState h) = Inr v"
        by simp
      from Cons.IH [OF this] Inr False show ?thesis by simp
    qed
  qed
qed

lemma identityState_storeHidden_forEach_other:
  "identityState_storeHidden_forEach newURL ts v = Inr v' \<Longrightarrow> (\<And>h. v \<noteq> ContainerState h) \<Longrightarrow>
     v' = v \<and> filter (\<lambda>t. backgroundLogic_isPermissibleURL newURL (tab_url t) = Inr True) ts = []"
  by (induction ts arbitrary: v)
     (auto simp: hiddenTabs_push_def split: sum.splits if_splits StoredValue.splits)

lemma tabs_query_storage [simp]:
  "tabs_query c w (b\<lparr>storage_local := m\<rparr>) = tabs_query c w b"
  by (simp add: tabs_query_def)

lemma persisted_after_storeHidden:
  "persisted_hiddenTabs c (snd (storeHidden newURL c w b)) =
     (case fst (storeHidden newURL c w b) of
        Inl e \<Rightarrow> persisted_hiddenTabs c b
      | Inr u \<Rightarrow>
          persisted_hiddenTabs c b
          @ map hidden_snapshot (filter (\<lambda>t. isPermissibleURL newURL (tab_url t) = Inr True)
                        (tabs_query (Some c) (Some w) b)))"
proof (cases "storage_local b (getContainerStoreKey c)")
  case None
  let ?ts = "tabs_query (Some c) (Some w) b"
  show ?thesis
  proof (cases "storeHidden_forEach newURL ?ts (ContainerState [])")
    case (Inl e)
    with None show ?thesis
      by (simp add: storeHidden_def identityStateGet_def identityStateSet_def
            createIdentityState_def persisted_hiddenTabs_def Let_def)
  next
    case (Inr v)
    from storeHidden_forEach_ContainerState [OF Inr] Inr None show ?thesis
      by (simp add: storeHidden_def identityStateGet_def identityStateSet_def
            createIdentityState_def persisted_hiddenTabs_def Let_def)
  qed
next
  case (Some stored)
  let ?ts = "tabs_query (Some c) (Some w) b"
  show ?thesis
  proof (cases "storeHidden_forEach newURL ?ts stored")
    case (Inl e)
    with Some show ?thesis
      by (simp add: storeHidden_def identityStateGet_def persisted_hiddenTabs_def Let_def)
  next
    case (Inr v)
    show ?thesis
    proof (cases stored)
      case (ContainerState h)
      from storeHidden_forEach_ContainerState [OF Inr [unfolded ContainerState]] Inr Some ContainerState
      show ?thesis
        by (simp add: storeHidden_def identityStateGet_def identityStateSet_def
              persisted_hiddenTabs_def Let_def)
    next
      case (Assignment a)
      then have no: "\<And>h. stored \<noteq> ContainerState h" by simp
      from storeHidden_forEach_other [OF Inr no] storeHidden_forEach_other_none [OF Inr no]
        Inr Some Assignment
      show ?thesis
        by (simp add: storeHidden_def identityStateGet_def identityStateSet_def
              persisted_hiddenTabs_def Let_def)
    next
      case OtherValue
      then have no: "\<And>h. stored \<noteq> ContainerState h" by simp
      from storeHidden_forEach_other [OF Inr no] storeHidden_forEach_other_none [OF Inr no]
        Inr Some OtherValue
      show ?thesis
        by (simp add: storeHidden_def identityStateGet_def identityStateSet_def
              persisted_hiddenTabs_def Let_def)
    qed
  qed
qed


lemma persisted_after_identityState_storeHidden:
  "persisted_hiddenTabs c (snd (identityState_storeHidden newURL (Some c) w b)) =
     (case fst (identityState_storeHidden newURL (Some c) w b) of
        Inl e \<Rightarrow> persisted_hiddenTabs c b
      | Inr u \<Rightarrow>
          persisted_hiddenTabs c b
          @ map hidden_snapshot (filter (\<lambda>t. backgroundLogic_isPermissibleURL newURL (tab_url t) = Inr True)
                        (tabs_query (Some c) w b)))"
proof -
  have key: "identityState_getContainerStoreKey (Some c) = getContainerStoreKey c"
    by (simp add: identityState_getContainerStoreKey_def getContainerStoreKey_def)
  let ?ts = "tabs_query (Some c) w b"
  show ?thesis
  proof (cases "storage_local b (getContainerStoreKey c)")
    case None
    show ?thesis
    proof (cases "identityState_storeHidden_forEach newURL ?ts (ContainerState [])")
      case (Inl e)
      with None show ?thesis
        by (simp add: identityState_storeHidden_def identityState_get_def identityState_set_def
              identityState_createIdentityState_def persisted_hiddenTabs_def key Let_def)
    next
      case (Inr v)
      from identityState_storeHidden_forEach_ContainerState [OF Inr] Inr None show ?thesis
        by (simp add: identityState_storeHidden_def identityState_get_def identityState_set_def
              identityState_createIdentityState_def persisted_hiddenTabs_def key Let_def)
    qed
  next
    case (Some stored)
    show ?thesis
    proof (cases "identityState_storeHidden_forEach newURL ?ts stored")
      case (Inl e)
      with Some show ?thesis
        by (simp add: identityState_storeHidden_def identityState_get_def
              persisted_hiddenTabs_def key Let_def)
    next
      case (Inr v)
      show ?thesis
      proof (cases "\<exists>h. stored = ContainerState h")
        case True
        then obtain h where h: "stored = ContainerState h" ..
        from identityState_storeHidden_forEach_ContainerState [OF Inr [unfolded h]] Inr Some h
        show ?thesis
          by (simp add: identityState_storeHidden_def identityState_get_def identityState_set_def
                persisted_hiddenTabs_def key Let_def)
      next
        case False
        then have no: "\<And>h. stored \<noteq> ContainerState h" by simp
        from identityState_storeHidden_forEach_other [OF Inr no] Inr Some no
        show ?thesis
          by (cases stored)
             (simp_all add: identityState_storeHidden_def identityState_get_def identityState_set_def
                persisted_hiddenTabs_def key Let_def)
      qed
    qed
  qed
qed

text \<open>
  C6.  \<^verbatim>\<open>storeHidden\<close> keeps the persisted \<^verbatim>\<open>hiddenTabs\<close> of a container free of snapshots whose
  url has scheme \<^verbatim>\<open>about:\<close>, \<^verbatim>\<open>chrome:\<close> or \<^verbatim>\<open>moz-extension:\<close>: if the list persisted before the
  call holds none (as the empty default does), the list persisted after the call holds none, in
  both variants and also when the call fails.  When the call succeeds, what it appends is exactly
  the snapshots of the queried tabs that \<^verbatim>\<open>isPermissibleURL\<close> accepts; every other open tab is
  dropped.  \<^verbatim>\<open>storeHidden\<close> is the only function of the repository that appends to \<^verbatim>\<open>hiddenTabs\<close>.
\<close>

theorem storeHidden_drops_internal_pages:
  assumes clean: "list_all (\<lambda>snap. \<not> has_internal_scheme newURL (tab_url snap)) (persisted_hiddenTabs c b)"
  shows "list_all (\<lambda>snap. \<not> has_internal_scheme newURL (tab_url snap))
           (persisted_hiddenTabs c (snd (storeHidden newURL c w b)))
       \<and> list_all (\<lambda>snap. \<not> has_internal_scheme newURL (tab_url snap))
           (persisted_hiddenTabs c (snd (identityState_storeHidden newURL (Some c) w0 b)))
       \<and> (fst (storeHidden newURL c w b) = Inr () \<longrightarrow>
            persisted_hiddenTabs c (snd (storeHidden newURL c w b)) =
              persisted_hiddenTabs c b
              @ map hidden_snapshot (filter (\<lambda>t. isPermissibleURL newURL (tab_url t) = Inr True)
                            (tabs_query (Some c) (Some w) b)))
       \<and> (fst (identityState_storeHidden newURL (Some c) w0 b) = Inr () \<longrightarrow>
            persisted_hiddenTabs c (snd (identityState_storeHidden newURL (Some c) w0 b)) =
              persisted_hiddenTabs c b
              @ map hidden_snapshot (filter (\<lambda>t. backgroundLogic_isPermissibleURL newURL (tab_url t) = Inr True)
                            (tabs_query (Some c) w0 b)))"
proof -
  have new1: "list_all (\<lambda>snap. \<not> has_internal_scheme newURL (tab_url snap))
        (map hidden_snapshot (filter (\<lambda>t. isPermissibleURL newURL (tab_url t) = Inr True) ts))" for ts
    by (induction ts) (auto simp: tab_url_hidden_snapshot isPermissibleURL_True)
  have new0: "list_all (\<lambda>snap. \<not> has_internal_scheme newURL (tab_url snap))
        (map hidden_snapshot (filter (\<lambda>t. backgroundLogic_isPermissibleURL newURL (tab_url t) = Inr True) ts))" for ts
    by (induction ts) (auto simp: tab_url_hidden_snapshot backgroundLogic_isPermissibleURL_True)
  have a: "list_all (\<lambda>snap. \<not> has_internal_scheme newURL (tab_url snap))
           (persisted_hiddenTabs c (snd (storeHidden newURL c w b)))"
    unfolding persisted_after_storeHidden using clean new1
    by (cases "fst (storeHidden newURL c w b)") simp_all
  have b: "list_all (\<lambda>snap. \<not> has_internal_scheme newURL (tab_url snap))
           (persisted_hiddenTabs c (snd (identityState_storeHidden newURL (Some c) w0 b)))"
    unfolding persisted_after_identityState_storeHidden using clean new0
    by (cases "fst (identityState_storeHidden newURL (Some c) w0 b)") simp_all
  have c: "fst (storeHidden newURL c w b) = Inr () \<longrightarrow>
            persisted_hiddenTabs c (snd (storeHidden newURL c w b)) =
              persisted_hiddenTabs c b
              @ map hidden_snapshot (filter (\<lambda>t. isPermissibleURL newURL (tab_url t) = Inr True)
                            (tabs_query (Some c) (Some w) b))"
    by (simp add: persisted_after_storeHidden)
  have d: "fst (identityState_storeHidden newURL (Some c) w0 b) = Inr () \<longrightarrow>
            persisted_hiddenTabs c (snd (identityState_storeHidden newURL (Some c) w0 b)) =
              persisted_hiddenTabs c b
              @ map hidden_snapshot (filter (\<lambda>t. backgroundLogic_isPermissibleURL newURL (tab_url t) = Inr True)
                            (tabs_query (Some c) w0 b))"
    by (simp add: persisted_after_identityState_storeHidden)
  from a b c d show ?thesis by blast
qed


lemma platformURL_a: "platformURL ''https://a.com/inbox'' = Some \<lparr>protocol = ''https:'', hostname = ''a.com'', port = []\<rparr>"
  by (simp add: platformURL_def default_port_def Let_def)
lemma platformURL_b: "platformURL ''about:preferences'' = Some \<lparr>protocol = ''about:'', hostname = [], port = []\<rparr>"
  by (simp add: platformURL_def default_port_def Let_def)
lemma platformURL_c: "platformURL ''moz-extension://abc/confirm-page.html'' = Some \<lparr>protocol = ''moz-extension:'', hostname = ''abc'', port = []\<rparr>"
  by (simp add: platformURL_def default_port_def Let_def)
lemma platformURL_d: "platformURL ''https://b.com/'' = Some \<lparr>protocol = ''https:'', hostname = ''b.com'', port = []\<rparr>"
  by (simp add: platformURL_def default_port_def Let_def)

lemmas example_urls = platformURL_a platformURL_b platformURL_c platformURL_d

theorem storeHidden_drops_internal_pages_witness:
  "list_all (\<lambda>snap. \<not> has_internal_scheme platformURL (tab_url snap))
     (persisted_hiddenTabs ''firefox-container-5'' hide_example)
   \<and> fst (storeHidden platformURL ''firefox-container-5'' 1 hide_example) = Inr ()
   \<and> persisted_hiddenTabs ''firefox-container-5''
        (snd (storeHidden platformURL ''firefox-container-5'' 1 hide_example)) = [hidden_snapshot tabA]
   \<and> fst (identityState_storeHidden platformURL (Some ''firefox-container-5'') (Some 1) hide_example) = Inr ()
   \<and> persisted_hiddenTabs ''firefox-container-5''
        (snd (identityState_storeHidden platformURL (Some ''firefox-container-5'') (Some 1) hide_example))
      = [hidden_snapshot tabA]"
proof -
  have clean: "list_all (\<lambda>snap. \<not> has_internal_scheme platformURL (tab_url snap))
     (persisted_hiddenTabs ''firefox-container-5'' hide_example)"
    by (simp add: persisted_hiddenTabs_def hide_example_def)
  have q: "tabs_query (Some ''firefox-container-5'') (Some 1) hide_example = [tabA, tabB, tabC]"
    by (simp add: tabs_query_def hide_example_def tabA_def tabB_def tabC_def tabD_def)
  have ok1: "fst (storeHidden platformURL ''firefox-container-5'' 1 hide_example) = Inr ()"
    by (simp add: storeHidden_def identityStateGet_def identityStateSet_def createIdentityState_def
          getContainerStoreKey_def tabs_query_def hide_example_def tabA_def tabB_def tabC_def tabD_def
          isPermissibleURL_def example_urls hiddenTabs_push_def Let_def)
  have ok0: "fst (identityState_storeHidden platformURL (Some ''firefox-container-5'') (Some 1) hide_example) = Inr ()"
    by (simp add: identityState_storeHidden_def identityState_get_def identityState_set_def
          identityState_createIdentityState_def identityState_getContainerStoreKey_def
          tabs_query_def hide_example_def tabA_def tabB_def tabC_def tabD_def
          backgroundLogic_isPermissibleURL_def example_urls hiddenTabs_push_def Let_def)
  have f1: "filter (\<lambda>t. isPermissibleURL platformURL (tab_url t) = Inr True) [tabA, tabB, tabC] = [tabA]"
    by (simp add: tabA_def tabB_def tabC_def isPermissibleURL_def example_urls)
  have f0: "filter (\<lambda>t. backgroundLogic_isPermissibleURL platformURL (tab_url t) = Inr True) [tabA, tabB, tabC] = [tabA]"
    by (simp add: tabA_def tabB_def tabC_def backgroundLogic_isPermissibleURL_def example_urls)
  have empty: "persisted_hiddenTabs ''firefox-container-5'' hide_example = []"
    by (simp add: persisted_hiddenTabs_def hide_example_def)
  note inst = storeHidden_drops_internal_pages [OF clean, of 1 "Some 1", unfolded q f1 f0 empty]
  from inst clean ok1 ok0 show ?thesis
    by simp
qed


subsection \<open>Deleting a container\<close>

lemma storage_local_storageAreaDeleteContainer:
  "storage_local (storageAreaDeleteContainer u b) key =
     (case storage_local b key of
        None \<Rightarrow> None
      | Some v \<Rightarrow> if String_userContextId v = u then None else Some v)"
  by (simp add: storageAreaDeleteContainer_def getByContainer_def Let_def split: option.splits)

lemma storage_local_assignManager_deleteContainer:
  "storage_local (assignManager_deleteContainer (Some u) b) key =
     (case storage_local b key of
        None \<Rightarrow> None
      | Some v \<Rightarrow> if String_userContextId v = u then None else Some v)"
  by (simp add: assignManager_deleteContainer_def assignManager_storageArea_deleteContainer_def
        assignManager_getByContainer_def Let_def split: option.splits)

lemma deleteContainer_result:
  assumes "getCookieStoreId u \<in> set (identities b)"
  shows "fst (deleteContainer u False b) = Inr u"
    and "storage_local (snd (deleteContainer u False b)) key =
           (case storage_local b key of
              None \<Rightarrow> None
            | Some v \<Rightarrow> if String_userContextId v = u then None else Some v)"
  using assms
  by (simp_all add: deleteContainer_def closeTabs_def tabs_remove_def Let_def
        storage_local_storageAreaDeleteContainer)

lemma backgroundLogic_deleteContainer_result:
  assumes "backgroundLogic_cookieStoreId (Some u) \<in> set (identities b)"
  shows "fst (backgroundLogic_deleteContainer (Some u) False b) = Inr (Some u)"
    and "storage_local (snd (backgroundLogic_deleteContainer (Some u) False b)) key =
           (case storage_local b key of
              None \<Rightarrow> None
            | Some v \<Rightarrow> if String_userContextId v = u then None else Some v)"
  using assms
  by (simp_all add: backgroundLogic_deleteContainer_def backgroundLogic_closeTabs_def
        tabs_remove_def Let_def storage_local_assignManager_deleteContainer)

text \<open>
  C2 (as amended).  Deleting container "5", which exists and has site assignments stored under
  \<^verbatim>\<open>siteContainerMap@@_a.com\<close> and \<^verbatim>\<open>siteContainerMap@@_b.com\<close>, removes both keys, in both
  variants.  What is removed is exactly the keys whose stored value has \<^verbatim>\<open>userContextId\<close> "5":
  every other key keeps its value, and so a container state stored under
  \<^verbatim>\<open>identitiesState@@_firefox-container-5\<close> stays in the store.
\<close>

theorem deleteContainer_removes_site_assignments:
  assumes a: "storage_local b ''siteContainerMap@@_a.com'' = Some (Assignment sa)"
      and ua: "ss_userContextId sa = ''5''"
      and b: "storage_local b ''siteContainerMap@@_b.com'' = Some (Assignment sb)"
      and ub: "ss_userContextId sb = ''5''"
      and exists: "''firefox-container-5'' \<in> set (identities b)"
  shows "fst (deleteContainer ''5'' False b) = Inr ''5''
       \<and> storage_local (snd (deleteContainer ''5'' False b)) ''siteContainerMap@@_a.com'' = None
       \<and> storage_local (snd (deleteContainer ''5'' False b)) ''siteContainerMap@@_b.com'' = None
       \<and> (\<forall>key v. storage_local b key = Some v \<and> String_userContextId v \<noteq> ''5'' \<longrightarrow>
             storage_local (snd (deleteContainer ''5'' False b)) key = Some v)
       \<and> (\<forall>hidden. storage_local b ''identitiesState@@_firefox-container-5'' = Some (ContainerState hidden) \<longrightarrow>
             storage_local (snd (deleteContainer ''5'' False b)) ''identitiesState@@_firefox-container-5''
               = Some (ContainerState hidden))
       \<and> fst (backgroundLogic_deleteContainer (Some ''5'') False b) = Inr (Some ''5'')
       \<and> storage_local (snd (backgroundLogic_deleteContainer (Some ''5'') False b))
            ''siteContainerMap@@_a.com'' = None
       \<and> storage_local (snd (backgroundLogic_deleteContainer (Some ''5'') False b))
            ''siteContainerMap@@_b.com'' = None
       \<and> (\<forall>key v. storage_local b key = Some v \<and> String_userContextId v \<noteq> ''5'' \<longrightarrow>
             storage_local (snd (backgroundLogic_deleteContainer (Some ''5'') False b)) key = Some v)
       \<and> (\<forall>hidden. storage_local b ''identitiesState@@_firefox-container-5'' = Some (ContainerState hidden) \<longrightarrow>
             storage_local (snd (backgroundLogic_deleteContainer (Some ''5'') False b))
               ''identitiesState@@_firefox-container-5'' = Some (ContainerState hidden))"
proof -
  have e1: "getCookieStoreId ''5'' \<in> set (identities b)"
    using exists by (simp add: getCookieStoreId_def)
  have e0: "backgroundLogic_cookieStoreId (Some ''5'') \<in> set (identities b)"
    using exists by (simp add: backgroundLogic_cookieStoreId_def)
  show ?thesis
    using a ua b ub
    by (simp add: deleteContainer_result [OF e1] backgroundLogic_deleteContainer_result [OF e0]
          String_userContextId_def)
qed

theorem deleteContainer_removes_site_assignments_witness:
  "storage_local delete_example ''siteContainerMap@@_a.com''
     = Some (Assignment \<lparr>ss_userContextId = ''5'', ss_neverAsk = False, ss_hostname = None\<rparr>)
   \<and> storage_local delete_example ''siteContainerMap@@_b.com''
     = Some (Assignment \<lparr>ss_userContextId = ''5'', ss_neverAsk = True, ss_hostname = None\<rparr>)
   \<and> ''firefox-container-5'' \<in> set (identities delete_example)
   \<and> fst (deleteContainer ''5'' False delete_example) = Inr ''5''
   \<and> storage_local (snd (deleteContainer ''5'' False delete_example)) ''siteContainerMap@@_a.com'' = None
   \<and> storage_local (snd (deleteContainer ''5'' False delete_example)) ''siteContainerMap@@_b.com'' = None
   \<and> storage_local (snd (backgroundLogic_deleteContainer (Some ''5'') False delete_example))
        ''siteContainerMap@@_a.com'' = None
   \<and> storage_local (snd (backgroundLogic_deleteContainer (Some ''5'') False delete_example))
        ''siteContainerMap@@_b.com'' = None"
proof -
  have a: "storage_local delete_example ''siteContainerMap@@_a.com''
     = Some (Assignment \<lparr>ss_userContextId = ''5'', ss_neverAsk = False, ss_hostname = None\<rparr>)"
    by (simp add: delete_example_def)
  have b: "storage_local delete_example ''siteContainerMap@@_b.com''
     = Some (Assignment \<lparr>ss_userContextId = ''5'', ss_neverAsk = True, ss_hostname = None\<rparr>)"
    by (simp add: delete_example_def)
  have e: "''firefox-container-5'' \<in> set (identities delete_example)"
    by (simp add: delete_example_def)
  from deleteContainer_removes_site_assignments [OF a _ b _ e] a b e show ?thesis
    by simp
qed

text \<open>
  C2 as stated fails: with both assignments and the container state stored, the key
  \<^verbatim>\<open>identitiesState@@_firefox-container-5\<close> is still there after \<^verbatim>\<open>deleteContainer("5")\<close> has
  succeeded, in both variants.  No path of \<^verbatim>\<open>deleteContainer\<close> calls \<^verbatim>\<open>identityStateRemove\<close>.
\<close>

theorem deleteContainer_keeps_identity_state:
  "storage_local delete_example ''identitiesState@@_firefox-container-5'' = Some (ContainerState [])
   \<and> fst (deleteContainer ''5'' False delete_example) = Inr ''5''
   \<and> storage_local (snd (deleteContainer ''5'' False delete_example))
        ''identitiesState@@_firefox-container-5'' = Some (ContainerState [])
   \<and> fst (backgroundLogic_deleteContainer (Some ''5'') False delete_example) = Inr (Some ''5'')
   \<and> storage_local (snd (backgroundLogic_deleteContainer (Some ''5'') False delete_example))
        ''identitiesState@@_firefox-container-5'' = Some (ContainerState [])"
proof -
  have e1: "getCookieStoreId ''5'' \<in> set (identities delete_example)"
    by (simp add: getCookieStoreId_def delete_example_def)
  have e0: "backgroundLogic_cookieStoreId (Some ''5'') \<in> set (identities delete_example)"
    by (simp add: backgroundLogic_cookieStoreId_def delete_example_def)
  have s: "storage_local delete_example ''identitiesState@@_firefox-container-5'' = Some (ContainerState [])"
    by (simp add: delete_example_def)
  show ?thesis
    by (simp add: deleteContainer_result [OF e1] backgroundLogic_deleteContainer_result [OF e0] s
          String_userContextId_def)
qed

subsection \<open>Missing arguments\<close>

lemma backgroundLogic_checkArgs_never_throws:
  "backgroundLogic_checkArgs requiredArguments options methodName = Inr ()"
  by (induction requiredArguments) simp_all

lemma checkArgs_throws:
  assumes "arg \<in> set requiredArguments"
      and "\<not> arg_in arg options \<or> \<not> arg_truthy arg options"
  shows "\<exists>msg. checkArgs requiredArguments options methodName = Inl (Error msg)"
  using assms by (induction requiredArguments) auto

lemma hideTabs_missing_argument:
  assumes "\<not> arg_in ''cookieStoreId'' options \<or> \<not> arg_truthy ''cookieStoreId'' options
         \<or> \<not> arg_in ''windowId'' options \<or> \<not> arg_truthy ''windowId'' options"
  shows "\<exists>msg. hideTabs newURL options b = (Inl (Error msg), b)"
proof -
  from assms have "\<exists>msg. checkArgs [''cookieStoreId'', ''windowId''] options ''hideTabs'' = Inl (Error msg)"
    by auto
  then show ?thesis
    by (auto simp: hideTabs_def)
qed

text \<open>
  C3.  \<^verbatim>\<open>hideTabs({cookieStoreId: 'firefox-container-5'})\<close>, with \<^verbatim>\<open>windowId\<close> missing.  The
  \<^verbatim>\<open>hideTabs\<close> of \<^verbatim>\<open>background-page.ts\<close> does not throw: it snapshots the container's tabs of
  every window, persists them and closes all four tabs, the two internal pages included.  The
  \<^verbatim>\<open>hideTabs\<close> of \<^verbatim>\<open>background-page-1.ts\<close> throws at once and leaves the state as it was.
\<close>

theorem backgroundLogic_hideTabs_missing_windowId:
  "backgroundLogic_hideTabs platformURL
      \<lparr>opt_cookieStoreId = Defined ''firefox-container-5'', opt_windowId = Absent\<rparr> hide_example
     = (Inr (),
        \<lparr>open_tabs = [],
         storage_local = [''identitiesState@@_firefox-container-5'' \<mapsto>
                            ContainerState [hidden_snapshot tabA, hidden_snapshot tabD]],
         identities = [''firefox-container-5'']\<rparr>)
   \<and> hideTabs platformURL
      \<lparr>opt_cookieStoreId = Defined ''firefox-container-5'', opt_windowId = Absent\<rparr> hide_example
     = (Inl (Error ''hideTabs must be called with windowId argument.''), hide_example)"
proof -
  have q: "tabs_query (Some ''firefox-container-5'') None hide_example = [tabA, tabB, tabC, tabD]"
    by (simp add: tabs_query_def hide_example_def tabA_def tabB_def tabC_def tabD_def)
  have stored: "identityState_storeHidden platformURL (Some ''firefox-container-5'') None hide_example
     = (Inr (), hide_example\<lparr>storage_local := [''identitiesState@@_firefox-container-5'' \<mapsto>
                            ContainerState [hidden_snapshot tabA, hidden_snapshot tabD]]\<rparr>)"
    by (simp add: identityState_storeHidden_def identityState_get_def identityState_set_def
          identityState_createIdentityState_def identityState_getContainerStoreKey_def Let_def
          tabs_query_def hide_example_def tabA_def tabB_def tabC_def tabD_def
          backgroundLogic_isPermissibleURL_def example_urls hiddenTabs_push_def hidden_snapshot_def)
  have ids: "map tab_id [tabA, tabB, tabC, tabD] = [1, 2, 3, 4]"
    by (simp add: tabA_def tabB_def tabC_def tabD_def)
  have uc: "backgroundLogic_getUserContextIdFromCookieStoreId (Some ''firefox-container-5'') = Some ''5''"
    by (simp add: backgroundLogic_getUserContextIdFromCookieStoreId_def)
  have closed: "backgroundLogic_closeTabs (Some ''5'') None (hide_example\<lparr>storage_local := S\<rparr>)
      = \<lparr>open_tabs = [], storage_local = S, identities = [''firefox-container-5'']\<rparr>" for S
    unfolding backgroundLogic_closeTabs_def Let_def backgroundLogic_cookieStoreId_def
    by (simp add: q ids) (simp add: tabs_remove_def hide_example_def tabA_def tabB_def tabC_def tabD_def)
  have v0: "backgroundLogic_hideTabs platformURL
      \<lparr>opt_cookieStoreId = Defined ''firefox-container-5'', opt_windowId = Absent\<rparr> hide_example
     = (Inr (),
        \<lparr>open_tabs = [],
         storage_local = [''identitiesState@@_firefox-container-5'' \<mapsto>
                            ContainerState [hidden_snapshot tabA, hidden_snapshot tabD]],
         identities = [''firefox-container-5'']\<rparr>)"
    by (simp add: backgroundLogic_hideTabs_def backgroundLogic_checkArgs_never_throws stored uc closed)
  have v1: "hideTabs platformURL
      \<lparr>opt_cookieStoreId = Defined ''firefox-container-5'', opt_windowId = Absent\<rparr> hide_example
     = (Inl (Error ''hideTabs must be called with windowId argument.''), hide_example)"
    by (simp add: hideTabs_def arg_in_def arg_truthy_def)
  from v0 v1 show ?thesis by simp
qed


subsection \<open>Opening tabs\<close>

text \<open>
  C9.  In \<^verbatim>\<open>openNewTab\<close> (both variants) the \<^verbatim>\<open>active\<close> property of the created tab is the value
  of \<^verbatim>\<open>nofocus\<close> itself whenever \<^verbatim>\<open>nofocus\<close> is a key of the options, so \<^verbatim>\<open>nofocus = true\<close> gives
  an active tab and \<^verbatim>\<open>nofocus = false\<close> an inactive one; the default \<^verbatim>\<open>true\<close> is used only when
  the key is absent.  \<^verbatim>\<open>showTabs\<close> always passes the key, \<^verbatim>\<open>options.nofocus || false\<close>.  The tab
  is created, with that \<^verbatim>\<open>active\<close> value, whenever the url is one that \<^verbatim>\<open>isPermissibleURL\<close>
  accepts and no new-tab page.
\<close>

theorem openNewTab_active_is_nofocus:
  "(openNewTab newURL options = Inr (Some created) \<longrightarrow>
      cp_active created =
        (case ont_nofocus options of
           Absent \<Rightarrow> Some True | Undefined \<Rightarrow> None | Defined nofocus \<Rightarrow> Some nofocus))
   \<and> (backgroundLogic_openNewTab newURL options0 = Inr (Some created0) \<longrightarrow>
      cp_active created0 =
        (case bont_nofocus options0 of
           Absent \<Rightarrow> Some True | Undefined \<Rightarrow> None | Defined nofocus \<Rightarrow> Some nofocus))
   \<and> (openNewTab newURL (showTabs_options cookieStoreId given object) = Inr (Some shown) \<longrightarrow>
      cp_active shown = Some (case read_key given of None \<Rightarrow> False | Some nofocus \<Rightarrow> nofocus))
   \<and> (ont_url options = Some u \<and> u \<noteq> [] \<and> u \<notin> set NEW_TAB_PAGES
        \<and> isPermissibleURL newURL (Some u) = Inr True \<longrightarrow>
      (\<exists>opened. openNewTab newURL options = Inr (Some opened)
         \<and> cp_url opened = Some u
         \<and> cp_active opened =
             (case ont_nofocus options of
                Absent \<Rightarrow> Some True | Undefined \<Rightarrow> None | Defined nofocus \<Rightarrow> Some nofocus)))
   \<and> (bont_url options0 = Some u0 \<and> u0 \<noteq> [] \<and> u0 \<notin> set NEW_TAB_PAGES
        \<and> backgroundLogic_isPermissibleURL newURL (Some u0) = Inr True \<longrightarrow>
      (\<exists>opened. backgroundLogic_openNewTab newURL options0 = Inr (Some opened)
         \<and> cp_url opened = Some u0
         \<and> cp_active opened =
             (case bont_nofocus options0 of
                Absent \<Rightarrow> Some True | Undefined \<Rightarrow> None | Defined nofocus \<Rightarrow> Some nofocus)))"
proof -
  have v1: "cp_active created =
        (case ont_nofocus opts of
           Absent \<Rightarrow> Some True | Undefined \<Rightarrow> None | Defined nofocus \<Rightarrow> Some nofocus)"
    if "openNewTab newURL opts = Inr (Some created)" for opts created
    using that
    by (cases "ont_nofocus opts")
       (auto simp: openNewTab_def Let_def split: sum.splits if_splits)
  have v0: "cp_active created0 =
        (case bont_nofocus opts of
           Absent \<Rightarrow> Some True | Undefined \<Rightarrow> None | Defined nofocus \<Rightarrow> Some nofocus)"
    if "backgroundLogic_openNewTab newURL opts = Inr (Some created0)" for opts created0
    using that
    by (cases "bont_nofocus opts")
       (auto simp: backgroundLogic_openNewTab_def Let_def split: sum.splits if_splits)
  have shown: "cp_active shown = Some (case read_key given of None \<Rightarrow> False | Some nofocus \<Rightarrow> nofocus)"
    if "openNewTab newURL (showTabs_options cookieStoreId given object) = Inr (Some shown)"
    using v1 [OF that] by (simp add: showTabs_options_def)
  have opened1: "\<exists>opened. openNewTab newURL options = Inr (Some opened)
         \<and> cp_url opened = Some u
         \<and> cp_active opened =
             (case ont_nofocus options of
                Absent \<Rightarrow> Some True | Undefined \<Rightarrow> None | Defined nofocus \<Rightarrow> Some nofocus)"
    if "ont_url options = Some u" "u \<noteq> []" "u \<notin> set NEW_TAB_PAGES"
       "isPermissibleURL newURL (Some u) = Inr True"
  proof -
    from that obtain opened where o: "openNewTab newURL options = Inr (Some opened)"
        and "cp_url opened = Some u"
      by (simp add: openNewTab_def truthy_def Let_def)
    with v1 [OF o] show ?thesis by simp
  qed
  have opened0: "\<exists>opened. backgroundLogic_openNewTab newURL options0 = Inr (Some opened)
         \<and> cp_url opened = Some u0
         \<and> cp_active opened =
             (case bont_nofocus options0 of
                Absent \<Rightarrow> Some True | Undefined \<Rightarrow> None | Defined nofocus \<Rightarrow> Some nofocus)"
    if "bont_url options0 = Some u0" "u0 \<noteq> []" "u0 \<notin> set NEW_TAB_PAGES"
       "backgroundLogic_isPermissibleURL newURL (Some u0) = Inr True"
  proof -
    from that obtain opened where o: "backgroundLogic_openNewTab newURL options0 = Inr (Some opened)"
        and "cp_url opened = Some u0"
      by (simp add: backgroundLogic_openNewTab_def truthy_def Let_def)
    with v0 [OF o] show ?thesis by simp
  qed
  from v1 v0 shown opened1 opened0 show ?thesis by blast
qed

theorem openNewTab_active_is_nofocus_witness:
  "openNewTab platformURL
      \<lparr>ont_userContextId = Some ''5'', ont_url = Some ''https://a.com/inbox'',
       ont_nofocus = Defined True, ont_pinned = None\<rparr>
     = Inr (Some \<lparr>cp_url = Some ''https://a.com/inbox'', cp_cookieStoreId = Some ''firefox-container-5'',
                  cp_active = Some True, cp_pinned = Some False, cp_index = None,
                  cp_openerTabId = None\<rparr>)
   \<and> openNewTab platformURL
      \<lparr>ont_userContextId = Some ''5'', ont_url = Some ''https://a.com/inbox'',
       ont_nofocus = Defined False, ont_pinned = None\<rparr>
     = Inr (Some \<lparr>cp_url = Some ''https://a.com/inbox'', cp_cookieStoreId = Some ''firefox-container-5'',
                  cp_active = Some False, cp_pinned = Some False, cp_index = None,
                  cp_openerTabId = None\<rparr>)
   \<and> backgroundLogic_openNewTab platformURL
      \<lparr>bont_userContextId = Defined (Some ''5''), bont_url = Some ''https://a.com/inbox'',
       bont_nofocus = Absent, bont_pinned = None\<rparr>
     = Inr (Some \<lparr>cp_url = Some ''https://a.com/inbox'', cp_cookieStoreId = Some ''firefox-container-5'',
                  cp_active = Some True, cp_pinned = Some False, cp_index = None,
                  cp_openerTabId = None\<rparr>)
   \<and> openNewTab platformURL (showTabs_options ''firefox-container-5'' Absent (hidden_snapshot tabA))
     = Inr (Some \<lparr>cp_url = Some ''https://a.com/inbox'', cp_cookieStoreId = Some ''firefox-container-5'',
                  cp_active = Some False, cp_pinned = Some False, cp_index = None,
                  cp_openerTabId = None\<rparr>)
   \<and> isPermissibleURL platformURL (Some ''https://a.com/inbox'') = Inr True
   \<and> backgroundLogic_isPermissibleURL platformURL (Some ''https://a.com/inbox'') = Inr True
   \<and> backgroundLogic_openNewTab platformURL
      \<lparr>bont_userContextId = Defined (Some ''5''), bont_url = Some ''https://a.com/inbox'',
       bont_nofocus = Defined True, bont_pinned = None\<rparr>
     = Inr (Some \<lparr>cp_url = Some ''https://a.com/inbox'', cp_cookieStoreId = Some ''firefox-container-5'',
                  cp_active = Some True, cp_pinned = Some False, cp_index = None,
                  cp_openerTabId = None\<rparr>)
   \<and> backgroundLogic_openNewTab platformURL
      \<lparr>bont_userContextId = Defined (Some ''5''), bont_url = Some ''https://a.com/inbox'',
       bont_nofocus = Defined False, bont_pinned = None\<rparr>
     = Inr (Some \<lparr>cp_url = Some ''https://a.com/inbox'', cp_cookieStoreId = Some ''firefox-container-5'',
                  cp_active = Some False, cp_pinned = Some False, cp_index = None,
                  cp_openerTabId = None\<rparr>)"
proof -
  let ?on = "\<lparr>ont_userContextId = Some ''5'', ont_url = Some ''https://a.com/inbox'',
       ont_nofocus = Defined True, ont_pinned = None\<rparr>"
  let ?off = "\<lparr>ont_userContextId = Some ''5'', ont_url = Some ''https://a.com/inbox'',
       ont_nofocus = Defined False, ont_pinned = None\<rparr>"
  let ?none = "\<lparr>bont_userContextId = Defined (Some ''5''), bont_url = Some ''https://a.com/inbox'',
       bont_nofocus = Absent, bont_pinned = None\<rparr>"
  let ?bon = "\<lparr>bont_userContextId = Defined (Some ''5''), bont_url = Some ''https://a.com/inbox'',
       bont_nofocus = Defined True, bont_pinned = None\<rparr>"
  let ?boff = "\<lparr>bont_userContextId = Defined (Some ''5''), bont_url = Some ''https://a.com/inbox'',
       bont_nofocus = Defined False, bont_pinned = None\<rparr>"
  have permissible: "isPermissibleURL platformURL (Some ''https://a.com/inbox'') = Inr True"
    "backgroundLogic_isPermissibleURL platformURL (Some ''https://a.com/inbox'') = Inr True"
    by (simp_all add: isPermissibleURL_def backgroundLogic_isPermissibleURL_def example_urls)
  have fresh: "''https://a.com/inbox'' \<noteq> []" "''https://a.com/inbox'' \<notin> set NEW_TAB_PAGES"
    by (simp_all add: NEW_TAB_PAGES_def)
  have shape: "openNewTab platformURL opts = Inr (Some opened) \<Longrightarrow> opened =
      \<lparr>cp_url = Some ''https://a.com/inbox'', cp_cookieStoreId = Some ''firefox-container-5'',
       cp_active = cp_active opened, cp_pinned = Some False, cp_index = None, cp_openerTabId = None\<rparr>"
    if "ont_userContextId opts = Some ''5''" "ont_url opts = Some ''https://a.com/inbox''"
       "ont_pinned opts = None \<or> ont_pinned opts = Some False" for opts opened
    using that
    by (auto simp: openNewTab_def truthy_def getCookieStoreId_def NEW_TAB_PAGES_def
          isPermissibleURL_def example_urls Let_def)
  have shape0: "backgroundLogic_openNewTab platformURL opts = Inr (Some opened) \<Longrightarrow> opened =
      \<lparr>cp_url = Some ''https://a.com/inbox'', cp_cookieStoreId = Some ''firefox-container-5'',
       cp_active = cp_active opened, cp_pinned = Some False, cp_index = None, cp_openerTabId = None\<rparr>"
    if "bont_userContextId opts = Defined (Some ''5'')" "bont_url opts = Some ''https://a.com/inbox''"
       "bont_pinned opts = None" for opts opened
    using that
    by (auto simp: backgroundLogic_openNewTab_def truthy_def backgroundLogic_cookieStoreId_def
          NEW_TAB_PAGES_def backgroundLogic_isPermissibleURL_def example_urls Let_def)
  have sh: "showTabs_options ''firefox-container-5'' Absent (hidden_snapshot tabA)
      = \<lparr>ont_userContextId = Some ''5'', ont_url = Some ''https://a.com/inbox'',
          ont_nofocus = Defined False, ont_pinned = Some False\<rparr>"
    by (simp add: showTabs_options_def hidden_snapshot_def createTabObject_def tabA_def
          getUserContextIdFromCookieStoreId_def)
  note spec = openNewTab_active_is_nofocus [where newURL = platformURL]
  note v1 = spec [THEN conjunct2, THEN conjunct2, THEN conjunct2, THEN conjunct1, rule_format]
  note v0 = spec [THEN conjunct2, THEN conjunct2, THEN conjunct2, THEN conjunct2, rule_format]
  from v1 [where options = ?on and u = "''https://a.com/inbox''"] permissible fresh
  obtain o1 where r1: "openNewTab platformURL ?on = Inr (Some o1)" and a1: "cp_active o1 = Some True"
    by auto
  from v1 [where options = ?off and u = "''https://a.com/inbox''"] permissible fresh
  obtain o2 where r2: "openNewTab platformURL ?off = Inr (Some o2)" and a2: "cp_active o2 = Some False"
    by auto
  from v0 [where ?options0.0 = ?none and ?u0.0 = "''https://a.com/inbox''"] permissible fresh
  obtain o3 where r3: "backgroundLogic_openNewTab platformURL ?none = Inr (Some o3)"
    and a3: "cp_active o3 = Some True"
    by auto
  from v1 [where options = "showTabs_options ''firefox-container-5'' Absent (hidden_snapshot tabA)"
             and u = "''https://a.com/inbox''"] permissible fresh
  obtain o4 where r4: "openNewTab platformURL
                         (showTabs_options ''firefox-container-5'' Absent (hidden_snapshot tabA))
                       = Inr (Some o4)"
    and a4: "cp_active o4 = Some False"
    by (auto simp: sh)
  from v0 [where ?options0.0 = ?bon and ?u0.0 = "''https://a.com/inbox''"] permissible fresh
  obtain o5 where r5: "backgroundLogic_openNewTab platformURL ?bon = Inr (Some o5)"
    and a5: "cp_active o5 = Some True"
    by auto
  from v0 [where ?options0.0 = ?boff and ?u0.0 = "''https://a.com/inbox''"] permissible fresh
  obtain o6 where r6: "backgroundLogic_openNewTab platformURL ?boff = Inr (Some o6)"
    and a6: "cp_active o6 = Some False"
    by auto
  from shape [OF _ _ _ r1] a1 have e1: "o1 =
      \<lparr>cp_url = Some ''https://a.com/inbox'', cp_cookieStoreId = Some ''firefox-container-5'',
       cp_active = Some True, cp_pinned = Some False, cp_index = None, cp_openerTabId = None\<rparr>"
    by simp
  from shape [OF _ _ _ r2] a2 have e2: "o2 =
      \<lparr>cp_url = Some ''https://a.com/inbox'', cp_cookieStoreId = Some ''firefox-container-5'',
       cp_active = Some False, cp_pinned = Some False, cp_index = None, cp_openerTabId = None\<rparr>"
    by simp
  from shape0 [OF _ _ _ r3] a3 have e3: "o3 =
      \<lparr>cp_url = Some ''https://a.com/inbox'', cp_cookieStoreId = Some ''firefox-container-5'',
       cp_active = Some True, cp_pinned = Some False, cp_index = None, cp_openerTabId = None\<rparr>"
    by simp
  from shape [OF _ _ _ r4] a4 have e4: "o4 =
      \<lparr>cp_url = Some ''https://a.com/inbox'', cp_cookieStoreId = Some ''firefox-container-5'',
       cp_active = Some False, cp_pinned = Some False, cp_index = None, cp_openerTabId = None\<rparr>"
    by (simp add: sh)
  from shape0 [OF _ _ _ r5] a5 have e5: "o5 =
      \<lparr>cp_url = Some ''https://a.com/inbox'', cp_cookieStoreId = Some ''firefox-container-5'',
       cp_active = Some True, cp_pinned = Some False, cp_index = None, cp_openerTabId = None\<rparr>"
    by simp
  from shape0 [OF _ _ _ r6] a6 have e6: "o6 =
      \<lparr>cp_url = Some ''https://a.com/inbox'', cp_cookieStoreId = Some ''firefox-container-5'',
       cp_active = Some False, cp_pinned = Some False, cp_index = None, cp_openerTabId = None\<rparr>"
    by simp
  from r1 r2 r3 r4 r5 r6 e1 e2 e3 e4 e5 e6 permissible show ?thesis
    by simp
qed

subsection \<open>Site keys\<close>

text \<open>
  C10.  The site key is the fixed prefix, the hostname and, directly after it with no
  separator, a port that is not 80 or 443, in both variants.  So a url with hostname \<open>h\<close> and
  such a port \<open>p\<close>, and a url with hostname \<open>h @ p\<close> on its default port, have different
  hostnames and the same site key; a lookup of the assignment of one reads the assignment of
  the other.  The instance is \<^verbatim>\<open>http://example.com:8080/\<close> and \<^verbatim>\<open>http://example.com8080/\<close>.
\<close>

theorem siteStoreKey_has_no_separator:
  assumes "newURL a = Some ua" and "newURL b = Some ub"
      and "a \<noteq> []" and "b \<noteq> []"
      and "port ua \<noteq> []" and "port ua \<noteq> ''80''" and "port ua \<noteq> ''443''"
      and "port ub = []"
      and "hostname ub = hostname ua @ port ua"
  shows "getSiteStoreKey newURL (Some a) = Inr (''siteContainerMap@@_'' @ hostname ua @ port ua)
       \<and> assignManager_getSiteStoreKey newURL (Some a)
           = Inr (''siteContainerMap@@_'' @ hostname ua @ port ua)
       \<and> getSiteStoreKey newURL (Some b) = Inr (''siteContainerMap@@_'' @ hostname ub)
       \<and> assignManager_getSiteStoreKey newURL (Some b) = Inr (''siteContainerMap@@_'' @ hostname ub)
       \<and> hostname ua \<noteq> hostname ub
       \<and> getSiteStoreKey newURL (Some a) = getSiteStoreKey newURL (Some b)
       \<and> assignManager_getSiteStoreKey newURL (Some a) = assignManager_getSiteStoreKey newURL (Some b)
       \<and> storageAreaGet newURL (Some a) s = storageAreaGet newURL (Some b) s
       \<and> assignManager_storageArea_get newURL (Some a) s = assignManager_storageArea_get newURL (Some b) s"
  using assms
  by (simp add: getSiteStoreKey_def assignManager_getSiteStoreKey_def storageAreaGet_def
        assignManager_storageArea_get_def)

theorem siteStoreKey_has_no_separator_witness:
  "platformURL ''http://example.com:8080/''
     = Some \<lparr>protocol = ''http:'', hostname = ''example.com'', port = ''8080''\<rparr>
   \<and> platformURL ''http://example.com8080/''
     = Some \<lparr>protocol = ''http:'', hostname = ''example.com8080'', port = []\<rparr>
   \<and> getSiteStoreKey platformURL (Some ''http://example.com:8080/'')
       = Inr ''siteContainerMap@@_example.com8080''
   \<and> getSiteStoreKey platformURL (Some ''http://example.com8080/'')
       = Inr ''siteContainerMap@@_example.com8080''
   \<and> assignManager_getSiteStoreKey platformURL (Some ''http://example.com:8080/'')
       = Inr ''siteContainerMap@@_example.com8080''
   \<and> assignManager_getSiteStoreKey platformURL (Some ''http://example.com8080/'')
       = Inr ''siteContainerMap@@_example.com8080''
   \<and> storageAreaGet platformURL (Some ''http://example.com:8080/'') hide_example
       = storageAreaGet platformURL (Some ''http://example.com8080/'') hide_example
   \<and> assignManager_storageArea_get platformURL (Some ''http://example.com:8080/'') hide_example
       = assignManager_storageArea_get platformURL (Some ''http://example.com8080/'') hide_example"
proof -
  have a: "platformURL ''http://example.com:8080/''
      = Some \<lparr>protocol = ''http:'', hostname = ''example.com'', port = ''8080''\<rparr>"
    by (simp add: platformURL_def default_port_def Let_def)
  have b: "platformURL ''http://example.com8080/''
      = Some \<lparr>protocol = ''http:'', hostname = ''example.com8080'', port = []\<rparr>"
    by (simp add: platformURL_def default_port_def Let_def)
  from siteStoreKey_has_no_separator
         [where newURL = platformURL and a = "''http://example.com:8080/''"
            and b = "''http://example.com8080/''" and s = hide_example, OF a b] a b
  show ?thesis
    by simp
qed


subsection \<open>Navigation interception\<close>

lemma tabs_get_id: "tabs_get t b = Some tab \<Longrightarrow> tab_id tab = t"
  by (auto simp: tabs_get_def find_Some_iff)

lemma registerCanceled_echo:
  assumes "canceled t = Some entry"
      and "req_requestId options \<in> requestIds entry \<or> req_url options \<in> urls entry"
  shows "fst (registerCanceled options t canceled) = True"
  using assms by (auto simp: registerCanceled_def Let_def)

lemma registerCanceled_fresh:
  assumes "canceled t = None"
  shows "registerCanceled options t canceled =
           (False, canceled(t \<mapsto> \<lparr>requestIds = {req_requestId options}, urls = {req_url options}\<rparr>))"
  using assms by (simp add: registerCanceled_def)

lemma registerCanceled_grows:
  assumes "canceled t = Some entry"
  shows "\<exists>entry'. snd (registerCanceled options t' canceled) t = Some entry'
           \<and> requestIds entry \<subseteq> requestIds entry' \<and> urls entry \<subseteq> urls entry'"
  using assms by (auto simp: registerCanceled_def Let_def split: option.splits)

lemma reads_ignore_ledger [simp]:
  "storageAreaGet newURL u (s\<lparr>canceledRequests := c\<rparr>) = storageAreaGet newURL u s"
  "assignManager_storageArea_get newURL u (s\<lparr>canceledRequests := c\<rparr>) = assignManager_storageArea_get newURL u s"
  "tabs_get t (s\<lparr>canceledRequests := c\<rparr>) = tabs_get t s"
  "isExempted newURL p t (s\<lparr>canceledRequests := c\<rparr>) = isExempted newURL p t s"
  "assignManager_isExempted newURL p t (s\<lparr>canceledRequests := c\<rparr>) = assignManager_isExempted newURL p t s"
  by (simp_all add: storageAreaGet_def assignManager_storageArea_get_def tabs_get_def
        isExempted_def assignManager_isExempted_def split: sum.splits)

lemma candidacy_ignores_ledger [simp]:
  "onBeforeRequest_candidacy newURL options (s\<lparr>canceledRequests := c\<rparr>)
     = onBeforeRequest_candidacy newURL options s"
  "assignManager_onBeforeRequest_candidacy newURL options (s\<lparr>canceledRequests := c\<rparr>)
     = assignManager_onBeforeRequest_candidacy newURL options s"
  by (simp_all add: onBeforeRequest_candidacy_def assignManager_onBeforeRequest_candidacy_def
        cong: sum.case_cong option.case_cong if_cong)

lemma candidate_tab_id:
  "onBeforeRequest_candidacy newURL options s = Candidate tab u settings \<Longrightarrow> tab_id tab = req_tabId options"
  by (auto simp: onBeforeRequest_candidacy_def Let_def dest!: tabs_get_id
        split: sum.splits option.splits if_splits)

lemma assignManager_candidate_tab_id:
  "assignManager_onBeforeRequest_candidacy newURL options s = Candidate tab u settings \<Longrightarrow> tab_id tab = req_tabId options"
  by (auto simp: assignManager_onBeforeRequest_candidacy_def Let_def dest!: tabs_get_id
        split: sum.splits option.splits if_splits)

lemma returned_no_reload:
  "onBeforeRequest_candidacy newURL options s = Returned answer made \<Longrightarrow> concat (map reload_of made) = []"
  by (auto simp: onBeforeRequest_candidacy_def Let_def
        split: sum.splits option.splits if_splits)

lemma assignManager_returned_no_reload:
  "assignManager_onBeforeRequest_candidacy newURL options s = Returned answer made \<Longrightarrow> concat (map reload_of made) = []"
  by (auto simp: assignManager_onBeforeRequest_candidacy_def Let_def
        split: sum.splits option.splits if_splits)


lemma returned_not_cancel:
  "onBeforeRequest_candidacy newURL options s = Returned answer made \<Longrightarrow> answer \<noteq> Inr Cancel"
  by (auto simp: onBeforeRequest_candidacy_def Let_def
        split: sum.splits option.splits if_splits)

lemma assignManager_returned_not_cancel:
  "assignManager_onBeforeRequest_candidacy newURL options s = Returned answer made \<Longrightarrow> answer \<noteq> Inr Cancel"
  by (auto simp: assignManager_onBeforeRequest_candidacy_def Let_def
        split: sum.splits option.splits if_splits)

lemma cancel_echo:
  assumes "canceledRequests s (tab_id tab) = Some entry"
      and "req_requestId options \<in> requestIds entry \<or> req_url options \<in> urls entry"
  shows "response (onBeforeRequest_cancel options tab u settings s) = Inr Cancel"
    and "calls (onBeforeRequest_cancel options tab u settings s) = [RemoveContextMenu]"
    and "response (assignManager_onBeforeRequest_cancel options tab u settings s) = Inr Cancel"
    and "calls (assignManager_onBeforeRequest_cancel options tab u settings s) = [RemoveContextMenu]"
proof -
  from registerCanceled_echo [where canceled = "canceledRequests s" and t = "tab_id tab", OF assms]
  obtain registered where
    r: "registerCanceled options (tab_id tab) (canceledRequests s) = (True, registered)"
    by (cases "registerCanceled options (tab_id tab) (canceledRequests s)") auto
  show "response (onBeforeRequest_cancel options tab u settings s) = Inr Cancel"
    and "calls (onBeforeRequest_cancel options tab u settings s) = [RemoveContextMenu]"
    and "response (assignManager_onBeforeRequest_cancel options tab u settings s) = Inr Cancel"
    and "calls (assignManager_onBeforeRequest_cancel options tab u settings s) = [RemoveContextMenu]"
    by (simp_all add: onBeforeRequest_cancel_def assignManager_onBeforeRequest_cancel_def Let_def r)
qed

lemma cancel_fresh:
  assumes "canceledRequests s (tab_id tab) = None"
  shows "response (onBeforeRequest_cancel options tab u settings s) = Inr Cancel \<Longrightarrow>
           length (reroutes (onBeforeRequest_cancel options tab u settings s)) = 1"
    and "length (reroutes (assignManager_onBeforeRequest_cancel options tab u settings s)) = 1"
    and "ledger (onBeforeRequest_cancel options tab u settings s) (tab_id tab)
           = Some \<lparr>requestIds = {req_requestId options}, urls = {req_url options}\<rparr>"
    and "ledger (assignManager_onBeforeRequest_cancel options tab u settings s) (tab_id tab)
           = Some \<lparr>requestIds = {req_requestId options}, urls = {req_url options}\<rparr>"
  using registerCanceled_fresh [where canceled = "canceledRequests s" and t = "tab_id tab", OF assms]
  by (simp_all add: onBeforeRequest_cancel_def assignManager_onBeforeRequest_cancel_def Let_def
        reroutes_def split: if_splits)

lemma cancel_grows:
  assumes "canceledRequests s t = Some entry"
  shows "\<exists>entry'. ledger (onBeforeRequest_cancel options tab u settings s) t = Some entry'
           \<and> requestIds entry \<subseteq> requestIds entry' \<and> urls entry \<subseteq> urls entry'"
    and "\<exists>entry'. ledger (assignManager_onBeforeRequest_cancel options tab u settings s) t = Some entry'
           \<and> requestIds entry \<subseteq> requestIds entry' \<and> urls entry \<subseteq> urls entry'"
  using registerCanceled_grows [where canceled = "canceledRequests s" and t' = "tab_id tab", OF assms, of options]
  by (auto simp: onBeforeRequest_cancel_def assignManager_onBeforeRequest_cancel_def Let_def
        split: prod.splits)

text \<open>The three facts about a handler that the ledger argument needs.\<close>

lemma onBeforeRequest_echo_no_reroute:
  assumes "canceledRequests s (req_tabId options) = Some entry"
      and "req_requestId options \<in> requestIds entry \<or> req_url options \<in> urls entry"
  shows "reroutes (onBeforeRequest newURL options s) = []"
proof (cases "onBeforeRequest_candidacy newURL options s")
  case (Returned answer made)
  then show ?thesis
    by (simp add: onBeforeRequest_def reroutes_def returned_no_reload [OF Returned])
next
  case (Candidate tab u settings)
  from candidate_tab_id [OF Candidate] assms
  have "canceledRequests s (tab_id tab) = Some entry" by simp
  from cancel_echo(2) [OF this assms(2)] Candidate show ?thesis
    by (simp add: onBeforeRequest_def reroutes_def)
qed

lemma assignManager_onBeforeRequest_echo_no_reroute:
  assumes "canceledRequests s (req_tabId options) = Some entry"
      and "req_requestId options \<in> requestIds entry \<or> req_url options \<in> urls entry"
  shows "reroutes (assignManager_onBeforeRequest newURL options s) = []"
proof (cases "assignManager_onBeforeRequest_candidacy newURL options s")
  case (Returned answer made)
  then show ?thesis
    by (simp add: assignManager_onBeforeRequest_def reroutes_def
          assignManager_returned_no_reload [OF Returned])
next
  case (Candidate tab u settings)
  from assignManager_candidate_tab_id [OF Candidate] assms
  have "canceledRequests s (tab_id tab) = Some entry" by simp
  from cancel_echo(4) [OF this assms(2)] Candidate show ?thesis
    by (simp add: assignManager_onBeforeRequest_def reroutes_def)
qed

lemma onBeforeRequest_ledger_grows:
  assumes "canceledRequests s t = Some entry"
  shows "\<exists>entry'. ledger (onBeforeRequest newURL options s) t = Some entry'
           \<and> requestIds entry \<subseteq> requestIds entry' \<and> urls entry \<subseteq> urls entry'"
  using assms cancel_grows(1) [OF assms]
  by (cases "onBeforeRequest_candidacy newURL options s") (auto simp: onBeforeRequest_def)

lemma assignManager_onBeforeRequest_ledger_grows:
  assumes "canceledRequests s t = Some entry"
  shows "\<exists>entry'. ledger (assignManager_onBeforeRequest newURL options s) t = Some entry'
           \<and> requestIds entry \<subseteq> requestIds entry' \<and> urls entry \<subseteq> urls entry'"
  using assms cancel_grows(2) [OF assms]
  by (cases "assignManager_onBeforeRequest_candidacy newURL options s")
     (auto simp: assignManager_onBeforeRequest_def)

lemma onBeforeRequest_first_cancellation:
  assumes "canceledRequests s (req_tabId options) = None"
      and "response (onBeforeRequest newURL options s) = Inr Cancel"
  shows "length (reroutes (onBeforeRequest newURL options s)) = 1
       \<and> ledger (onBeforeRequest newURL options s) (req_tabId options)
           = Some \<lparr>requestIds = {req_requestId options}, urls = {req_url options}\<rparr>"
proof (cases "onBeforeRequest_candidacy newURL options s")
  case (Returned answer made)
  with assms(2) returned_not_cancel [OF Returned] show ?thesis
    by (simp add: onBeforeRequest_def)
next
  case (Candidate tab u settings)
  from candidate_tab_id [OF Candidate] assms(1)
  have fresh: "canceledRequests s (tab_id tab) = None" by simp
  from assms(2) Candidate
  have "response (onBeforeRequest_cancel options tab u settings s) = Inr Cancel"
    by (simp add: onBeforeRequest_def)
  from cancel_fresh(1) [OF fresh this] cancel_fresh(3) [OF fresh] Candidate
    candidate_tab_id [OF Candidate]
  show ?thesis
    by (simp add: onBeforeRequest_def)
qed

lemma assignManager_onBeforeRequest_first_cancellation:
  assumes "canceledRequests s (req_tabId options) = None"
      and "response (assignManager_onBeforeRequest newURL options s) = Inr Cancel"
  shows "length (reroutes (assignManager_onBeforeRequest newURL options s)) = 1
       \<and> ledger (assignManager_onBeforeRequest newURL options s) (req_tabId options)
           = Some \<lparr>requestIds = {req_requestId options}, urls = {req_url options}\<rparr>"
proof (cases "assignManager_onBeforeRequest_candidacy newURL options s")
  case (Returned answer made)
  with assms(2) assignManager_returned_not_cancel [OF Returned] show ?thesis
    by (simp add: assignManager_onBeforeRequest_def)
next
  case (Candidate tab u settings)
  from assignManager_candidate_tab_id [OF Candidate] assms(1)
  have fresh: "canceledRequests s (tab_id tab) = None" by simp
  from cancel_fresh(2) [OF fresh] cancel_fresh(4) [OF fresh] Candidate
    assignManager_candidate_tab_id [OF Candidate]
  show ?thesis
    by (simp add: assignManager_onBeforeRequest_def)
qed

lemma onBeforeRequest_echo_canceled:
  assumes "canceledRequests s (req_tabId options) = Some entry"
      and "req_requestId options \<in> requestIds entry \<or> req_url options \<in> urls entry"
      and "response (onBeforeRequest newURL options (s\<lparr>canceledRequests := Map.empty\<rparr>)) = Inr Cancel"
  shows "response (onBeforeRequest newURL options s) = Inr Cancel
       \<and> calls (onBeforeRequest newURL options s) = [RemoveContextMenu]"
proof (cases "onBeforeRequest_candidacy newURL options s")
  case (Returned answer made)
  with assms(3) returned_not_cancel [OF Returned] show ?thesis
    by (simp add: onBeforeRequest_def)
next
  case (Candidate tab u settings)
  from candidate_tab_id [OF Candidate] assms(1)
  have "canceledRequests s (tab_id tab) = Some entry" by simp
  from cancel_echo(1,2) [OF this assms(2)] Candidate show ?thesis
    by (simp add: onBeforeRequest_def)
qed

lemma assignManager_onBeforeRequest_echo_canceled:
  assumes "canceledRequests s (req_tabId options) = Some entry"
      and "req_requestId options \<in> requestIds entry \<or> req_url options \<in> urls entry"
      and "response (assignManager_onBeforeRequest newURL options (s\<lparr>canceledRequests := Map.empty\<rparr>)) = Inr Cancel"
  shows "response (assignManager_onBeforeRequest newURL options s) = Inr Cancel
       \<and> calls (assignManager_onBeforeRequest newURL options s) = [RemoveContextMenu]"
proof (cases "assignManager_onBeforeRequest_candidacy newURL options s")
  case (Returned answer made)
  with assms(3) assignManager_returned_not_cancel [OF Returned] show ?thesis
    by (simp add: assignManager_onBeforeRequest_def)
next
  case (Candidate tab u settings)
  from assignManager_candidate_tab_id [OF Candidate] assms(1)
  have "canceledRequests s (tab_id tab) = Some entry" by simp
  from cancel_echo(3,4) [OF this assms(2)] Candidate show ?thesis
    by (simp add: assignManager_onBeforeRequest_def)
qed

text \<open>Chains of events.\<close>

lemma recorded_entry:
  "recorded options canceled \<longleftrightarrow>
     (\<exists>entry. canceled (req_tabId options) = Some entry
        \<and> (req_requestId options \<in> requestIds entry \<or> req_url options \<in> urls entry))"
  by (simp add: recorded_def split: option.splits)

lemma recorded_chain_no_reroute:
  assumes echo: "\<And>s options. recorded options (canceledRequests s) \<Longrightarrow> reroutes (handler options s) = []"
      and "recorded_on_arrival handler t later canceled"
  shows "concat (map reroutes (handle_chain handler later canceled)) = []"
  using assms(2)
proof (induction later arbitrary: canceled)
  case Nil
  then show ?case by simp
next
  case (Cons event later)
  show ?case
  proof (cases event)
    case (Navigation options s)
    let ?s = "s\<lparr>canceledRequests := canceled\<rparr>"
    from Cons.prems Navigation have here: "recorded options (canceledRequests ?s)"
      and rest: "recorded_on_arrival handler t later (ledger (handler options ?s))"
      by simp_all
    from echo [OF here] Cons.IH [OF rest] Navigation show ?thesis
      by (simp add: Let_def)
  next
    case (Cleanup tabId)
    from Cons.prems Cleanup have "recorded_on_arrival handler t later (canceled(tabId := None))"
      by simp
    then show ?thesis
      unfolding Cleanup handle_chain.simps by (rule Cons.IH)
  qed
qed

lemma repeats_recorded_on_arrival:
  assumes grows: "\<And>s options t entry.
            canceledRequests s t = Some entry \<Longrightarrow>
            \<exists>entry'. ledger (handler options s) t = Some entry'
              \<and> requestIds entry \<subseteq> requestIds entry' \<and> urls entry \<subseteq> urls entry'"
      and "canceled t = Some entry"
      and "rid \<in> requestIds entry" and "u \<in> urls entry"
      and "\<forall>(options, s) \<in> set later.
             req_tabId options = t \<and> (req_requestId options = rid \<or> req_url options = u)"
  shows "recorded_on_arrival handler t (map (\<lambda>(options, s). Navigation options s) later) canceled"
  using assms(2-)
proof (induction later arbitrary: canceled entry)
  case Nil
  then show ?case by simp
next
  case (Cons event later)
  obtain options s where event: "event = (options, s)" by (cases event)
  let ?s = "s\<lparr>canceledRequests := canceled\<rparr>"
  from Cons.prems event have here: "req_tabId options = t"
    and same: "req_requestId options = rid \<or> req_url options = u" by auto
  have found: "recorded options canceled"
    using Cons.prems(1-3) here same by (auto simp: recorded_entry)
  from grows [of ?s t entry options] Cons.prems(1)
  obtain entry' where next_entry: "ledger (handler options ?s) t = Some entry'"
    and sub: "requestIds entry \<subseteq> requestIds entry'" "urls entry \<subseteq> urls entry'"
    by auto
  have "recorded_on_arrival handler t (map (\<lambda>(options, s). Navigation options s) later)
          (ledger (handler options ?s))"
    using Cons.IH [where canceled = "ledger (handler options ?s)" and entry = entry', OF next_entry]
      sub Cons.prems by auto
  with here found event show ?case
    by simp
qed


lemma platformURL_a_com: "platformURL ''http://a.com/'' = Some \<lparr>protocol = ''http:'', hostname = ''a.com'', port = []\<rparr>"
  by (simp add: platformURL_def default_port_def Let_def)
lemma platformURL_a_login: "platformURL ''http://a.com/login'' = Some \<lparr>protocol = ''http:'', hostname = ''a.com'', port = []\<rparr>"
  by (simp add: platformURL_def default_port_def Let_def)
lemma platformURL_b_com: "platformURL ''http://b.com/'' = Some \<lparr>protocol = ''http:'', hostname = ''b.com'', port = []\<rparr>"
  by (simp add: platformURL_def default_port_def Let_def)

lemma key_a_com: "getSiteStoreKey platformURL (Some ''http://a.com/'') = Inr ''siteContainerMap@@_a.com''"
  by (simp add: getSiteStoreKey_def platformURL_a_com)
lemma key_a_login: "getSiteStoreKey platformURL (Some ''http://a.com/login'') = Inr ''siteContainerMap@@_a.com''"
  by (simp add: getSiteStoreKey_def platformURL_a_login)
lemma key_b_com: "getSiteStoreKey platformURL (Some ''http://b.com/'') = Inr ''siteContainerMap@@_b.com''"
  by (simp add: getSiteStoreKey_def platformURL_b_com)
lemma key0_a_com: "assignManager_getSiteStoreKey platformURL (Some ''http://a.com/'') = Inr ''siteContainerMap@@_a.com''"
  by (simp add: assignManager_getSiteStoreKey_def platformURL_a_com)
lemma key0_b_com: "assignManager_getSiteStoreKey platformURL (Some ''http://b.com/'') = Inr ''siteContainerMap@@_b.com''"
  by (simp add: assignManager_getSiteStoreKey_def platformURL_b_com)

lemma container_of_tabN:
  "getUserContextIdFromCookieStore tabN = Some ''1''"
  "assignManager_getUserContextIdFromCookieStore tabN = Some ''1''"
  by (simp_all add: getUserContextIdFromCookieStore_def assignManager_getUserContextIdFromCookieStore_def
        getUserContextIdFromCookieStoreId_def backgroundLogic_getUserContextIdFromCookieStoreId_def tabN_def)

lemma container_of_tabP:
  "getUserContextIdFromCookieStore tabP = None"
  "assignManager_getUserContextIdFromCookieStore tabP = None"
  by (simp_all add: getUserContextIdFromCookieStore_def assignManager_getUserContextIdFromCookieStore_def
        getUserContextIdFromCookieStoreId_def backgroundLogic_getUserContextIdFromCookieStoreId_def tabP_def)

lemma candidacy_assigned:
  assumes "req_url options \<noteq> []"
      and "getSiteStoreKey platformURL (Some (req_url options)) = Inr ''siteContainerMap@@_a.com''"
      and "req_frameId options = 0" and "req_tabId options = 7"
  shows "onBeforeRequest_candidacy platformURL options redirect_example
     = Candidate tabN (Some ''1'')
         (Assignment \<lparr>ss_userContextId = ''3'', ss_neverAsk = False, ss_hostname = None\<rparr>)"
  using assms
  by (simp add: onBeforeRequest_candidacy_def storageAreaGet_def redirect_example_def tabs_get_def
        stored_userContextId_def getCookieStoreId_def
        container_of_tabN truthy_def same_string_def isExempted_def Let_def)
     (simp add: tabN_def)

lemma candidacy_a_com:
  assumes "req_url options = ''http://a.com/''" and "req_frameId options = 0" and "req_tabId options = 7"
  shows "onBeforeRequest_candidacy platformURL options redirect_example
     = Candidate tabN (Some ''1'')
         (Assignment \<lparr>ss_userContextId = ''3'', ss_neverAsk = False, ss_hostname = None\<rparr>)"
    and "assignManager_onBeforeRequest_candidacy platformURL options redirect_example
     = Candidate tabN (Some ''1'')
         (Assignment \<lparr>ss_userContextId = ''3'', ss_neverAsk = False, ss_hostname = None\<rparr>)"
  using assms
  by (simp_all add: onBeforeRequest_candidacy_def assignManager_onBeforeRequest_candidacy_def
        storageAreaGet_def assignManager_storageArea_get_def
        key_a_com key0_a_com redirect_example_def tabs_get_def
        stored_userContextId_def getCookieStoreId_def backgroundLogic_cookieStoreId_def
        container_of_tabN truthy_def same_string_def isExempted_def assignManager_isExempted_def
        Let_def)
     (simp_all add: tabN_def)

lemma candidacy_first_request:
  "onBeforeRequest_candidacy platformURL first_request redirect_example
     = Candidate tabN (Some ''1'')
         (Assignment \<lparr>ss_userContextId = ''3'', ss_neverAsk = False, ss_hostname = None\<rparr>)"
  "assignManager_onBeforeRequest_candidacy platformURL first_request redirect_example
     = Candidate tabN (Some ''1'')
         (Assignment \<lparr>ss_userContextId = ''3'', ss_neverAsk = False, ss_hostname = None\<rparr>)"
  by (simp_all add: candidacy_a_com first_request_def)

text \<open>
  C1 (as amended).  Take either variant of \<^verbatim>\<open>onBeforeRequest\<close>.  A navigation event for a tab
  whose ledger entry holds the event's request id or url never triggers a reroute.  If the
  event is itself a reroute candidate (it passes the tests that come before the ledger), it is
  canceled at once, with no call besides the context-menu cleanup; if it is no candidate, it is
  answered as those tests answer it, never with a cancellation, and the ledger is left as it
  is.  Hence a chain that starts with the first cancellation for a tab, which records the
  request and reroutes once, and goes on with events for that tab that each carry a request id
  or url recorded for the tab when the event arrives, results in exactly one call of
  \<^verbatim>\<open>reloadPageInContainer\<close>, whatever the browser state is at each event.  Entries may be
  cleaned up in between; an event that arrives after the cleanup of its tab's entry finds
  nothing recorded and is no part of such a chain.  Events that repeat the request id or the
  url of the first request, with no cleanup in between, form such a chain.
\<close>

theorem redirect_echo_reroutes_once:
  assumes variant:
    "(handler, candidacy) = (onBeforeRequest newURL, onBeforeRequest_candidacy newURL)
     \<or> (handler, candidacy)
         = (assignManager_onBeforeRequest newURL, assignManager_onBeforeRequest_candidacy newURL)"
  shows "(\<forall>s options.
            recorded options (canceledRequests s) \<longrightarrow>
              reroutes (handler options s) = []
              \<and> (case candidacy options s of
                    Candidate tab current settings \<Rightarrow>
                      response (handler options s) = Inr Cancel
                      \<and> calls (handler options s) = [RemoveContextMenu]
                  | Returned answer made \<Rightarrow>
                      handler options s
                        = \<lparr>response = answer, calls = made, ledger = canceledRequests s\<rparr>
                      \<and> answer \<noteq> Inr Cancel)
              \<and> (response (handler options (s\<lparr>canceledRequests := Map.empty\<rparr>)) = Inr Cancel \<longrightarrow>
                   response (handler options s) = Inr Cancel
                   \<and> calls (handler options s) = [RemoveContextMenu]))
       \<and> (\<forall>s first later.
            canceledRequests s (req_tabId first) = None
            \<and> response (handler first s) = Inr Cancel
            \<and> recorded_on_arrival handler (req_tabId first) later (ledger (handler first s)) \<longrightarrow>
              ledger (handler first s) (req_tabId first)
                = Some \<lparr>requestIds = {req_requestId first}, urls = {req_url first}\<rparr>
              \<and> length (concat (map reroutes
                          (handle_chain handler (Navigation first s # later) (canceledRequests s)))) = 1)
       \<and> (\<forall>s first repeats.
            canceledRequests s (req_tabId first) = None
            \<and> response (handler first s) = Inr Cancel
            \<and> (\<forall>(options, env) \<in> set repeats.
                  req_tabId options = req_tabId first
                  \<and> (req_requestId options = req_requestId first \<or> req_url options = req_url first)) \<longrightarrow>
              recorded_on_arrival handler (req_tabId first)
                (map (\<lambda>(options, env). Navigation options env) repeats) (ledger (handler first s)))"
proof -
  from variant have handler:
    "handler = onBeforeRequest newURL \<or> handler = assignManager_onBeforeRequest newURL"
    by auto
  have echo: "reroutes (handler options s) = []"
    if "recorded options (canceledRequests s)" for s options
    using handler that onBeforeRequest_echo_no_reroute assignManager_onBeforeRequest_echo_no_reroute
    unfolding recorded_entry by blast
  have canceled: "response (handler options s) = Inr Cancel \<and> calls (handler options s) = [RemoveContextMenu]"
    if "recorded options (canceledRequests s)"
       "response (handler options (s\<lparr>canceledRequests := Map.empty\<rparr>)) = Inr Cancel"
    for s options
    using handler that onBeforeRequest_echo_canceled assignManager_onBeforeRequest_echo_canceled
    unfolding recorded_entry by blast
  have answered: "(case candidacy options s of
                    Candidate tab current settings \<Rightarrow>
                      response (handler options s) = Inr Cancel
                      \<and> calls (handler options s) = [RemoveContextMenu]
                  | Returned answer made \<Rightarrow>
                      handler options s
                        = \<lparr>response = answer, calls = made, ledger = canceledRequests s\<rparr>
                      \<and> answer \<noteq> Inr Cancel)"
    if found: "recorded options (canceledRequests s)" for s options
  proof -
    from found obtain entry where
      entry: "canceledRequests s (req_tabId options) = Some entry"
      and same: "req_requestId options \<in> requestIds entry \<or> req_url options \<in> urls entry"
      unfolding recorded_entry by blast
    from variant show ?thesis
    proof
      assume v: "(handler, candidacy) = (onBeforeRequest newURL, onBeforeRequest_candidacy newURL)"
      show ?thesis
      proof (cases "onBeforeRequest_candidacy newURL options s")
        case (Returned answer made)
        with v returned_not_cancel [OF Returned] show ?thesis
          by (simp add: onBeforeRequest_def)
      next
        case (Candidate tab current settings)
        from candidate_tab_id [OF Candidate] entry
        have "canceledRequests s (tab_id tab) = Some entry" by simp
        from cancel_echo(1,2) [OF this same] Candidate v show ?thesis
          by (simp add: onBeforeRequest_def)
      qed
    next
      assume v: "(handler, candidacy)
         = (assignManager_onBeforeRequest newURL, assignManager_onBeforeRequest_candidacy newURL)"
      show ?thesis
      proof (cases "assignManager_onBeforeRequest_candidacy newURL options s")
        case (Returned answer made)
        with v assignManager_returned_not_cancel [OF Returned] show ?thesis
          by (simp add: assignManager_onBeforeRequest_def)
      next
        case (Candidate tab current settings)
        from assignManager_candidate_tab_id [OF Candidate] entry
        have "canceledRequests s (tab_id tab) = Some entry" by simp
        from cancel_echo(3,4) [OF this same] Candidate v show ?thesis
          by (simp add: assignManager_onBeforeRequest_def)
      qed
    qed
  qed
  have grows: "\<exists>entry'. ledger (handler options s) t = Some entry'
              \<and> requestIds entry \<subseteq> requestIds entry' \<and> urls entry \<subseteq> urls entry'"
    if "canceledRequests s t = Some entry" for s options t entry
    using handler that onBeforeRequest_ledger_grows assignManager_onBeforeRequest_ledger_grows
    by blast
  have first: "length (reroutes (handler options s)) = 1
       \<and> ledger (handler options s) (req_tabId options)
           = Some \<lparr>requestIds = {req_requestId options}, urls = {req_url options}\<rparr>"
    if "canceledRequests s (req_tabId options) = None" "response (handler options s) = Inr Cancel"
    for s options
    using handler that onBeforeRequest_first_cancellation assignManager_onBeforeRequest_first_cancellation
    by blast
  have chain: "ledger (handler first s) (req_tabId first)
                = Some \<lparr>requestIds = {req_requestId first}, urls = {req_url first}\<rparr>
              \<and> length (concat (map reroutes
                          (handle_chain handler (Navigation first s # later) (canceledRequests s)))) = 1"
    if fresh: "canceledRequests s (req_tabId first) = None"
      and cancel: "response (handler first s) = Inr Cancel"
      and later: "recorded_on_arrival handler (req_tabId first) later (ledger (handler first s))"
    for s first later
  proof -
    from first [OF fresh cancel]
    have one: "length (reroutes (handler first s)) = 1"
      and entry: "ledger (handler first s) (req_tabId first)
           = Some \<lparr>requestIds = {req_requestId first}, urls = {req_url first}\<rparr>"
      by simp_all
    have "concat (map reroutes (handle_chain handler later (ledger (handler first s)))) = []"
      using echo later by (rule recorded_chain_no_reroute)
    with one entry show ?thesis
      by (simp add: Let_def)
  qed
  have repeats: "recorded_on_arrival handler (req_tabId first)
                (map (\<lambda>(options, env). Navigation options env) repeats) (ledger (handler first s))"
    if fresh: "canceledRequests s (req_tabId first) = None"
      and cancel: "response (handler first s) = Inr Cancel"
      and later: "\<forall>(options, env) \<in> set repeats.
                  req_tabId options = req_tabId first
                  \<and> (req_requestId options = req_requestId first \<or> req_url options = req_url first)"
    for s first repeats
  proof (rule repeats_recorded_on_arrival [where rid = "req_requestId first" and u = "req_url first"
                and entry = "\<lparr>requestIds = {req_requestId first}, urls = {req_url first}\<rparr>"])
    show "\<exists>entry'. ledger (handler options s) t = Some entry'
              \<and> requestIds entry \<subseteq> requestIds entry' \<and> urls entry \<subseteq> urls entry'"
      if "canceledRequests s t = Some entry" for s options t entry
      using that by (rule grows)
    show "ledger (handler first s) (req_tabId first)
           = Some \<lparr>requestIds = {req_requestId first}, urls = {req_url first}\<rparr>"
      using first [OF fresh cancel] by simp
  qed (use later in simp_all)
  from echo canceled answered chain repeats show ?thesis
    by blast
qed


lemma tabN_fields:
  "tab_id tabN = 7" "tab_url tabN = Some ''https://start.example/''" "tab_index tabN = 2"
  "tab_active tabN = True" "tab_openerTabId tabN = None"
  by (simp_all add: tabN_def)

lemma redirect_example_memory:
  "canceledRequests redirect_example = Map.empty" "lastCreatedTab redirect_example = None"
  by (simp_all add: redirect_example_def)

lemma first_request_fields:
  "req_url first_request = ''http://a.com/''" "req_requestId first_request = ''100''"
  "req_tabId first_request = 7"
  by (simp_all add: first_request_def)

lemma first_request_handled:
  "onBeforeRequest platformURL first_request redirect_example
     = \<lparr>response = Inr Cancel,
        calls = [RemoveContextMenu,
                 ReloadPageInContainer
                   \<lparr>rl_url = ''http://a.com/'', rl_currentUserContextId = Some ''1'',
                    rl_userContextId = Some ''3'', rl_index = 3, rl_active = True,
                    rl_neverAsk = False, rl_openerTabId = Some 7\<rparr>,
                 CalculateContextMenu 7],
        ledger = first_recorded\<rparr>"
  "assignManager_onBeforeRequest platformURL first_request redirect_example
     = \<lparr>response = Inr Cancel,
        calls = [RemoveContextMenu,
                 ReloadPageInContainer
                   \<lparr>rl_url = ''http://a.com/'', rl_currentUserContextId = Some ''1'',
                    rl_userContextId = Some ''3'', rl_index = 3, rl_active = True,
                    rl_neverAsk = False, rl_openerTabId = Some 7\<rparr>,
                 CalculateContextMenu 7],
        ledger = first_recorded\<rparr>"
proof -
  have r: "registerCanceled first_request 7 Map.empty = (False, first_recorded)"
    by (simp add: registerCanceled_def first_request_def first_recorded_def)
  show "onBeforeRequest platformURL first_request redirect_example
     = \<lparr>response = Inr Cancel,
        calls = [RemoveContextMenu,
                 ReloadPageInContainer
                   \<lparr>rl_url = ''http://a.com/'', rl_currentUserContextId = Some ''1'',
                    rl_userContextId = Some ''3'', rl_index = 3, rl_active = True,
                    rl_neverAsk = False, rl_openerTabId = Some 7\<rparr>,
                 CalculateContextMenu 7],
        ledger = first_recorded\<rparr>"
    by (simp add: onBeforeRequest_def candidacy_first_request onBeforeRequest_cancel_def Let_def
          tabN_fields redirect_example_memory first_request_fields r NEW_TAB_PAGES_def
          stored_userContextId_def stored_neverAsk_def truthy_def)
  show "assignManager_onBeforeRequest platformURL first_request redirect_example
     = \<lparr>response = Inr Cancel,
        calls = [RemoveContextMenu,
                 ReloadPageInContainer
                   \<lparr>rl_url = ''http://a.com/'', rl_currentUserContextId = Some ''1'',
                    rl_userContextId = Some ''3'', rl_index = 3, rl_active = True,
                    rl_neverAsk = False, rl_openerTabId = Some 7\<rparr>,
                 CalculateContextMenu 7],
        ledger = first_recorded\<rparr>"
    by (simp add: assignManager_onBeforeRequest_def candidacy_first_request
          assignManager_onBeforeRequest_cancel_def Let_def
          tabN_fields redirect_example_memory first_request_fields r NEW_TAB_PAGES_def
          stored_userContextId_def stored_neverAsk_def)
qed

text \<open>An echo of an assigned url in tab 7: canceled, and registered in the entry.\<close>

lemma echo_handled:
  assumes "req_url options \<noteq> []"
      and "getSiteStoreKey platformURL (Some (req_url options)) = Inr ''siteContainerMap@@_a.com''"
      and "req_frameId options = 0" and "req_tabId options = 7"
      and "canceled 7 = Some entry"
      and "req_requestId options \<in> requestIds entry \<or> req_url options \<in> urls entry"
  shows "onBeforeRequest platformURL options (redirect_example\<lparr>canceledRequests := canceled\<rparr>)
     = \<lparr>response = Inr Cancel, calls = [RemoveContextMenu],
        ledger = canceled(7 \<mapsto> \<lparr>requestIds = insert (req_requestId options) (requestIds entry),
                                  urls = insert (req_url options) (urls entry)\<rparr>)\<rparr>"
proof -
  have r: "registerCanceled options 7 canceled
      = (True, canceled(7 \<mapsto> \<lparr>requestIds = insert (req_requestId options) (requestIds entry),
                                  urls = insert (req_url options) (urls entry)\<rparr>))"
    using assms(5,6) by (simp add: registerCanceled_def Let_def)
  show ?thesis
    by (simp add: onBeforeRequest_def candidacy_assigned [OF assms(1-4)] onBeforeRequest_cancel_def
          Let_def tabN_fields r)
qed

theorem redirect_echo_reroutes_once_witness:
  "canceledRequests redirect_example (req_tabId first_request) = None
   \<and> response (onBeforeRequest platformURL first_request redirect_example) = Inr Cancel
   \<and> ledger (onBeforeRequest platformURL first_request redirect_example) 7
       = Some \<lparr>requestIds = {''100''}, urls = {''http://a.com/''}\<rparr>
   \<and> recorded_on_arrival (onBeforeRequest platformURL) 7
       [Navigation redirected_request redirect_example, Cleanup 8,
        Navigation repeated_request redirect_example]
       (ledger (onBeforeRequest platformURL first_request redirect_example))
   \<and> req_requestId repeated_request \<noteq> req_requestId first_request
   \<and> req_url repeated_request \<noteq> req_url first_request
   \<and> length (concat (map reroutes
        (handle_chain (onBeforeRequest platformURL)
           [Navigation first_request redirect_example,
            Navigation redirected_request redirect_example, Cleanup 8,
            Navigation repeated_request redirect_example]
           (canceledRequests redirect_example)))) = 1
   \<and> recorded same_url_request first_recorded
   \<and> response (onBeforeRequest platformURL same_url_request
                  (redirect_example\<lparr>canceledRequests := first_recorded\<rparr>)) = Inr Cancel
   \<and> calls (onBeforeRequest platformURL same_url_request
               (redirect_example\<lparr>canceledRequests := first_recorded\<rparr>)) = [RemoveContextMenu]
   \<and> recorded same_id_request first_recorded
   \<and> onBeforeRequest platformURL same_id_request (redirect_example\<lparr>canceledRequests := first_recorded\<rparr>)
       = \<lparr>response = Inr Allow, calls = [RemoveContextMenu], ledger = first_recorded\<rparr>
   \<and> recorded_on_arrival (onBeforeRequest platformURL) 7
       [Navigation same_url_request redirect_example, Navigation first_request redirect_example]
       (ledger (onBeforeRequest platformURL first_request redirect_example))"
proof -
  note spec = redirect_echo_reroutes_once
                [where handler = "onBeforeRequest platformURL"
                   and candidacy = "onBeforeRequest_candidacy platformURL" and newURL = platformURL,
                 OF disjI1 [OF refl]]
  have fresh: "canceledRequests redirect_example (req_tabId first_request) = None"
    by (simp add: redirect_example_def)
  have cancel: "response (onBeforeRequest platformURL first_request redirect_example) = Inr Cancel"
    by (simp add: first_request_handled)
  have led: "ledger (onBeforeRequest platformURL first_request redirect_example) = first_recorded"
    by (simp add: first_request_handled)
  have differs: "req_requestId repeated_request \<noteq> req_requestId first_request"
    "req_url repeated_request \<noteq> req_url first_request"
    by (simp_all add: repeated_request_def first_request_def)
  have second: "onBeforeRequest platformURL redirected_request
                  (redirect_example\<lparr>canceledRequests := first_recorded\<rparr>)
      = \<lparr>response = Inr Cancel, calls = [RemoveContextMenu],
         ledger = [7 \<mapsto> \<lparr>requestIds = {''100''}, urls = {''http://a.com/login'', ''http://a.com/''}\<rparr>]\<rparr>"
    using echo_handled [where options = redirected_request and canceled = first_recorded
            and entry = "\<lparr>requestIds = {''100''}, urls = {''http://a.com/''}\<rparr>"]
    by (simp add: redirected_request_def key_a_login first_recorded_def)
  have arrival: "recorded_on_arrival (onBeforeRequest platformURL) 7
       [Navigation redirected_request redirect_example, Cleanup 8,
        Navigation repeated_request redirect_example]
       (ledger (onBeforeRequest platformURL first_request redirect_example))"
    unfolding led
    by (simp add: second)
       (simp add: recorded_def redirected_request_def repeated_request_def first_recorded_def)
  have chain: "ledger (onBeforeRequest platformURL first_request redirect_example) (req_tabId first_request)
                = Some \<lparr>requestIds = {req_requestId first_request}, urls = {req_url first_request}\<rparr>
     \<and> length (concat (map reroutes
        (handle_chain (onBeforeRequest platformURL)
           (Navigation first_request redirect_example #
            [Navigation redirected_request redirect_example, Cleanup 8,
             Navigation repeated_request redirect_example])
           (canceledRequests redirect_example)))) = 1"
    using spec [THEN conjunct2, THEN conjunct1, rule_format, of redirect_example first_request
                  "[Navigation redirected_request redirect_example, Cleanup 8,
                    Navigation repeated_request redirect_example]"]
      fresh cancel arrival
    by (simp add: first_request_fields)
  have found: "recorded same_url_request (canceledRequests (redirect_example\<lparr>canceledRequests := first_recorded\<rparr>))"
    "recorded same_id_request (canceledRequests (redirect_example\<lparr>canceledRequests := first_recorded\<rparr>))"
    by (simp_all add: recorded_def first_recorded_def same_url_request_def same_id_request_def)
  have candidate: "onBeforeRequest_candidacy platformURL same_url_request redirect_example
          = Candidate tabN (Some ''1'')
              (Assignment \<lparr>ss_userContextId = ''3'', ss_neverAsk = False, ss_hostname = None\<rparr>)"
    by (rule candidacy_a_com(1)) (simp_all add: same_url_request_def)
  have echoed: "response (onBeforeRequest platformURL same_url_request
                  (redirect_example\<lparr>canceledRequests := first_recorded\<rparr>)) = Inr Cancel
              \<and> calls (onBeforeRequest platformURL same_url_request
                  (redirect_example\<lparr>canceledRequests := first_recorded\<rparr>)) = [RemoveContextMenu]"
    using spec [THEN conjunct1, rule_format, OF found(1), THEN conjunct2, THEN conjunct1] candidate
    by simp
  have returned: "onBeforeRequest_candidacy platformURL same_id_request redirect_example
             = Returned (Inr Allow) [RemoveContextMenu]"
    by (simp add: onBeforeRequest_candidacy_def same_id_request_def storageAreaGet_def key_b_com
          redirect_example_def tabs_get_def tabN_def)
  have allowed: "onBeforeRequest platformURL same_id_request (redirect_example\<lparr>canceledRequests := first_recorded\<rparr>)
       = \<lparr>response = Inr Allow, calls = [RemoveContextMenu], ledger = first_recorded\<rparr>"
    using spec [THEN conjunct1, rule_format, OF found(2), THEN conjunct2, THEN conjunct1] returned
    by simp
  have repeats: "recorded_on_arrival (onBeforeRequest platformURL) (req_tabId first_request)
       (map (\<lambda>(options, env). Navigation options env)
          [(same_url_request, redirect_example), (first_request, redirect_example)])
       (ledger (onBeforeRequest platformURL first_request redirect_example))"
    using spec [THEN conjunct2, THEN conjunct2, rule_format, of redirect_example first_request
                  "[(same_url_request, redirect_example), (first_request, redirect_example)]"]
      fresh cancel
    by (simp add: same_url_request_def first_request_def)
  from fresh cancel led differs arrival chain found echoed allowed repeats show ?thesis
    by (simp add: first_request_fields first_recorded_def)
qed

text \<open>
  C1 as stated fails: after the first request of tab 7 has been canceled and recorded, an
  event for tab 7 with the recorded request id and a url that has no assignment is not canceled;
  both variants answer \<^verbatim>\<open>{}\<close>.  The tests of lines 527-556 come before the ledger.
\<close>

theorem echo_of_unassigned_url_is_allowed:
  "ledger (onBeforeRequest platformURL first_request redirect_example) = first_recorded
   \<and> response (onBeforeRequest platformURL first_request redirect_example) = Inr Cancel
   \<and> first_recorded (req_tabId same_id_request) = Some \<lparr>requestIds = {''100''}, urls = {''http://a.com/''}\<rparr>
   \<and> req_requestId same_id_request = ''100''
   \<and> response (onBeforeRequest platformURL same_id_request
                  (redirect_example\<lparr>canceledRequests := first_recorded\<rparr>)) = Inr Allow
   \<and> ledger (assignManager_onBeforeRequest platformURL first_request redirect_example) = first_recorded
   \<and> response (assignManager_onBeforeRequest platformURL first_request redirect_example) = Inr Cancel
   \<and> response (assignManager_onBeforeRequest platformURL same_id_request
                  (redirect_example\<lparr>canceledRequests := first_recorded\<rparr>)) = Inr Allow"
proof -
  have c: "onBeforeRequest_candidacy platformURL same_id_request redirect_example
             = Returned (Inr Allow) [RemoveContextMenu]"
    by (simp add: onBeforeRequest_candidacy_def same_id_request_def storageAreaGet_def key_b_com
          redirect_example_def tabs_get_def tabN_def)
  have c0: "assignManager_onBeforeRequest_candidacy platformURL same_id_request redirect_example
             = Returned (Inr Allow) [RemoveContextMenu]"
    by (simp add: assignManager_onBeforeRequest_candidacy_def same_id_request_def
          assignManager_storageArea_get_def key0_b_com redirect_example_def tabs_get_def tabN_def)
  have allowed: "response (onBeforeRequest platformURL same_id_request
                  (redirect_example\<lparr>canceledRequests := first_recorded\<rparr>)) = Inr Allow"
    by (simp add: onBeforeRequest_def c)
  have allowed0: "response (assignManager_onBeforeRequest platformURL same_id_request
                  (redirect_example\<lparr>canceledRequests := first_recorded\<rparr>)) = Inr Allow"
    by (simp add: assignManager_onBeforeRequest_def c0)
  have recorded: "first_recorded (req_tabId same_id_request)
                    = Some \<lparr>requestIds = {''100''}, urls = {''http://a.com/''}\<rparr>"
                 "req_requestId same_id_request = ''100''"
    by (simp_all add: first_recorded_def same_id_request_def)
  from allowed allowed0 recorded show ?thesis
    by (simp add: first_request_handled)
qed


subsection \<open>The two variants of the interceptor\<close>

lemma variants_agree_on_reads:
  assumes "u \<noteq> []"
  shows "assignManager_getSiteStoreKey newURL (Some u) = getSiteStoreKey newURL (Some u)"
    and "assignManager_storageArea_get newURL (Some u) s = storageAreaGet newURL (Some u) s"
    and "assignManager_isExempted newURL u t s = isExempted newURL u t s"
  using assms
  by (simp_all add: assignManager_getSiteStoreKey_def getSiteStoreKey_def
        assignManager_storageArea_get_def storageAreaGet_def
        assignManager_isExempted_def isExempted_def)

lemma variants_agree_on_ids:
  "assignManager_getUserContextIdFromCookieStore tab = getUserContextIdFromCookieStore tab"
  "backgroundLogic_cookieStoreId (Some x) = getCookieStoreId x"
  by (simp_all add: assignManager_getUserContextIdFromCookieStore_def
        getUserContextIdFromCookieStore_def backgroundLogic_getUserContextIdFromCookieStoreId_def
        getUserContextIdFromCookieStoreId_def backgroundLogic_cookieStoreId_def getCookieStoreId_def
        split: option.splits)

lemma candidate_reads:
  assumes "onBeforeRequest_candidacy newURL options s = Candidate tab u settings"
  shows "storageAreaGet newURL (Some (req_url options)) s = Inr (Some settings)"
    and "tabs_get (req_tabId options) s = Some tab"
  using assms
  by (auto simp: onBeforeRequest_candidacy_def Let_def
        split: sum.splits option.splits if_splits)

lemma candidacy_agree:
  assumes url: "req_url options \<noteq> []"
      and tab: "\<forall>tab. tabs_get (req_tabId options) s = Some tab
                  \<longrightarrow> truthy (getUserContextIdFromCookieStore tab)"
  shows "assignManager_onBeforeRequest_candidacy newURL options s =
           (case onBeforeRequest_candidacy newURL options s of
              Returned answer made \<Rightarrow>
                Returned answer
                  (map (\<lambda>c. case c of DeleteContainer x \<Rightarrow> AssignManagerDeleteContainer x | _ \<Rightarrow> c) made)
            | Candidate found u settings \<Rightarrow> Candidate found u settings)"
  using tab
  by (simp add: assignManager_onBeforeRequest_candidacy_def onBeforeRequest_candidacy_def
        variants_agree_on_reads [OF url] variants_agree_on_ids Let_def
        split: sum.splits option.splits)

lemma cancel_agree:
  assumes "truthy (stored_userContextId settings)"
  shows "assignManager_onBeforeRequest_cancel options tab u settings s
           = onBeforeRequest_cancel options tab u settings s"
proof -
  have newtab: "(case tab_url tab of None \<Rightarrow> False | Some p \<Rightarrow> p \<noteq> [] \<and> p \<in> set NEW_TAB_PAGES)
        = (case tab_url tab of None \<Rightarrow> False | Some p \<Rightarrow> p \<in> set NEW_TAB_PAGES)"
    by (auto simp: NEW_TAB_PAGES_def split: option.splits)
  show ?thesis
    unfolding assignManager_onBeforeRequest_cancel_def onBeforeRequest_cancel_def newtab
    using assms by (simp add: Let_def split: prod.splits)
qed

text \<open>
  Inside containers the two variants agree.  For a request with a url, in a state where the
  requesting tab (if it is open) belongs to a container, that is, its \<^verbatim>\<open>cookieStoreId\<close> yields a
  non-empty container id, and where the assignment stored for the url (if any) carries a
  non-empty container id, the two variants of \<^verbatim>\<open>onBeforeRequest\<close> give the same answer, trigger
  the same reroute and leave the same ledger.
\<close>

lemma variants_agree_inside_containers:
  assumes url: "req_url options \<noteq> []"
      and tab: "\<forall>tab. tabs_get (req_tabId options) s = Some tab
                  \<longrightarrow> truthy (getUserContextIdFromCookieStore tab)"
      and stored: "\<forall>v. storageAreaGet newURL (Some (req_url options)) s = Inr (Some v)
                  \<longrightarrow> truthy (stored_userContextId v)"
  shows "response (assignManager_onBeforeRequest newURL options s)
           = response (onBeforeRequest newURL options s)
       \<and> reroutes (assignManager_onBeforeRequest newURL options s)
           = reroutes (onBeforeRequest newURL options s)
       \<and> ledger (assignManager_onBeforeRequest newURL options s)
           = ledger (onBeforeRequest newURL options s)"
proof (cases "onBeforeRequest_candidacy newURL options s")
  case (Returned answer made)
  have "concat (map reload_of
          (map (\<lambda>c. case c of DeleteContainer x \<Rightarrow> AssignManagerDeleteContainer x | _ \<Rightarrow> c) made))
        = concat (map reload_of made)"
    by (induction made) (auto split: call.splits)
  with Returned candidacy_agree [OF url tab, of newURL] show ?thesis
    by (simp add: assignManager_onBeforeRequest_def onBeforeRequest_def reroutes_def)
next
  case (Candidate found u settings)
  from candidate_reads(1) [OF Candidate] stored
  have "truthy (stored_userContextId settings)" by simp
  from cancel_agree [OF this, of options found u s] Candidate
    candidacy_agree [OF url tab, of newURL]
  show ?thesis
    by (simp add: assignManager_onBeforeRequest_def onBeforeRequest_def)
qed

lemma variants_agree_at_first_request:
  "req_url first_request \<noteq> []
   \<and> tabs_get (req_tabId first_request) redirect_example = Some tabN
   \<and> truthy (getUserContextIdFromCookieStore tabN)
   \<and> storageAreaGet platformURL (Some (req_url first_request)) redirect_example
       = Inr (Some (Assignment \<lparr>ss_userContextId = ''3'', ss_neverAsk = False, ss_hostname = None\<rparr>))
   \<and> response (assignManager_onBeforeRequest platformURL first_request redirect_example) = Inr Cancel
   \<and> response (onBeforeRequest platformURL first_request redirect_example) = Inr Cancel
   \<and> reroutes (assignManager_onBeforeRequest platformURL first_request redirect_example)
       = reroutes (onBeforeRequest platformURL first_request redirect_example)
   \<and> ledger (assignManager_onBeforeRequest platformURL first_request redirect_example)
       = ledger (onBeforeRequest platformURL first_request redirect_example)"
proof -
  have url: "req_url first_request \<noteq> []"
    by (simp add: first_request_def)
  have found: "tabs_get (req_tabId first_request) redirect_example = Some tabN"
    by (simp add: first_request_def tabs_get_def redirect_example_def tabN_def)
  have inside: "truthy (getUserContextIdFromCookieStore tabN)"
    by (simp add: container_of_tabN truthy_def)
  have read: "storageAreaGet platformURL (Some (req_url first_request)) redirect_example
       = Inr (Some (Assignment \<lparr>ss_userContextId = ''3'', ss_neverAsk = False, ss_hostname = None\<rparr>))"
    by (simp add: first_request_fields storageAreaGet_def key_a_com redirect_example_def)
  have tab: "\<forall>tab. tabs_get (req_tabId first_request) redirect_example = Some tab
                  \<longrightarrow> truthy (getUserContextIdFromCookieStore tab)"
    using found inside by simp
  have stored: "\<forall>v. storageAreaGet platformURL (Some (req_url first_request)) redirect_example = Inr (Some v)
                  \<longrightarrow> truthy (stored_userContextId v)"
    using read by (simp add: stored_userContextId_def truthy_def)
  from variants_agree_inside_containers [OF url tab stored] url found inside read
  show ?thesis
    by (simp add: first_request_handled)
qed

text \<open>
  C8.  The two variants are to give the same answer and the same reroute for every top-level
  request in the same state.  They do not for a tab outside every container: tab 8 has the
  cookie store \<^verbatim>\<open>firefox-default\<close> and navigates to \<^verbatim>\<open>http://a.com/\<close>, which is assigned to
  container 3.  \<^verbatim>\<open>background-page.ts\<close> cancels the request and reroutes it to container 3, with
  no current container.  \<^verbatim>\<open>background-page-1.ts\<close> answers \<^verbatim>\<open>{}\<close> and reroutes nothing: its test
  \<^verbatim>\<open>!userContextId\<close> (line 549), which the other variant does not have, returns before the
  assignment is compared.
\<close>

theorem variants_differ_outside_containers:
  "response (onBeforeRequest platformURL default_tab_request redirect_example) = Inr Allow
   \<and> reroutes (onBeforeRequest platformURL default_tab_request redirect_example) = []
   \<and> response (assignManager_onBeforeRequest platformURL default_tab_request redirect_example)
       = Inr Cancel
   \<and> reroutes (assignManager_onBeforeRequest platformURL default_tab_request redirect_example)
       = [\<lparr>rl_url = ''http://a.com/'', rl_currentUserContextId = None,
           rl_userContextId = Some ''3'', rl_index = 4, rl_active = False,
           rl_neverAsk = False, rl_openerTabId = Some 8\<rparr>]"
proof -
  have found: "tabs_get 8 redirect_example = Some tabP"
    by (simp add: tabs_get_def redirect_example_def tabN_def tabP_def)
  have fields: "tab_id tabP = 8" "tab_url tabP = Some ''https://start.example/''"
    "tab_index tabP = 3" "tab_active tabP = False" "tab_openerTabId tabP = None"
    "tab_incognito tabP = False"
    by (simp_all add: tabP_def)
  have request: "req_url default_tab_request = ''http://a.com/''" "req_frameId default_tab_request = 0"
    "req_tabId default_tab_request = 8" "req_requestId default_tab_request = ''200''"
    by (simp_all add: default_tab_request_def)
  have stored: "storage_local redirect_example ''siteContainerMap@@_a.com''
      = Some (Assignment \<lparr>ss_userContextId = ''3'', ss_neverAsk = False, ss_hostname = None\<rparr>)"
    "identities redirect_example = [''firefox-container-3'']"
    "exemptedTabs redirect_example = Map.empty"
    by (simp_all add: redirect_example_def)
  have c1: "onBeforeRequest_candidacy platformURL default_tab_request redirect_example
      = Returned (Inr Allow) [RemoveContextMenu]"
    by (simp add: onBeforeRequest_candidacy_def request storageAreaGet_def key_a_com stored found
          stored_userContextId_def getCookieStoreId_def container_of_tabP truthy_def Let_def)
  have c0: "assignManager_onBeforeRequest_candidacy platformURL default_tab_request redirect_example
      = Candidate tabP None
          (Assignment \<lparr>ss_userContextId = ''3'', ss_neverAsk = False, ss_hostname = None\<rparr>)"
    by (simp add: assignManager_onBeforeRequest_candidacy_def request assignManager_storageArea_get_def
          key0_a_com stored found stored_userContextId_def backgroundLogic_cookieStoreId_def
          container_of_tabP same_string_def fields assignManager_isExempted_def Let_def)
  have r: "registerCanceled default_tab_request 8 Map.empty
      = (False, [8 \<mapsto> \<lparr>requestIds = {''200''}, urls = {''http://a.com/''}\<rparr>])"
    by (simp add: registerCanceled_def request)
  show ?thesis
    by (simp add: onBeforeRequest_def c1 assignManager_onBeforeRequest_def c0 reroutes_def
          assignManager_onBeforeRequest_cancel_def Let_def fields redirect_example_memory r
          NEW_TAB_PAGES_def stored_userContextId_def stored_neverAsk_def request)
qed


subsection \<open>Assigning a site and the default port\<close>

lemma setExempted_frame:
  assumes "setExempted newURL pageUrl tabId s = Inr s'"
  shows "storage_local s' = storage_local s" and "open_tabs s' = open_tabs s"
    and "identities s' = identities s" and "canceledRequests s' = canceledRequests s"
    and "lastCreatedTab s' = lastCreatedTab s"
  using assms by (auto simp: setExempted_def Let_def split: sum.splits)

lemma storageAreaSet_forEach_frame:
  assumes "storageAreaSet_forEach newURL pageUrl ids s = Inr s'"
  shows "storage_local s' = storage_local s \<and> open_tabs s' = open_tabs s
       \<and> identities s' = identities s \<and> canceledRequests s' = canceledRequests s
       \<and> lastCreatedTab s' = lastCreatedTab s"
  using assms
proof (induction ids arbitrary: s)
  case Nil
  then show ?case by simp
next
  case (Cons tabId ids)
  then obtain s1 where one: "setExempted newURL pageUrl tabId s = Inr s1"
    and rest: "storageAreaSet_forEach newURL pageUrl ids s1 = Inr s'"
    by (auto split: sum.splits)
  from Cons.IH [OF rest] setExempted_frame [OF one] show ?case by simp
qed

lemma storageAreaSet_stores:
  assumes "storageAreaSet newURL pageUrl data exempted s = Inr s'"
      and "getSiteStoreKey newURL (Some pageUrl) = Inr key"
  shows "storage_local s' = (storage_local s)(key \<mapsto> data) \<and> open_tabs s' = open_tabs s
       \<and> identities s' = identities s \<and> canceledRequests s' = canceledRequests s"
proof (cases exempted)
  case None
  with assms show ?thesis
    by (auto simp: storageAreaSet_def)
next
  case (Some ids)
  with assms obtain s1 where each: "storageAreaSet_forEach newURL pageUrl ids s = Inr s1"
    and s': "s' = s1\<lparr>storage_local := (storage_local s1)(key \<mapsto> data)\<rparr>"
    by (auto simp: storageAreaSet_def split: sum.splits)
  from storageAreaSet_forEach_frame [OF each] s' show ?thesis by simp
qed

lemma setOrRemoveAssignment_assigns:
  assumes "setOrRemoveAssignment newURL tabId pageUrl userContextId False s = (Inr (), s')"
      and "getSiteStoreKey newURL (Some pageUrl) = Inr key"
  shows "storage_local s' key
           = Some (Assignment \<lparr>ss_userContextId = userContextId, ss_neverAsk = False,
                                ss_hostname = None\<rparr>)"
proof -
  from assms obtain exempted where
    "storageAreaSet newURL pageUrl
       (Assignment \<lparr>ss_userContextId = userContextId, ss_neverAsk = False, ss_hostname = None\<rparr>)
       (Some exempted) s = Inr s'"
    by (auto simp: setOrRemoveAssignment_def split: sum.splits option.splits)
  from storageAreaSet_stores [OF this assms(2)] show ?thesis by simp
qed


text \<open>
  A tab inside another container.  Whenever the platform parses \<^verbatim>\<open>http://example.com\<close>,
  \<^verbatim>\<open>http://example.com:80\<close> and \<^verbatim>\<open>http://example.com:80/page\<close> with hostname \<^verbatim>\<open>example.com\<close> and a
  port that is empty (the default port is dropped) or, for the explicit ones, "80": the site
  keys of the first two are equal; and after \<^verbatim>\<open>example.com\<close> has been assigned to container "3"
  (\<^verbatim>\<open>_setOrRemoveAssignment\<close>), a top-level navigation to \<^verbatim>\<open>http://example.com:80/page\<close> in a tab of
  a container \<open>c\<close> other than "3" that is not private, not exempted and has no ledger entry, with
  container 3 existing, is canceled and rerouted by exactly one \<^verbatim>\<open>reloadPageInContainer\<close> call
  whose target is container "3".  With the fresh assignment (\<^verbatim>\<open>neverAsk\<close> false) that call opens
  the confirmation page for \<^verbatim>\<open>cookieStoreId=firefox-container-3\<close>; once \<^verbatim>\<open>neverAsk\<close> is set, the
  same call opens the url itself in cookie store \<^verbatim>\<open>firefox-container-3\<close>.
\<close>

lemma default_port_navigation_from_other_container:
  assumes plain: "newURL ''http://example.com'' = Some u1" "hostname u1 = ''example.com''" "port u1 = []"
      and explicit: "newURL ''http://example.com:80'' = Some u2" "hostname u2 = ''example.com''"
                    "port u2 = [] \<or> port u2 = ''80''"
      and page: "newURL ''http://example.com:80/page'' = Some u3" "hostname u3 = ''example.com''"
                "port u3 = [] \<or> port u3 = ''80''"
      and assign: "setOrRemoveAssignment newURL t0 ''http://example.com'' ''3'' False s0 = (Inr (), s)"
      and container: "''firefox-container-3'' \<in> set (identities s)"
      and tab: "tabs_get t s = Some tab" "t \<noteq> - 1"
               "getUserContextIdFromCookieStore tab = Some c" "c \<noteq> []" "c \<noteq> ''3''"
               "\<not> tab_incognito tab"
      and free: "isExempted newURL ''http://example.com:80/page'' t s = Inr False"
      and fresh: "canceledRequests s t = None"
      and request: "req_frameId options = 0" "req_tabId options = t"
                   "req_url options = ''http://example.com:80/page''"
  shows "getSiteStoreKey newURL (Some ''http://example.com'')
           = getSiteStoreKey newURL (Some ''http://example.com:80'')
       \<and> response (onBeforeRequest newURL options s) = Inr Cancel
       \<and> (\<exists>reroute.
             reroutes (onBeforeRequest newURL options s) = [reroute]
             \<and> rl_url reroute = ''http://example.com:80/page''
             \<and> rl_currentUserContextId reroute = Some c
             \<and> rl_userContextId reroute = Some ''3''
             \<and> rl_neverAsk reroute = False
             \<and> (\<exists>opened. reloadPageInContainer loadPage encodeURIComponent reroute = Inr opened
                   \<and> cp_url opened
                       = Some (loadPage @ ''?url=''
                               @ encodeURLProperty encodeURIComponent ''http://example.com:80/page''
                               @ ''&cookieStoreId=firefox-container-3''
                               @ ''&currentCookieStoreId=firefox-container-'' @ c))
             \<and> (\<exists>opened. reloadPageInContainer loadPage encodeURIComponent
                             (reroute\<lparr>rl_neverAsk := True\<rparr>) = Inr opened
                   \<and> cp_url opened = Some ''http://example.com:80/page''
                   \<and> cp_cookieStoreId opened = Some ''firefox-container-3''))"
proof -
  have k1: "getSiteStoreKey newURL (Some ''http://example.com'') = Inr ''siteContainerMap@@_example.com''"
    using plain by (simp add: getSiteStoreKey_def)
  have k2: "getSiteStoreKey newURL (Some ''http://example.com:80'') = Inr ''siteContainerMap@@_example.com''"
    using explicit by (auto simp: getSiteStoreKey_def)
  have k3: "getSiteStoreKey newURL (Some ''http://example.com:80/page'') = Inr ''siteContainerMap@@_example.com''"
    using page by (auto simp: getSiteStoreKey_def)
  let ?settings = "Assignment \<lparr>ss_userContextId = ''3'', ss_neverAsk = False, ss_hostname = None\<rparr>"
  have stored: "storage_local s ''siteContainerMap@@_example.com'' = Some ?settings"
    using setOrRemoveAssignment_assigns [OF assign k1] .
  note own = tab(3)
  have id: "tab_id tab = t"
    using tabs_get_id [OF tab(1)] .
  have candidate: "onBeforeRequest_candidacy newURL options s = Candidate tab (Some c) ?settings"
    using tab(1,2,4,5,6) container free
    by (simp add: onBeforeRequest_candidacy_def request storageAreaGet_def k3 stored own id
          stored_userContextId_def getCookieStoreId_def truthy_def same_string_def Let_def)
  have registered: "registerCanceled options t (canceledRequests s)
      = (False, (canceledRequests s)(t \<mapsto> \<lparr>requestIds = {req_requestId options},
                                              urls = {req_url options}\<rparr>))"
    using fresh by (rule registerCanceled_fresh)
  define opener where "opener =
     (if (case tab_url tab of None \<Rightarrow> False | Some u \<Rightarrow> u \<noteq> [] \<and> u \<in> set NEW_TAB_PAGES)
          \<or> (case lastCreatedTab s of None \<Rightarrow> False | Some created \<Rightarrow> tab_id created = tab_id tab)
      then tab_openerTabId tab else Some (tab_id tab))"
  let ?reroute = "\<lparr>rl_url = ''http://example.com:80/page'', rl_currentUserContextId = Some c,
                   rl_userContextId = Some ''3'', rl_index = tab_index tab + 1,
                   rl_active = tab_active tab, rl_neverAsk = False, rl_openerTabId = opener\<rparr>"
  have handled: "response (onBeforeRequest newURL options s) = Inr Cancel"
                "reroutes (onBeforeRequest newURL options s) = [?reroute]"
    by (simp_all add: onBeforeRequest_def candidate onBeforeRequest_cancel_def Let_def id registered
          stored_userContextId_def stored_neverAsk_def truthy_def reroutes_def request opener_def)
  have confirm: "\<exists>opened. reloadPageInContainer loadPage encodeURIComponent ?reroute = Inr opened
                   \<and> cp_url opened
                       = Some (loadPage @ ''?url=''
                               @ encodeURLProperty encodeURIComponent ''http://example.com:80/page''
                               @ ''&cookieStoreId=firefox-container-3''
                               @ ''&currentCookieStoreId=firefox-container-'' @ c)"
    using tab(4) by (simp add: reloadPageInContainer_def truthy_def getCookieStoreId_def Let_def)
  have direct: "\<exists>opened. reloadPageInContainer loadPage encodeURIComponent
                             (?reroute\<lparr>rl_neverAsk := True\<rparr>) = Inr opened
                   \<and> cp_url opened = Some ''http://example.com:80/page''
                   \<and> cp_cookieStoreId opened = Some ''firefox-container-3''"
    by (simp add: reloadPageInContainer_def truthy_def getCookieStoreId_def Let_def)
  from k1 k2 handled confirm direct show ?thesis
    by simp
qed

text \<open>The urls and the assignment of the example.\<close>

lemma platformURL_example:
  "platformURL ''http://example.com''
     = Some \<lparr>protocol = ''http:'', hostname = ''example.com'', port = []\<rparr>"
  "platformURL ''http://example.com:80''
     = Some \<lparr>protocol = ''http:'', hostname = ''example.com'', port = []\<rparr>"
  "platformURL ''http://example.com:80/page''
     = Some \<lparr>protocol = ''http:'', hostname = ''example.com'', port = []\<rparr>"
  "platformURL ''https://start.example/''
     = Some \<lparr>protocol = ''https:'', hostname = ''start.example'', port = []\<rparr>"
  by (simp_all add: platformURL_def default_port_def Let_def)

lemma key_example:
  "getSiteStoreKey platformURL (Some ''http://example.com'') = Inr ''siteContainerMap@@_example.com''"
  "getSiteStoreKey platformURL (Some ''http://example.com:80'') = Inr ''siteContainerMap@@_example.com''"
  "getSiteStoreKey platformURL (Some ''http://example.com:80/page'') = Inr ''siteContainerMap@@_example.com''"
  "assignManager_getSiteStoreKey platformURL (Some ''http://example.com'') = Inr ''siteContainerMap@@_example.com''"
  "assignManager_getSiteStoreKey platformURL (Some ''http://example.com:80'') = Inr ''siteContainerMap@@_example.com''"
  "assignManager_getSiteStoreKey platformURL (Some ''http://example.com:80/page'') = Inr ''siteContainerMap@@_example.com''"
  by (simp_all add: getSiteStoreKey_def assignManager_getSiteStoreKey_def platformURL_example)

lemma example_assigned:
  "setOrRemoveAssignment platformURL 7 ''http://example.com'' ''3'' False unassigned_example
     = (Inr (), assigned_example)"
proof -
  have others: "getSiteStoreKey platformURL (Some ''https://start.example/'')
      = Inr ''siteContainerMap@@_start.example''"
    by (simp add: getSiteStoreKey_def platformURL_example)
  have none: "setOrRemoveAssignment_filter platformURL ''siteContainerMap@@_example.com'' ''3''
                (tabs_query None None unassigned_example) = Inr []"
    by (simp add: tabs_query_def unassigned_example_def tabN_def tabP_def others)
  have found: "tabs_get 7 assigned_example = Some tabN"
    by (simp add: tabs_get_def assigned_example_def unassigned_example_def tabN_def)
  then show ?thesis
    by (simp add: setOrRemoveAssignment_def key_example none storageAreaSet_def)
       (simp add: assigned_example_def unassigned_example_def)
qed

lemma default_port_navigation_from_tab_7:
  "tabs_get 7 assigned_example = Some tabN
   \<and> getUserContextIdFromCookieStore tabN = Some ''1''
   \<and> isExempted platformURL ''http://example.com:80/page'' 7 assigned_example = Inr False
   \<and> canceledRequests assigned_example 7 = None
   \<and> response (onBeforeRequest platformURL port80_request assigned_example) = Inr Cancel
   \<and> length (reroutes (onBeforeRequest platformURL port80_request assigned_example)) = 1"
proof -
  have found: "tabs_get 7 assigned_example = Some tabN"
    by (simp add: tabs_get_def assigned_example_def unassigned_example_def tabN_def)
  have container: "''firefox-container-3'' \<in> set (identities assigned_example)"
    by (simp add: assigned_example_def unassigned_example_def)
  have tab: "getUserContextIdFromCookieStore tabN = Some ''1''" "''1'' \<noteq> []" "''1'' \<noteq> ''3''"
    "\<not> tab_incognito tabN"
    by (simp_all add: container_of_tabN) (simp add: tabN_def)
  have free: "isExempted platformURL ''http://example.com:80/page'' 7 assigned_example = Inr False"
    by (simp add: isExempted_def key_example assigned_example_def unassigned_example_def)
  have fresh: "canceledRequests assigned_example 7 = None"
    by (simp add: assigned_example_def unassigned_example_def)
  have request: "req_frameId port80_request = 0" "req_tabId port80_request = 7"
    "req_url port80_request = ''http://example.com:80/page''"
    by (simp_all add: port80_request_def)
  note inst = default_port_navigation_from_other_container
     [where newURL = platformURL and s = assigned_example and ?s0.0 = unassigned_example
        and ?t0.0 = 7 and t = 7 and tab = tabN and options = port80_request and c = "''1''"
        and loadPage = "''moz-extension://abc/confirm-page.html''" and encodeURIComponent = "\<lambda>u. u",
      OF platformURL_example(1) _ _ platformURL_example(2) _ _ platformURL_example(3) _ _
         example_assigned container found _ tab free fresh request]
  have "response (onBeforeRequest platformURL port80_request assigned_example) = Inr Cancel
       \<and> length (reroutes (onBeforeRequest platformURL port80_request assigned_example)) = 1"
    using inst by auto
  with found tab(1) free fresh show ?thesis
    by simp
qed

text \<open>
  C4.  The site keys of \<^verbatim>\<open>http://example.com\<close> and \<^verbatim>\<open>http://example.com:80\<close> are equal, and after
  \<^verbatim>\<open>example.com\<close> has been assigned to container "3", a top-level navigation to
  \<^verbatim>\<open>http://example.com:80/page\<close> in a tab of the default container is to be canceled and rerouted
  into container 3.  The browser reports the cookie store of such a tab as \<^verbatim>\<open>firefox-default\<close>.
  For tab 8, which is such a tab, \<^verbatim>\<open>background-page.ts\<close> does cancel the request and reroutes it
  to container "3"; \<^verbatim>\<open>background-page-1.ts\<close> answers \<^verbatim>\<open>{}\<close> and reroutes nothing, because its test
  \<^verbatim>\<open>!userContextId\<close> (line 549) returns for every tab whose cookie store has no container id.
\<close>

theorem default_port_navigation_from_default_tab:
  "getSiteStoreKey platformURL (Some ''http://example.com'')
     = getSiteStoreKey platformURL (Some ''http://example.com:80'')
   \<and> getSiteStoreKey platformURL (Some ''http://example.com:80/page'')
     = Inr ''siteContainerMap@@_example.com''
   \<and> setOrRemoveAssignment platformURL 7 ''http://example.com'' ''3'' False unassigned_example
     = (Inr (), assigned_example)
   \<and> tabs_get (req_tabId default_port80_request) assigned_example = Some tabP
   \<and> tab_cookieStoreId tabP = Some ''firefox-default''
   \<and> response (onBeforeRequest platformURL default_port80_request assigned_example) = Inr Allow
   \<and> reroutes (onBeforeRequest platformURL default_port80_request assigned_example) = []
   \<and> response (assignManager_onBeforeRequest platformURL default_port80_request assigned_example)
       = Inr Cancel
   \<and> reroutes (assignManager_onBeforeRequest platformURL default_port80_request assigned_example)
       = [\<lparr>rl_url = ''http://example.com:80/page'', rl_currentUserContextId = None,
           rl_userContextId = Some ''3'', rl_index = 4, rl_active = False,
           rl_neverAsk = False, rl_openerTabId = Some 8\<rparr>]"
proof -
  have found: "tabs_get 8 assigned_example = Some tabP"
    by (simp add: tabs_get_def assigned_example_def unassigned_example_def tabN_def tabP_def)
  have fields: "tab_id tabP = 8" "tab_url tabP = Some ''https://start.example/''"
    "tab_index tabP = 3" "tab_active tabP = False" "tab_openerTabId tabP = None"
    "tab_incognito tabP = False" "tab_cookieStoreId tabP = Some ''firefox-default''"
    by (simp_all add: tabP_def)
  have request: "req_url default_port80_request = ''http://example.com:80/page''"
    "req_frameId default_port80_request = 0"
    "req_tabId default_port80_request = 8" "req_requestId default_port80_request = ''301''"
    by (simp_all add: default_port80_request_def)
  have stored: "storage_local assigned_example ''siteContainerMap@@_example.com''
      = Some (Assignment \<lparr>ss_userContextId = ''3'', ss_neverAsk = False, ss_hostname = None\<rparr>)"
    "identities assigned_example = [''firefox-container-3'']"
    "exemptedTabs assigned_example = Map.empty"
    "canceledRequests assigned_example = Map.empty" "lastCreatedTab assigned_example = None"
    by (simp_all add: assigned_example_def unassigned_example_def)
  have c1: "onBeforeRequest_candidacy platformURL default_port80_request assigned_example
      = Returned (Inr Allow) [RemoveContextMenu]"
    by (simp add: onBeforeRequest_candidacy_def request storageAreaGet_def key_example stored found
          stored_userContextId_def getCookieStoreId_def container_of_tabP truthy_def Let_def)
  have c0: "assignManager_onBeforeRequest_candidacy platformURL default_port80_request assigned_example
      = Candidate tabP None
          (Assignment \<lparr>ss_userContextId = ''3'', ss_neverAsk = False, ss_hostname = None\<rparr>)"
    by (simp add: assignManager_onBeforeRequest_candidacy_def request assignManager_storageArea_get_def
          key_example stored found stored_userContextId_def backgroundLogic_cookieStoreId_def
          container_of_tabP same_string_def fields assignManager_isExempted_def Let_def)
  have r: "registerCanceled default_port80_request 8 Map.empty
      = (False, [8 \<mapsto> \<lparr>requestIds = {''301''}, urls = {''http://example.com:80/page''}\<rparr>])"
    by (simp add: registerCanceled_def request)
  have handled:
    "response (onBeforeRequest platformURL default_port80_request assigned_example) = Inr Allow"
    "reroutes (onBeforeRequest platformURL default_port80_request assigned_example) = []"
    "response (assignManager_onBeforeRequest platformURL default_port80_request assigned_example)
       = Inr Cancel"
    "reroutes (assignManager_onBeforeRequest platformURL default_port80_request assigned_example)
       = [\<lparr>rl_url = ''http://example.com:80/page'', rl_currentUserContextId = None,
           rl_userContextId = Some ''3'', rl_index = 4, rl_active = False,
           rl_neverAsk = False, rl_openerTabId = Some 8\<rparr>]"
    by (simp_all add: onBeforeRequest_def c1 assignManager_onBeforeRequest_def c0 reroutes_def
          assignManager_onBeforeRequest_cancel_def Let_def fields stored r
          NEW_TAB_PAGES_def stored_userContextId_def stored_neverAsk_def request)
  from handled found fields(7) example_assigned show ?thesis
    by (simp add: key_example request)
qed


subsection \<open>Sorting tabs\<close>

text \<open>
  C5.  \<^verbatim>\<open>sortTabs\<close> is idempotent: running it twice gives the same final order of the tabs in every
  window as running it once.  The refactored \<^verbatim>\<open>sortTabs\<close> (\<^verbatim>\<open>background-page-1.ts\<close>) does not do
  that in a window that holds a tab outside every container.  Such a tab is left out of the
  groups (lines 287-298) and not counted in \<^verbatim>\<open>pos\<close>, and \<^verbatim>\<open>pos\<close> is incremented before each move
  (line 311), so the tabs of the groups go to the positions 1, 2, ... and push the tab that was
  left out around.  In the window of \<open>sort_example\<close>, with tab 11 in container 1, tab 12 in
  container 2 and tab 13 outside every container, one run gives the order 11, 13, 12 and a
  second run the order 13, 11, 12.
\<close>

theorem sortTabs_twice_differs_from_once:
  "map tab_id (open_tabs (sortTabs digits_localeCompare sort_example)) = [11, 13, 12] \<and>
   map tab_id (open_tabs (sortTabs digits_localeCompare (sortTabs digits_localeCompare sort_example)))
     = [13, 11, 12]"
  by code_simp

text \<open>
  The \<^verbatim>\<open>sortTabs\<close> of \<^verbatim>\<open>background-page.ts\<close> puts every tab in a group, the tabs outside every
  container in the group of the key \<^verbatim>\<open>false\<close>, and in the same window a second run changes
  nothing.
\<close>

lemma backgroundLogic_sortTabs_twice_as_once:
  "map tab_id (open_tabs (backgroundLogic_sortTabs digits_greater sort_example)) = [13, 11, 12] \<and>
   map tab_id
     (open_tabs (backgroundLogic_sortTabs digits_greater
                   (backgroundLogic_sortTabs digits_greater sort_example)))
     = [13, 11, 12]"
  by code_simp

end
